theory Spec2Isabelle
  imports Main "HOL-Library.AList"
begin

section \<open>Python values shared by both services\<close>

text \<open>
  The emulator keeps every registry in an \<^verbatim>\<open>OrderedDict\<close> (and the nested version
  collections in plain \<^verbatim>\<open>dict\<close>s, which keep insertion order as well).  Such a
  dictionary is an association list in insertion order: \<^const>\<open>map_of\<close> is the lookup
  \<^verbatim>\<open>d[k]\<close>, \<^const>\<open>AList.update\<close> is the assignment \<^verbatim>\<open>d[k] = v\<close> (the
  value is replaced where the key stands, a new key goes to the end) and
  \<^const>\<open>AList.delete\<close> is \<^verbatim>\<open>del d[k]\<close>.

  Opaque request payloads are values of \<open>json\<close>.  Strings are lists of code points
  below 256.  Creation timestamps and the \<^verbatim>\<open>to_dict\<close>/\<^verbatim>\<open>as_dict\<close>
  serialisers are left out: no operation below reads them.
\<close>

type_synonym ('k, 'v) odict = "('k \<times> 'v) list"

definition od_mem :: "'k \<Rightarrow> ('k, 'v) odict \<Rightarrow> bool" where
  "od_mem k d = (map_of d k \<noteq> None)"

definition od_values :: "('k, 'v) odict \<Rightarrow> 'v list" where
  "od_values d = map snd d"

datatype json =
    JNull
  | JBool bool
  | JNum int
  | JStr string
  | JList "json list"
  | JDict "(string \<times> json) list"

subsection \<open>\<^verbatim>\<open>repr\<close> of a string and \<^verbatim>\<open>str\<close> of a list of strings\<close>

definition hexdigit :: "nat \<Rightarrow> char" where
  "hexdigit d = ''0123456789abcdef'' ! d"

definition backslash :: char where
  "backslash = CHR 0x5C"

definition squote :: char where
  "squote = CHR 0x27"

definition dquote :: char where
  "dquote = CHR 0x22"

text \<open>Code points that \<^verbatim>\<open>repr\<close> writes as \<^verbatim>\<open>\xNN\<close>: the non-printable ones.\<close>

definition unprintable :: "char \<Rightarrow> bool" where
  "unprintable c = (let n = (of_char c :: nat) in n < 32 \<or> (127 \<le> n \<and> n \<le> 160) \<or> n = 173)"

definition repr_char :: "char \<Rightarrow> char \<Rightarrow> string" where
  "repr_char q c =
     (if c = q \<or> c = backslash then [backslash, c]
      else if c = CHR 0x09 then [backslash, CHR ''t'']
      else if c = CHR 0x0A then [backslash, CHR ''n'']
      else if c = CHR 0x0D then [backslash, CHR ''r'']
      else if unprintable c then
        [backslash, CHR ''x'', hexdigit (of_char c div 16), hexdigit (of_char c mod 16)]
      else [c])"

definition repr_quote :: "string \<Rightarrow> char" where
  "repr_quote s = (if squote \<in> set s \<and> dquote \<notin> set s then dquote else squote)"

definition py_repr :: "string \<Rightarrow> string" where
  "py_repr s = (let q = repr_quote s in q # concat (map (repr_char q) s) @ [q])"

fun join :: "string \<Rightarrow> string list \<Rightarrow> string" where
  "join sep [] = []"
| "join sep [x] = x"
| "join sep (x # y # ys) = x @ sep @ join sep (y # ys)"

definition py_str_list :: "string list \<Rightarrow> string" where
  "py_str_list xs = ''['' @ join '', '' (map py_repr xs) @ '']''"

subsection \<open>\<^verbatim>\<open>int(s)\<close> and list indexing\<close>

text \<open>
  The characters that \<^verbatim>\<open>int\<close> skips around a literal: the ASCII whitespace (tab to
  carriage return, and the space) and the two spaces of Latin-1 beyond ASCII (next line
  and no-break space), which the interpreter rewrites to a space before it parses.  The
  separators 28 to 31 are not skipped.
\<close>

definition py_isspace :: "char \<Rightarrow> bool" where
  "py_isspace c = ((of_char c :: nat) \<in> {9, 10, 11, 12, 13, 32, 133, 160})"

definition is_digit :: "char \<Rightarrow> bool" where
  "is_digit c = (48 \<le> (of_char c :: nat) \<and> (of_char c :: nat) \<le> 57)"

definition digit_val :: "char \<Rightarrow> nat" where
  "digit_val c = of_char c - 48"

text \<open>
  After the sign the parser scans the longest run of digits and underscores.  Two
  underscores in a row, and an underscore at either end of the run, are refused.
\<close>

definition run_char :: "char \<Rightarrow> bool" where
  "run_char c = (is_digit c \<or> c = CHR ''_'')"

fun double_underscore :: "string \<Rightarrow> bool" where
  "double_underscore (a # b # cs) =
     ((a = CHR ''_'' \<and> b = CHR ''_'') \<or> double_underscore (b # cs))"
| "double_underscore _ = False"

definition run_value :: "string \<Rightarrow> nat" where
  "run_value run = foldl (\<lambda>acc c. 10 * acc + digit_val c) 0 (filter is_digit run)"

text \<open>\<^verbatim>\<open>str(n)\<close> of a natural number.\<close>

fun py_str_nat :: "nat \<Rightarrow> string" where
  "py_str_nat n =
     (if n < 10 then [''0123456789'' ! n]
      else py_str_nat (n div 10) @ [''0123456789'' ! (n mod 10)])"

declare py_str_nat.simps [simp del]

text \<open>
  The texts of the two \<^verbatim>\<open>ValueError\<close>s of \<^verbatim>\<open>int\<close>.  The first formats the literal
  with \<^verbatim>\<open>%.200R\<close>, at most 200 characters of its \<^verbatim>\<open>repr\<close>; the second reports a
  literal with more digits than the interpreter allows.
\<close>

definition value_error_str :: "string \<Rightarrow> string" where
  "value_error_str s = ''invalid literal for int() with base 10: '' @ take 200 (py_repr s)"

definition max_str_digits_error_str :: "nat \<Rightarrow> nat \<Rightarrow> string" where
  "max_str_digits_error_str max_str_digits digits =
     ''Exceeds the limit ('' @ py_str_nat max_str_digits
     @ '' digits) for integer string conversion: value has '' @ py_str_nat digits
     @ '' digits; use sys.set_int_max_str_digits() to increase the limit''"

text \<open>
  \<^verbatim>\<open>int(s)\<close> in base 10; \<open>Inl\<close> carries the text of the \<^verbatim>\<open>ValueError\<close>.  Leading
  whitespace is skipped, one sign is allowed, the run of digits is scanned and checked,
  and only whitespace may follow it.  \<open>max_str_digits\<close> is the interpreter's limit on the
  digits of a literal, \<^verbatim>\<open>sys.get_int_max_str_digits()\<close>: 4300 unless configured, and 0
  for no limit, which is also how an interpreter older than the limit behaves.  The
  limit is looked at for a run of more than 640 digits only, and before the characters
  after the run.
\<close>

definition py_int :: "nat \<Rightarrow> string \<Rightarrow> string + int" where
  "py_int max_str_digits s =
     (let t = dropWhile py_isspace s;
          u = (if t \<noteq> [] \<and> (hd t = CHR ''+'' \<or> hd t = CHR ''-'') then tl t else t);
          run = takeWhile run_char u;
          rest = dropWhile run_char u;
          digits = length (filter is_digit run)
      in if (u \<noteq> [] \<and> hd u = CHR ''_'') \<or> double_underscore run
            \<or> (run \<noteq> [] \<and> last run = CHR ''_'')
         then Inl (value_error_str s)
         else if 640 < digits \<and> 0 < max_str_digits \<and> max_str_digits < digits
         then Inl (max_str_digits_error_str max_str_digits digits)
         else if run = [] \<or> dropWhile py_isspace rest \<noteq> []
         then Inl (value_error_str s)
         else Inr (if t \<noteq> [] \<and> hd t = CHR ''-'' then - int (run_value run)
                   else int (run_value run)))"

text \<open>\<^verbatim>\<open>xs[i]\<close>: a negative index counts from the end; \<open>None\<close> is the \<^verbatim>\<open>IndexError\<close>.\<close>

definition py_index :: "'a list \<Rightarrow> int \<Rightarrow> 'a option" where
  "py_index xs i =
     (let n = int (length xs); j = (if i < 0 then n + i else i)
      in if 0 \<le> j \<and> j < n then Some (xs ! nat j) else None)"


section \<open>The data catalog service (\<^verbatim>\<open>moto/glue/models.py\<close>)\<close>

datatype glue_error =
    DatabaseAlreadyExistsException
  | DatabaseNotFoundException string
  | TableAlreadyExistsException
  | TableNotFoundException string
  | CrawlerAlreadyExistsException
  | CrawlerNotFoundException string
  | PartitionAlreadyExistsException
  | PartitionNotFoundException
  | VersionNotFoundException
  | JobNotFoundException string
  | JsonRESTError string string
  | KeyError string

text \<open>
  Modelled from the spec: \<^verbatim>\<open>moto.core.get_account_id\<close> is not among the sources; the
  spec's example ARNs carry the account 123456789012.  Only the evaluations on concrete
  states unfold it.
\<close>

definition get_account_id :: string where
  "get_account_id = ''123456789012''"

subsection \<open>Partitions and tables\<close>

text \<open>
  A partition input is a dictionary; \<open>Values\<close> is \<open>None\<close> when the key
  \<^verbatim>\<open>"Values"\<close> is absent, and \<open>pi_rest\<close> holds every other field.
\<close>

record partition_input =
  Values :: "string list option"
  pi_rest :: json

record FakePartition =
  p_database_name :: string
  p_table_name :: string
  p_partition_input :: partition_input
  p_values :: "string list"

definition FakePartition_init :: "string \<Rightarrow> string \<Rightarrow> partition_input \<Rightarrow> FakePartition" where
  "FakePartition_init database_name table_name partiton_input =
     \<lparr>p_database_name = database_name, p_table_name = table_name,
      p_partition_input = partiton_input,
      p_values = (case Values partiton_input of None \<Rightarrow> [] | Some vs \<Rightarrow> vs)\<rparr>"

record FakeTable =
  t_database_name :: string
  t_name :: string
  partitions :: "(string, FakePartition) odict"
  versions :: "json list"

definition table_update :: "FakeTable \<Rightarrow> json \<Rightarrow> FakeTable" where
  "table_update t table_input = t\<lparr>versions := versions t @ [table_input]\<rparr>"

definition FakeTable_init :: "string \<Rightarrow> string \<Rightarrow> json \<Rightarrow> FakeTable" where
  "FakeTable_init database_name table_name table_input =
     table_update \<lparr>t_database_name = database_name, t_name = table_name,
                    partitions = [], versions = []\<rparr> table_input"

text \<open>
  The version argument is an \<^verbatim>\<open>int\<close> or a string, as the caller passes it.  The first
  argument is the interpreter's digit limit, which \<^verbatim>\<open>int\<close> reads.
\<close>

datatype ver = VInt int | VStr string

definition get_version :: "nat \<Rightarrow> FakeTable \<Rightarrow> ver \<Rightarrow> glue_error + json" where
  "get_version max_str_digits t v =
     (case (case v of
              VInt i \<Rightarrow> Inr i
            | VStr s \<Rightarrow>
                (case py_int max_str_digits s of
                   Inl e \<Rightarrow> Inl (JsonRESTError ''InvalidInputException'' e)
                 | Inr k \<Rightarrow> Inr (k - 1))) of
        Inl e \<Rightarrow> Inl e
      | Inr i \<Rightarrow>
          (case py_index (versions t) i of
             None \<Rightarrow> Inl VersionNotFoundException
           | Some x \<Rightarrow> Inr x))"

text \<open>
  The operations on a table return the outcome and the table as the call leaves it,
  also when the call raises.
\<close>

definition create_partition :: "FakeTable \<Rightarrow> partition_input \<Rightarrow> (glue_error + unit) \<times> FakeTable" where
  "create_partition t partiton_input =
     (let partition = FakePartition_init (t_database_name t) (t_name t) partiton_input;
          key = py_str_list (p_values partition)
      in if od_mem key (partitions t) then (Inl PartitionAlreadyExistsException, t)
         else (Inr (), t\<lparr>partitions := AList.update key partition (partitions t)\<rparr>))"

text \<open>
  The ordered listing \<^verbatim>\<open>self.partitions.values()\<close> that \<^verbatim>\<open>get_partitions\<close> filters.
  (The filter, \<^verbatim>\<open>moto/glue/utils.py\<close>, is not among the sources.)
\<close>

definition get_partitions_all :: "FakeTable \<Rightarrow> FakePartition list" where
  "get_partitions_all t = od_values (partitions t)"

definition get_partition :: "FakeTable \<Rightarrow> string list \<Rightarrow> glue_error + FakePartition" where
  "get_partition t vals =
     (case map_of (partitions t) (py_str_list vals) of
        None \<Rightarrow> Inl PartitionNotFoundException
      | Some p \<Rightarrow> Inr p)"

definition update_partition ::
  "FakeTable \<Rightarrow> string list \<Rightarrow> partition_input \<Rightarrow> (glue_error + unit) \<times> FakeTable" where
  "update_partition t old_values partiton_input =
     (let partition = FakePartition_init (t_database_name t) (t_name t) partiton_input;
          key = py_str_list (p_values partition)
      in case Values partiton_input of
           None \<Rightarrow> (Inl (KeyError ''Values''), t)
         | Some vs \<Rightarrow>
             if old_values = vs then
               (if \<not> od_mem key (partitions t) then (Inl PartitionNotFoundException, t)
                else (Inr (), t\<lparr>partitions := AList.update key partition (partitions t)\<rparr>))
             else
               (case map_of (partitions t) (py_str_list old_values) of
                  None \<Rightarrow> (Inl PartitionNotFoundException, t)
                | Some removed \<Rightarrow>
                    (let t1 = t\<lparr>partitions := AList.delete (py_str_list old_values) (partitions t)\<rparr>
                     in if od_mem key (partitions t1) then (Inl PartitionAlreadyExistsException, t1)
                        else (Inr (), t1\<lparr>partitions := AList.update key partition (partitions t1)\<rparr>))))"

definition delete_partition :: "FakeTable \<Rightarrow> string list \<Rightarrow> (glue_error + unit) \<times> FakeTable" where
  "delete_partition t vals =
     (if od_mem (py_str_list vals) (partitions t)
      then (Inr (), t\<lparr>partitions := AList.delete (py_str_list vals) (partitions t)\<rparr>)
      else (Inl PartitionNotFoundException, t))"


subsection \<open>Databases, crawlers and jobs\<close>

record FakeDatabase =
  db_name :: string
  db_input :: json
  tables :: "(string, FakeTable) odict"

definition FakeDatabase_init :: "string \<Rightarrow> json \<Rightarrow> FakeDatabase" where
  "FakeDatabase_init database_name database_input =
     \<lparr>db_name = database_name, db_input = database_input, tables = []\<rparr>"

record FakeCrawler =
  cr_name :: string
  cr_role :: json
  cr_database_name :: json
  cr_description :: json
  cr_targets :: json
  cr_schedule :: json
  cr_classifiers :: json
  cr_table_prefix :: json
  cr_schema_change_policy :: json
  cr_recrawl_policy :: json
  cr_lineage_configuration :: json
  cr_configuration :: json
  cr_crawler_security_configuration :: json
  cr_state :: string
  cr_version :: int
  cr_crawl_elapsed_time :: int
  cr_last_crawl_info :: json
  cr_arn :: string

definition FakeCrawler_init ::
  "string \<Rightarrow> json \<Rightarrow> json \<Rightarrow> json \<Rightarrow> json \<Rightarrow> json \<Rightarrow> json \<Rightarrow> json \<Rightarrow> json \<Rightarrow> json \<Rightarrow> json \<Rightarrow> json
     \<Rightarrow> json \<Rightarrow> FakeCrawler" where
  "FakeCrawler_init name role database_name description targets schedule classifiers
       table_prefix schema_change_policy recrawl_policy lineage_configuration configuration
       crawler_security_configuration =
     \<lparr>cr_name = name, cr_role = role, cr_database_name = database_name,
      cr_description = description, cr_targets = targets, cr_schedule = schedule,
      cr_classifiers = classifiers, cr_table_prefix = table_prefix,
      cr_schema_change_policy = schema_change_policy, cr_recrawl_policy = recrawl_policy,
      cr_lineage_configuration = lineage_configuration, cr_configuration = configuration,
      cr_crawler_security_configuration = crawler_security_configuration,
      cr_state = ''READY'', cr_version = 1, cr_crawl_elapsed_time = 0,
      cr_last_crawl_info = JNull,
      cr_arn = ''arn:aws:glue:us-east-1:'' @ get_account_id @ '':crawler/'' @ name\<rparr>"

record FakeJob =
  job_name :: string
  job_description :: json
  job_log_uri :: json
  job_role :: json
  job_execution_property :: json
  job_command :: json
  job_default_arguments :: json
  job_non_overridable_arguments :: json
  job_connections :: json
  job_max_retries :: json
  job_allocated_capacity :: json
  job_timeout :: json
  job_state :: string
  job_max_capacity :: json
  job_security_configuration :: json
  job_notification_property :: json
  job_glue_version :: json
  job_number_of_workers :: json
  job_worker_type :: json
  job_arn :: string

definition FakeJob_init ::
  "string \<Rightarrow> json \<Rightarrow> json \<Rightarrow> json \<Rightarrow> json \<Rightarrow> json \<Rightarrow> json \<Rightarrow> json \<Rightarrow> json \<Rightarrow> json \<Rightarrow> json \<Rightarrow> json
     \<Rightarrow> json \<Rightarrow> json \<Rightarrow> json \<Rightarrow> json \<Rightarrow> json \<Rightarrow> json \<Rightarrow> FakeJob" where
  "FakeJob_init name role command description log_uri execution_property default_arguments
       non_overridable_arguments connections max_retries allocated_capacity timeout
       max_capacity security_configuration notification_property glue_version
       number_of_workers worker_type =
     \<lparr>job_name = name, job_description = description, job_log_uri = log_uri,
      job_role = role, job_execution_property = execution_property, job_command = command,
      job_default_arguments = default_arguments,
      job_non_overridable_arguments = non_overridable_arguments,
      job_connections = connections, job_max_retries = max_retries,
      job_allocated_capacity = allocated_capacity, job_timeout = timeout,
      job_state = ''READY'', job_max_capacity = max_capacity,
      job_security_configuration = security_configuration,
      job_notification_property = notification_property, job_glue_version = glue_version,
      job_number_of_workers = number_of_workers, job_worker_type = worker_type,
      job_arn = ''arn:aws:glue:us-east-1:'' @ get_account_id @ '':job/'' @ name\<rparr>"

text \<open>
  Modelled from the spec: the tagging service (\<^verbatim>\<open>moto/utilities/tagging_service.py\<close>)
  is not among the sources.  The spec: tagging merges the given pairs onto whatever is
  recorded for the ARN, the later value winning per key.
\<close>

type_synonym tagging_service = "(string, (string, string) odict) odict"

definition tagger_tag_resource ::
  "tagging_service \<Rightarrow> string \<Rightarrow> (string \<times> string) list \<Rightarrow> tagging_service" where
  "tagger_tag_resource tg arn tags =
     AList.update arn
       (fold (\<lambda>kv. AList.update (fst kv) (snd kv)) tags
          (case map_of tg arn of None \<Rightarrow> [] | Some ts \<Rightarrow> ts)) tg"

text \<open>
  The backend of one region.  (The registries of the schema registry and the unused
  \<^verbatim>\<open>job_runs\<close> are left out.)
\<close>

record GlueBackend =
  glue_region_name :: string
  glue_account_id :: string
  databases :: "(string, FakeDatabase) odict"
  crawlers :: "(string, FakeCrawler) odict"
  jobs :: "(string, FakeJob) odict"
  tagger :: tagging_service

definition GlueBackend_init :: "string \<Rightarrow> string \<Rightarrow> GlueBackend" where
  "GlueBackend_init region_name account_id =
     \<lparr>glue_region_name = region_name, glue_account_id = account_id,
      databases = [], crawlers = [], jobs = [], tagger = []\<rparr>"

text \<open>\<open>tags\<close> is \<open>None\<close> for Python's \<^verbatim>\<open>None\<close> (\<^verbatim>\<open>tags or {}\<close>).\<close>

definition tag_resource ::
  "GlueBackend \<Rightarrow> string \<Rightarrow> (string \<times> string) list option \<Rightarrow> GlueBackend" where
  "tag_resource b resource_arn tags =
     b\<lparr>tagger := tagger_tag_resource (tagger b) resource_arn
                    (case tags of None \<Rightarrow> [] | Some ts \<Rightarrow> ts)\<rparr>"

definition create_database ::
  "GlueBackend \<Rightarrow> string \<Rightarrow> json \<Rightarrow> (glue_error + FakeDatabase) \<times> GlueBackend" where
  "create_database b database_name database_input =
     (if od_mem database_name (databases b) then (Inl DatabaseAlreadyExistsException, b)
      else (let database = FakeDatabase_init database_name database_input
            in (Inr database,
                b\<lparr>databases := AList.update database_name database (databases b)\<rparr>)))"

definition get_database :: "GlueBackend \<Rightarrow> string \<Rightarrow> glue_error + FakeDatabase" where
  "get_database b database_name =
     (case map_of (databases b) database_name of
        None \<Rightarrow> Inl (DatabaseNotFoundException database_name)
      | Some d \<Rightarrow> Inr d)"

definition create_table ::
  "GlueBackend \<Rightarrow> string \<Rightarrow> string \<Rightarrow> json \<Rightarrow> (glue_error + FakeTable) \<times> GlueBackend" where
  "create_table b database_name table_name table_input =
     (case get_database b database_name of
        Inl e \<Rightarrow> (Inl e, b)
      | Inr database \<Rightarrow>
          if od_mem table_name (tables database) then (Inl TableAlreadyExistsException, b)
          else (let table = FakeTable_init database_name table_name table_input
                in (Inr table,
                    b\<lparr>databases := AList.update database_name
                         (database\<lparr>tables := AList.update table_name table (tables database)\<rparr>)
                         (databases b)\<rparr>)))"

definition get_table :: "GlueBackend \<Rightarrow> string \<Rightarrow> string \<Rightarrow> glue_error + FakeTable" where
  "get_table b database_name table_name =
     (case get_database b database_name of
        Inl e \<Rightarrow> Inl e
      | Inr database \<Rightarrow>
          (case map_of (tables database) table_name of
             None \<Rightarrow> Inl (TableNotFoundException table_name)
           | Some t \<Rightarrow> Inr t))"

definition create_crawler ::
  "GlueBackend \<Rightarrow> string \<Rightarrow> json \<Rightarrow> json \<Rightarrow> json \<Rightarrow> json \<Rightarrow> json \<Rightarrow> json \<Rightarrow> json \<Rightarrow> json \<Rightarrow> json
     \<Rightarrow> json \<Rightarrow> json \<Rightarrow> json \<Rightarrow> (string \<times> string) list option
     \<Rightarrow> (glue_error + unit) \<times> GlueBackend" where
  "create_crawler b name role database_name description targets schedule classifiers
       table_prefix schema_change_policy recrawl_policy lineage_configuration configuration
       crawler_security_configuration tags =
     (if od_mem name (crawlers b) then (Inl CrawlerAlreadyExistsException, b)
      else (let crawler = FakeCrawler_init name role database_name description targets
                  schedule classifiers table_prefix schema_change_policy recrawl_policy
                  lineage_configuration configuration crawler_security_configuration;
                b1 = tag_resource b (cr_arn crawler) tags
            in (Inr (), b1\<lparr>crawlers := AList.update name crawler (crawlers b1)\<rparr>)))"

definition get_crawler :: "GlueBackend \<Rightarrow> string \<Rightarrow> glue_error + FakeCrawler" where
  "get_crawler b name =
     (case map_of (crawlers b) name of
        None \<Rightarrow> Inl (CrawlerNotFoundException name)
      | Some c \<Rightarrow> Inr c)"

definition create_job ::
  "GlueBackend \<Rightarrow> string \<Rightarrow> json \<Rightarrow> json \<Rightarrow> json \<Rightarrow> json \<Rightarrow> json \<Rightarrow> json \<Rightarrow> json \<Rightarrow> json \<Rightarrow> json
     \<Rightarrow> json \<Rightarrow> json \<Rightarrow> json \<Rightarrow> json \<Rightarrow> (string \<times> string) list option \<Rightarrow> json \<Rightarrow> json
     \<Rightarrow> json \<Rightarrow> json \<Rightarrow> (glue_error + string) \<times> GlueBackend" where
  "create_job b name role command description log_uri execution_property default_arguments
       non_overridable_arguments connections max_retries allocated_capacity timeout
       max_capacity security_configuration tags notification_property glue_version
       number_of_workers worker_type =
     (let job = FakeJob_init name role command description log_uri execution_property
                  default_arguments non_overridable_arguments connections max_retries
                  allocated_capacity timeout max_capacity security_configuration
                  notification_property glue_version number_of_workers worker_type;
          b1 = tag_resource b (job_arn job) tags
      in (Inr name, b1\<lparr>jobs := AList.update name job (jobs b1)\<rparr>))"

definition get_job :: "GlueBackend \<Rightarrow> string \<Rightarrow> glue_error + FakeJob" where
  "get_job b name =
     (case map_of (jobs b) name of
        None \<Rightarrow> Inl (JobNotFoundException name)
      | Some j \<Rightarrow> Inr j)"


section \<open>The edge orchestration service (\<^verbatim>\<open>moto/greengrass/models.py\<close>)\<close>

datatype gg_error =
    GreengrassClientError string string
  | IdNotFoundException string
  | InvalidInputException string
  | InvalidContainerDefinitionException string
  | GG_VersionNotFoundException string
  | GG_KeyError string
  | GG_IndexError
  | PyException string

subsection \<open>The regular expressions\<close>

text \<open>
  Each pattern of the source is a sequence of literals, \<^verbatim>\<open>[class]+\<close> and
  \<^verbatim>\<open>[class]{n}\<close>, anchored at both ends.  Every \<^verbatim>\<open>+\<close> is followed by a literal whose
  first character is outside the class (or by the end), so the longest run is the only
  candidate and matching needs no backtracking.  \<^verbatim>\<open>$\<close> matches at the end and before
  a final newline.
\<close>

datatype piece = Lit string | Plus "char \<Rightarrow> bool" | Rep nat "char \<Rightarrow> bool"

fun match_piece :: "piece \<Rightarrow> string \<Rightarrow> string option" where
  "match_piece (Lit p) s = (if take (length p) s = p then Some (drop (length p) s) else None)"
| "match_piece (Plus P) s = (if takeWhile P s = [] then None else Some (dropWhile P s))"
| "match_piece (Rep n P) s =
     (if n \<le> length s \<and> list_all P (take n s) then Some (drop n s) else None)"

fun match_pieces :: "piece list \<Rightarrow> string \<Rightarrow> string option" where
  "match_pieces [] s = Some s"
| "match_pieces (p # ps) s =
     (case match_piece p s of None \<Rightarrow> None | Some r \<Rightarrow> match_pieces ps r)"

definition re_match :: "piece list \<Rightarrow> string \<Rightarrow> bool" where
  "re_match ps s =
     (case match_pieces ps s of None \<Rightarrow> False | Some r \<Rightarrow> r = [] \<or> r = [CHR 0x0A])"

definition is_lower :: "char \<Rightarrow> bool" where
  "is_lower c = (97 \<le> (of_char c :: nat) \<and> (of_char c :: nat) \<le> 122)"

definition is_upper :: "char \<Rightarrow> bool" where
  "is_upper c = (65 \<le> (of_char c :: nat) \<and> (of_char c :: nat) \<le> 90)"

text \<open>\<^verbatim>\<open>[a-zA-Z0-9-]\<close>, \<^verbatim>\<open>[a-zA-Z0-9-_]\<close> and \<^verbatim>\<open>[a-z0-9-]\<close>.\<close>

definition alnum_dash :: "char \<Rightarrow> bool" where
  "alnum_dash c = (is_lower c \<or> is_upper c \<or> is_digit c \<or> c = CHR ''-'')"

definition alnum_dash_us :: "char \<Rightarrow> bool" where
  "alnum_dash_us c = (is_lower c \<or> is_upper c \<or> is_digit c \<or> c = CHR ''-'' \<or> c = CHR ''_'')"

definition lower_digit_dash :: "char \<Rightarrow> bool" where
  "lower_digit_dash c = (is_lower c \<or> is_digit c \<or> c = CHR ''-'')"

definition thing_arn_regex :: "piece list" where
  "thing_arn_regex =
     [Lit ''arn:aws:iot:'', Plus alnum_dash, Lit '':'', Rep 12 is_digit, Lit '':thing/'',
      Plus alnum_dash]"

definition function_arn_regex :: "piece list" where
  "function_arn_regex =
     [Lit ''arn:aws:lambda:'', Plus alnum_dash, Lit '':'', Rep 12 is_digit,
      Lit '':function:'', Plus alnum_dash_us, Lit '':'', Plus alnum_dash_us]"

definition def_ver_arn_regex :: "string \<Rightarrow> piece list" where
  "def_ver_arn_regex kind =
     [Lit ''arn:aws:greengrass:'', Plus alnum_dash, Lit '':'', Rep 12 is_digit,
      Lit ('':greengrass/definition/'' @ kind @ ''/''), Rep 36 lower_digit_dash,
      Lit ''/versions/'', Rep 36 lower_digit_dash]"

text \<open>\<^verbatim>\<open>s.split(c)\<close> and \<^verbatim>\<open>s.startswith(p)\<close>.\<close>

fun py_split :: "char \<Rightarrow> string \<Rightarrow> string list" where
  "py_split c [] = [[]]"
| "py_split c (x # xs) =
     (let r = py_split c xs in if x = c then [] # r else (x # hd r) # tl r)"

definition startswith :: "string \<Rightarrow> string \<Rightarrow> bool" where
  "startswith s p = (take (length p) s = p)"

subsection \<open>Request payloads\<close>

type_synonym pydict = "(string, json) odict"

text \<open>
  A subscription, and the initial version of a subscription definition
  (\<open>Subscriptions\<close> is \<open>None\<close> when the key is absent).
\<close>

record subscription =
  Id :: string
  Source :: string
  Subject :: string
  Target :: string

record subscription_initial_version =
  Subscriptions :: "subscription list option"

text \<open>
  A resource.  The two data fields are the entries of its \<^verbatim>\<open>ResourceDataContainer\<close>,
  \<open>None\<close> when the entry (or the container) is absent.
\<close>

record resource =
  res_Id :: string
  res_Name :: string
  LocalVolumeResourceData :: "(string, string) odict option"
  LocalDeviceResourceData :: "(string, string) odict option"

record resource_initial_version =
  Resources :: "resource list option"

record group_initial_version =
  CoreDefinitionVersionArn :: "string option"
  DeviceDefinitionVersionArn :: "string option"
  FunctionDefinitionVersionArn :: "string option"
  ResourceDefinitionVersionArn :: "string option"
  SubscriptionDefinitionVersionArn :: "string option"


subsection \<open>Definitions, versions and groups\<close>

text \<open>
  Every \<^verbatim>\<open>str(uuid.uuid4())\<close> of the source is an argument \<open>uuid\<close> of the model: the
  constructors and the creating operations take the identifiers they would draw.
\<close>

record FakeCoreDefinition =
  cd_region_name :: string
  cd_id :: string
  cd_arn :: string
  cd_latest_version :: string
  cd_latest_version_arn :: string
  cd_name :: string

definition FakeCoreDefinition_init :: "string \<Rightarrow> string \<Rightarrow> string \<Rightarrow> FakeCoreDefinition" where
  "FakeCoreDefinition_init uuid region_name name =
     \<lparr>cd_region_name = region_name, cd_id = uuid,
      cd_arn = ''arn:aws:greengrass:'' @ region_name @ '':'' @ get_account_id
        @ '':greengrass/definition/cores/'' @ uuid,
      cd_latest_version = [], cd_latest_version_arn = [], cd_name = name\<rparr>"

record FakeCoreDefinitionVersion =
  cdv_region_name :: string
  cdv_core_definition_id :: string
  cdv_definition :: json
  cdv_version :: string
  cdv_arn :: string

definition FakeCoreDefinitionVersion_init :: "string \<Rightarrow> string \<Rightarrow> string \<Rightarrow> json \<Rightarrow> FakeCoreDefinitionVersion" where
  "FakeCoreDefinitionVersion_init uuid region_name core_definition_id definition =
     \<lparr>cdv_region_name = region_name, cdv_core_definition_id = core_definition_id,
      cdv_definition = definition, cdv_version = uuid,
      cdv_arn = ''arn:aws:greengrass:'' @ region_name @ '':'' @ get_account_id
        @ '':greengrass/definition/cores/'' @ core_definition_id @ ''/versions/'' @ uuid\<rparr>"

record FakeDeviceDefinition =
  dd_region_name :: string
  dd_id :: string
  dd_arn :: string
  dd_latest_version :: string
  dd_latest_version_arn :: string
  dd_name :: string
  dd_initial_version :: pydict

definition FakeDeviceDefinition_init :: "string \<Rightarrow> string \<Rightarrow> string \<Rightarrow> pydict \<Rightarrow> FakeDeviceDefinition" where
  "FakeDeviceDefinition_init uuid region_name name initial_version =
     \<lparr>dd_region_name = region_name, dd_id = uuid,
      dd_arn = ''arn:aws:greengrass:'' @ region_name @ '':'' @ get_account_id
        @ '':greengrass/definition/devices/'' @ uuid,
      dd_latest_version = [], dd_latest_version_arn = [], dd_name = name,
      dd_initial_version = initial_version\<rparr>"

record FakeDeviceDefinitionVersion =
  ddv_region_name :: string
  ddv_device_definition_id :: string
  ddv_devices :: json
  ddv_version :: string
  ddv_arn :: string

definition FakeDeviceDefinitionVersion_init :: "string \<Rightarrow> string \<Rightarrow> string \<Rightarrow> json \<Rightarrow> FakeDeviceDefinitionVersion" where
  "FakeDeviceDefinitionVersion_init uuid region_name device_definition_id devices =
     \<lparr>ddv_region_name = region_name, ddv_device_definition_id = device_definition_id,
      ddv_devices = devices, ddv_version = uuid,
      ddv_arn = ''arn:aws:greengrass:'' @ region_name @ '':'' @ get_account_id
        @ '':greengrass/definition/devices/'' @ device_definition_id @ ''/versions/'' @ uuid\<rparr>"

record FakeResourceDefinition =
  rd_region_name :: string
  rd_id :: string
  rd_arn :: string
  rd_latest_version :: string
  rd_latest_version_arn :: string
  rd_name :: string
  rd_initial_version :: resource_initial_version

definition FakeResourceDefinition_init :: "string \<Rightarrow> string \<Rightarrow> string \<Rightarrow> resource_initial_version \<Rightarrow> FakeResourceDefinition" where
  "FakeResourceDefinition_init uuid region_name name initial_version =
     \<lparr>rd_region_name = region_name, rd_id = uuid,
      rd_arn = ''arn:aws:greengrass:'' @ region_name @ '':'' @ get_account_id
        @ '':greengrass/definition/resources/'' @ uuid,
      rd_latest_version = [], rd_latest_version_arn = [], rd_name = name,
      rd_initial_version = initial_version\<rparr>"

record FakeResourceDefinitionVersion =
  rdv_region_name :: string
  rdv_resource_definition_id :: string
  rdv_resources :: "resource list"
  rdv_version :: string
  rdv_arn :: string

definition FakeResourceDefinitionVersion_init :: "string \<Rightarrow> string \<Rightarrow> string \<Rightarrow> resource list \<Rightarrow> FakeResourceDefinitionVersion" where
  "FakeResourceDefinitionVersion_init uuid region_name resource_definition_id resources =
     \<lparr>rdv_region_name = region_name, rdv_resource_definition_id = resource_definition_id,
      rdv_resources = resources, rdv_version = uuid,
      rdv_arn = ''arn:aws:greengrass:'' @ region_name @ '':'' @ get_account_id
        @ '':greengrass/definition/resources/'' @ resource_definition_id @ ''/versions/'' @ uuid\<rparr>"

record FakeFunctionDefinition =
  fd_region_name :: string
  fd_id :: string
  fd_arn :: string
  fd_latest_version :: string
  fd_latest_version_arn :: string
  fd_name :: string
  fd_initial_version :: pydict

definition FakeFunctionDefinition_init :: "string \<Rightarrow> string \<Rightarrow> string \<Rightarrow> pydict \<Rightarrow> FakeFunctionDefinition" where
  "FakeFunctionDefinition_init uuid region_name name initial_version =
     \<lparr>fd_region_name = region_name, fd_id = uuid,
      fd_arn = ''arn:aws:greengrass:'' @ region_name @ '':'' @ get_account_id
        @ '':greengrass/definition/functions/'' @ uuid,
      fd_latest_version = [], fd_latest_version_arn = [], fd_name = name,
      fd_initial_version = initial_version\<rparr>"

record FakeFunctionDefinitionVersion =
  fdv_region_name :: string
  fdv_function_definition_id :: string
  fdv_functions :: json
  fdv_default_config :: json
  fdv_version :: string
  fdv_arn :: string

definition FakeFunctionDefinitionVersion_init :: "string \<Rightarrow> string \<Rightarrow> string \<Rightarrow> json \<Rightarrow> json \<Rightarrow> FakeFunctionDefinitionVersion" where
  "FakeFunctionDefinitionVersion_init uuid region_name function_definition_id functions default_config =
     \<lparr>fdv_region_name = region_name, fdv_function_definition_id = function_definition_id,
      fdv_functions = functions, fdv_default_config = default_config, fdv_version = uuid,
      fdv_arn = ''arn:aws:greengrass:'' @ region_name @ '':'' @ get_account_id
        @ '':greengrass/definition/functions/'' @ function_definition_id @ ''/versions/'' @ uuid\<rparr>"

record FakeSubscriptionDefinition =
  sd_region_name :: string
  sd_id :: string
  sd_arn :: string
  sd_latest_version :: string
  sd_latest_version_arn :: string
  sd_name :: string
  sd_initial_version :: subscription_initial_version

definition FakeSubscriptionDefinition_init :: "string \<Rightarrow> string \<Rightarrow> string \<Rightarrow> subscription_initial_version \<Rightarrow> FakeSubscriptionDefinition" where
  "FakeSubscriptionDefinition_init uuid region_name name initial_version =
     \<lparr>sd_region_name = region_name, sd_id = uuid,
      sd_arn = ''arn:aws:greengrass:'' @ region_name @ '':'' @ get_account_id
        @ '':greengrass/definition/subscriptions/'' @ uuid,
      sd_latest_version = [], sd_latest_version_arn = [], sd_name = name,
      sd_initial_version = initial_version\<rparr>"

record FakeSubscriptionDefinitionVersion =
  sdv_region_name :: string
  sdv_subscription_definition_id :: string
  sdv_subscriptions :: "subscription list"
  sdv_version :: string
  sdv_arn :: string

definition FakeSubscriptionDefinitionVersion_init :: "string \<Rightarrow> string \<Rightarrow> string \<Rightarrow> subscription list \<Rightarrow> FakeSubscriptionDefinitionVersion" where
  "FakeSubscriptionDefinitionVersion_init uuid region_name subscription_definition_id subscriptions =
     \<lparr>sdv_region_name = region_name, sdv_subscription_definition_id = subscription_definition_id,
      sdv_subscriptions = subscriptions, sdv_version = uuid,
      sdv_arn = ''arn:aws:greengrass:'' @ region_name @ '':'' @ get_account_id
        @ '':greengrass/definition/subscriptions/'' @ subscription_definition_id @ ''/versions/'' @ uuid\<rparr>"

record FakeGroup =
  g_region_name :: string
  g_group_id :: string
  g_name :: string
  g_arn :: string
  g_latest_version :: string
  g_latest_version_arn :: string

definition FakeGroup_init :: "string \<Rightarrow> string \<Rightarrow> string \<Rightarrow> FakeGroup" where
  "FakeGroup_init uuid region_name name =
     \<lparr>g_region_name = region_name, g_group_id = uuid, g_name = name,
      g_arn = ''arn:aws:greengrass:'' @ region_name @ '':'' @ get_account_id
        @ '':greengrass/groups/'' @ uuid,
      g_latest_version = [], g_latest_version_arn = []\<rparr>"

record FakeGroupVersion =
  gv_region_name :: string
  gv_group_id :: string
  gv_version :: string
  gv_arn :: string
  gv_core_definition_version_arn :: "string option"
  gv_device_definition_version_arn :: "string option"
  gv_function_definition_version_arn :: "string option"
  gv_resource_definition_version_arn :: "string option"
  gv_subscription_definition_version_arn :: "string option"

definition FakeGroupVersion_init ::
  "string \<Rightarrow> string \<Rightarrow> string \<Rightarrow> string option \<Rightarrow> string option \<Rightarrow> string option
     \<Rightarrow> string option \<Rightarrow> string option \<Rightarrow> FakeGroupVersion" where
  "FakeGroupVersion_init uuid region_name group_id core_definition_version_arn
       device_definition_version_arn function_definition_version_arn
       resource_definition_version_arn subscription_definition_version_arn =
     \<lparr>gv_region_name = region_name, gv_group_id = group_id, gv_version = uuid,
      gv_arn = ''arn:aws:greengrass:'' @ region_name @ '':'' @ get_account_id
        @ '':greengrass/groups/'' @ group_id @ ''/versions/'' @ uuid,
      gv_core_definition_version_arn = core_definition_version_arn,
      gv_device_definition_version_arn = device_definition_version_arn,
      gv_function_definition_version_arn = function_definition_version_arn,
      gv_resource_definition_version_arn = resource_definition_version_arn,
      gv_subscription_definition_version_arn = subscription_definition_version_arn\<rparr>"

text \<open>The backend of one region.  (The unused \<^verbatim>\<open>deployments\<close> are left out.)\<close>

record GreengrassBackend =
  gg_region_name :: string
  gg_account_id :: string
  groups :: "(string, FakeGroup) odict"
  group_versions :: "(string, (string, FakeGroupVersion) odict) odict"
  core_definitions :: "(string, FakeCoreDefinition) odict"
  core_definition_versions :: "(string, (string, FakeCoreDefinitionVersion) odict) odict"
  device_definitions :: "(string, FakeDeviceDefinition) odict"
  device_definition_versions :: "(string, (string, FakeDeviceDefinitionVersion) odict) odict"
  function_definitions :: "(string, FakeFunctionDefinition) odict"
  function_definition_versions :: "(string, (string, FakeFunctionDefinitionVersion) odict) odict"
  resource_definitions :: "(string, FakeResourceDefinition) odict"
  resource_definition_versions :: "(string, (string, FakeResourceDefinitionVersion) odict) odict"
  subscription_definitions :: "(string, FakeSubscriptionDefinition) odict"
  subscription_definition_versions ::
    "(string, (string, FakeSubscriptionDefinitionVersion) odict) odict"

definition GreengrassBackend_init :: "string \<Rightarrow> string \<Rightarrow> GreengrassBackend" where
  "GreengrassBackend_init region_name account_id =
     \<lparr>gg_region_name = region_name, gg_account_id = account_id,
      groups = [], group_versions = [],
      core_definitions = [], core_definition_versions = [],
      device_definitions = [], device_definition_versions = [],
      function_definitions = [], function_definition_versions = [],
      resource_definitions = [], resource_definition_versions = [],
      subscription_definitions = [], subscription_definition_versions = []\<rparr>"

text \<open>\<^verbatim>\<open>d.get(k, {})\<close> on a dictionary of dictionaries.\<close>

definition od_get_default :: "('k, ('j, 'v) odict) odict \<Rightarrow> 'k \<Rightarrow> ('j, 'v) odict" where
  "od_get_default d k = (case map_of d k of None \<Rightarrow> [] | Some vs \<Rightarrow> vs)"

subsection \<open>Core definitions\<close>

text \<open>
  An operation returns its outcome and the backend as the call leaves it, also when
  the call raises.  Where the source returns the object it has just stored and updated,
  the model returns the stored entry.
\<close>

definition create_core_definition_version ::
  "GreengrassBackend \<Rightarrow> string \<Rightarrow> string \<Rightarrow> json
     \<Rightarrow> (gg_error + FakeCoreDefinitionVersion) \<times> GreengrassBackend" where
  "create_core_definition_version b uuid core_definition_id cores =
     (let definition = JDict [(''Cores'', cores)];
          core_def_ver = FakeCoreDefinitionVersion_init uuid (gg_region_name b)
                           core_definition_id definition;
          core_def_vers = AList.update (cdv_version core_def_ver) core_def_ver
                            (od_get_default (core_definition_versions b) core_definition_id);
          b1 = b\<lparr>core_definition_versions :=
                    AList.update core_definition_id core_def_vers (core_definition_versions b)\<rparr>
      in case map_of (core_definitions b1) core_definition_id of
           None \<Rightarrow> (Inl (GG_KeyError core_definition_id), b1)
         | Some d \<Rightarrow>
             (Inr core_def_ver,
              b1\<lparr>core_definitions := AList.update core_definition_id
                    (d\<lparr>cd_latest_version := cdv_version core_def_ver,
                       cd_latest_version_arn := cdv_arn core_def_ver\<rparr>)
                    (core_definitions b1)\<rparr>))"

definition get_core_definition ::
  "GreengrassBackend \<Rightarrow> string \<Rightarrow> gg_error + FakeCoreDefinition" where
  "get_core_definition b core_definition_id =
     (case map_of (core_definitions b) core_definition_id of
        None \<Rightarrow> Inl (IdNotFoundException ''That Core List Definition does not exist'')
      | Some d \<Rightarrow> Inr d)"

definition create_core_definition ::
  "GreengrassBackend \<Rightarrow> string \<Rightarrow> string \<Rightarrow> string \<Rightarrow> pydict
     \<Rightarrow> (gg_error + FakeCoreDefinition) \<times> GreengrassBackend" where
  "create_core_definition b uuid ver_uuid name initial_version =
     (let core_definition = FakeCoreDefinition_init uuid (gg_region_name b) name;
          b1 = b\<lparr>core_definitions :=
                    AList.update (cd_id core_definition) core_definition (core_definitions b)\<rparr>
      in case map_of initial_version ''Cores'' of
           None \<Rightarrow> (Inl (GG_KeyError ''Cores''), b1)
         | Some cores \<Rightarrow>
             (case create_core_definition_version b1 ver_uuid (cd_id core_definition) cores of
                (Inl e, b2) \<Rightarrow> (Inl e, b2)
              | (Inr v, b2) \<Rightarrow>
                  (case get_core_definition b2 (cd_id core_definition) of
                     Inl e \<Rightarrow> (Inl e, b2)
                   | Inr d \<Rightarrow> (Inr d, b2))))"

definition get_core_definition_version ::
  "GreengrassBackend \<Rightarrow> string \<Rightarrow> string \<Rightarrow> gg_error + FakeCoreDefinitionVersion" where
  "get_core_definition_version b core_definition_id core_definition_version_id =
     (if \<not> od_mem core_definition_id (core_definitions b)
      then Inl (IdNotFoundException ''That cores definition does not exist.'')
      else case map_of (core_definition_versions b) core_definition_id of
             None \<Rightarrow> Inl (GG_KeyError core_definition_id)
           | Some vers \<Rightarrow>
               (case map_of vers core_definition_version_id of
                  None \<Rightarrow>
                    Inl (GG_VersionNotFoundException
                          (''Version '' @ core_definition_version_id
                           @ '' of Core List Definition '' @ core_definition_id
                           @ '' does not exist.''))
                | Some v \<Rightarrow> Inr v))"

subsection \<open>Device definitions\<close>

definition create_device_definition_version ::
  "GreengrassBackend \<Rightarrow> string \<Rightarrow> string \<Rightarrow> json
     \<Rightarrow> (gg_error + FakeDeviceDefinitionVersion) \<times> GreengrassBackend" where
  "create_device_definition_version b uuid device_definition_id devices =
     (case map_of (device_definitions b) device_definition_id of
        None \<Rightarrow> (Inl (IdNotFoundException ''That devices definition does not exist.''), b)
      | Some d \<Rightarrow>
          (let device_ver = FakeDeviceDefinitionVersion_init uuid (gg_region_name b)
                              device_definition_id devices;
               device_vers = AList.update (ddv_version device_ver) device_ver
                               (od_get_default (device_definition_versions b) device_definition_id)
           in (Inr device_ver,
               b\<lparr>device_definition_versions :=
                    AList.update device_definition_id device_vers (device_definition_versions b),
                  device_definitions := AList.update device_definition_id
                    (d\<lparr>dd_latest_version := ddv_version device_ver,
                       dd_latest_version_arn := ddv_arn device_ver\<rparr>)
                    (device_definitions b)\<rparr>)))"

definition get_device_definition ::
  "GreengrassBackend \<Rightarrow> string \<Rightarrow> gg_error + FakeDeviceDefinition" where
  "get_device_definition b device_definition_id =
     (case map_of (device_definitions b) device_definition_id of
        None \<Rightarrow> Inl (IdNotFoundException ''That Device List Definition does not exist.'')
      | Some d \<Rightarrow> Inr d)"

definition create_device_definition ::
  "GreengrassBackend \<Rightarrow> string \<Rightarrow> string \<Rightarrow> string \<Rightarrow> pydict
     \<Rightarrow> (gg_error + FakeDeviceDefinition) \<times> GreengrassBackend" where
  "create_device_definition b uuid ver_uuid name initial_version =
     (let device_def = FakeDeviceDefinition_init uuid (gg_region_name b) name initial_version;
          b1 = b\<lparr>device_definitions :=
                    AList.update (dd_id device_def) device_def (device_definitions b)\<rparr>;
          init_device_def = (case map_of (dd_initial_version device_def) ''Devices'' of
                               None \<Rightarrow> JDict [] | Some x \<Rightarrow> x)
      in case create_device_definition_version b1 ver_uuid (dd_id device_def) init_device_def of
           (Inl e, b2) \<Rightarrow> (Inl e, b2)
         | (Inr v, b2) \<Rightarrow>
             (case get_device_definition b2 (dd_id device_def) of
                Inl e \<Rightarrow> (Inl e, b2)
              | Inr d \<Rightarrow> (Inr d, b2)))"

subsection \<open>Function definitions\<close>

definition create_function_definition_version ::
  "GreengrassBackend \<Rightarrow> string \<Rightarrow> string \<Rightarrow> json \<Rightarrow> json
     \<Rightarrow> (gg_error + FakeFunctionDefinitionVersion) \<times> GreengrassBackend" where
  "create_function_definition_version b uuid function_definition_id functions default_config =
     (case map_of (function_definitions b) function_definition_id of
        None \<Rightarrow> (Inl (IdNotFoundException ''That lambdas does not exist.''), b)
      | Some d \<Rightarrow>
          (let func_ver = FakeFunctionDefinitionVersion_init uuid (gg_region_name b)
                            function_definition_id functions default_config;
               func_vers = AList.update (fdv_version func_ver) func_ver
                             (od_get_default (function_definition_versions b) function_definition_id)
           in (Inr func_ver,
               b\<lparr>function_definition_versions :=
                    AList.update function_definition_id func_vers (function_definition_versions b),
                  function_definitions := AList.update function_definition_id
                    (d\<lparr>fd_latest_version := fdv_version func_ver,
                       fd_latest_version_arn := fdv_arn func_ver\<rparr>)
                    (function_definitions b)\<rparr>)))"

definition get_function_definition ::
  "GreengrassBackend \<Rightarrow> string \<Rightarrow> gg_error + FakeFunctionDefinition" where
  "get_function_definition b function_definition_id =
     (case map_of (function_definitions b) function_definition_id of
        None \<Rightarrow> Inl (IdNotFoundException ''That Lambda List Definition does not exist.'')
      | Some d \<Rightarrow> Inr d)"

definition create_function_definition ::
  "GreengrassBackend \<Rightarrow> string \<Rightarrow> string \<Rightarrow> string \<Rightarrow> pydict
     \<Rightarrow> (gg_error + FakeFunctionDefinition) \<times> GreengrassBackend" where
  "create_function_definition b uuid ver_uuid name initial_version =
     (let func_def = FakeFunctionDefinition_init uuid (gg_region_name b) name initial_version;
          b1 = b\<lparr>function_definitions :=
                    AList.update (fd_id func_def) func_def (function_definitions b)\<rparr>;
          init_func_def = (case map_of (fd_initial_version func_def) ''Functions'' of
                             None \<Rightarrow> JDict [] | Some x \<Rightarrow> x);
          init_config = (case map_of (fd_initial_version func_def) ''DefaultConfig'' of
                           None \<Rightarrow> JDict [] | Some x \<Rightarrow> x)
      in case create_function_definition_version b1 ver_uuid (fd_id func_def)
                init_func_def init_config of
           (Inl e, b2) \<Rightarrow> (Inl e, b2)
         | (Inr v, b2) \<Rightarrow>
             (case get_function_definition b2 (fd_id func_def) of
                Inl e \<Rightarrow> (Inl e, b2)
              | Inr d \<Rightarrow> (Inr d, b2)))"

subsection \<open>Resource definitions\<close>

text \<open>\<open>None\<close>: the resource passes; otherwise the error the check raises.\<close>

definition validate_resource :: "resource \<Rightarrow> gg_error option" where
  "validate_resource r =
     (let volume_source_path =
            (case LocalVolumeResourceData r of
               None \<Rightarrow> []
             | Some d \<Rightarrow> (case map_of d ''SourcePath'' of None \<Rightarrow> [] | Some p \<Rightarrow> p));
          local_device_resource_data =
            (case LocalDeviceResourceData r of None \<Rightarrow> [] | Some d \<Rightarrow> d)
      in if volume_source_path = ''/sys'' \<or> startswith volume_source_path ''/sys/'' then
           Some (GreengrassClientError ''400''
             ''The resources definition is invalid. (ErrorDetails: [Accessing /sys is prohibited])'')
         else if local_device_resource_data \<noteq> [] then
           (case map_of local_device_resource_data ''SourcePath'' of
              None \<Rightarrow> Some (GG_KeyError ''SourcePath'')
            | Some device_source_path \<Rightarrow>
                if \<not> startswith device_source_path ''/dev'' then
                  Some (GreengrassClientError ''400''
                    (''The resources definition is invalid. (ErrorDetails: [Device resource path should begin with /dev, but got: ''
                     @ device_source_path @ ''])''))
                else None)
         else None)"

fun validate_resources :: "resource list \<Rightarrow> gg_error option" where
  "validate_resources [] = None"
| "validate_resources (r # rs) =
     (case validate_resource r of Some e \<Rightarrow> Some e | None \<Rightarrow> validate_resources rs)"

definition create_resource_definition_version ::
  "GreengrassBackend \<Rightarrow> string \<Rightarrow> string \<Rightarrow> resource list
     \<Rightarrow> (gg_error + FakeResourceDefinitionVersion) \<times> GreengrassBackend" where
  "create_resource_definition_version b uuid resource_definition_id resources =
     (case map_of (resource_definitions b) resource_definition_id of
        None \<Rightarrow> (Inl (IdNotFoundException ''That resource definition does not exist.''), b)
      | Some d \<Rightarrow>
          (case validate_resources resources of
             Some e \<Rightarrow> (Inl e, b)
           | None \<Rightarrow>
               (let resource_def_ver = FakeResourceDefinitionVersion_init uuid (gg_region_name b)
                                         resource_definition_id resources;
                    resources_ver = AList.update (rdv_version resource_def_ver) resource_def_ver
                                      (od_get_default (resource_definition_versions b)
                                         resource_definition_id)
                in (Inr resource_def_ver,
                    b\<lparr>resource_definition_versions :=
                         AList.update resource_definition_id resources_ver
                           (resource_definition_versions b),
                       resource_definitions := AList.update resource_definition_id
                         (d\<lparr>rd_latest_version := rdv_version resource_def_ver,
                            rd_latest_version_arn := rdv_arn resource_def_ver\<rparr>)
                         (resource_definitions b)\<rparr>))))"

definition get_resource_definition ::
  "GreengrassBackend \<Rightarrow> string \<Rightarrow> gg_error + FakeResourceDefinition" where
  "get_resource_definition b resource_definition_id =
     (case map_of (resource_definitions b) resource_definition_id of
        None \<Rightarrow> Inl (IdNotFoundException ''That Resource List Definition does not exist.'')
      | Some d \<Rightarrow> Inr d)"

definition create_resource_definition ::
  "GreengrassBackend \<Rightarrow> string \<Rightarrow> string \<Rightarrow> string \<Rightarrow> resource_initial_version
     \<Rightarrow> (gg_error + FakeResourceDefinition) \<times> GreengrassBackend" where
  "create_resource_definition b uuid ver_uuid name initial_version =
     (let resources = (case Resources initial_version of None \<Rightarrow> [] | Some rs \<Rightarrow> rs)
      in case validate_resources resources of
           Some e \<Rightarrow> (Inl e, b)
         | None \<Rightarrow>
             (let resource_def = FakeResourceDefinition_init uuid (gg_region_name b) name
                                   initial_version;
                  b1 = b\<lparr>resource_definitions :=
                         AList.update (rd_id resource_def) resource_def (resource_definitions b)\<rparr>;
                  resources = (case Resources (rd_initial_version resource_def) of
                                 None \<Rightarrow> [] | Some rs \<Rightarrow> rs)
              in case create_resource_definition_version b1 ver_uuid (rd_id resource_def)
                        resources of
                   (Inl e, b2) \<Rightarrow> (Inl e, b2)
                 | (Inr v, b2) \<Rightarrow>
                     (case get_resource_definition b2 (rd_id resource_def) of
                        Inl e \<Rightarrow> (Inl e, b2)
                      | Inr d \<Rightarrow> (Inr d, b2))))"

subsection \<open>Subscription definitions\<close>

definition is_valid_subscription_target_or_source :: "string \<Rightarrow> bool" where
  "is_valid_subscription_target_or_source target_or_source =
     (if target_or_source \<in> set [''cloud'', ''GGShadowService''] then True
      else if re_match thing_arn_regex target_or_source then True
      else if re_match function_arn_regex target_or_source then True
      else False)"

text \<open>
  The messages one subscription adds.  The source appends both kinds to
  \<^verbatim>\<open>target_errors\<close>; nothing is ever appended to \<^verbatim>\<open>source_errors\<close>.
\<close>

definition subscription_errors :: "subscription \<Rightarrow> string list" where
  "subscription_errors subscription =
     (let subscription_id = Id subscription; source = Source subscription;
          target = Target subscription
      in (if \<not> is_valid_subscription_target_or_source source
          then [''Subscription source is invalid. ID is '' @ [squote] @ subscription_id
                @ [squote] @ '' and Source is '' @ [squote] @ source @ [squote]]
          else [])
         @ (if \<not> is_valid_subscription_target_or_source target
            then [''Subscription target is invalid. ID is '' @ [squote] @ subscription_id
                  @ [squote] @ '' and Target is '' @ [squote] @ target @ [squote]]
            else []))"

definition validate_subscription_target_or_source :: "subscription list \<Rightarrow> gg_error option" where
  "validate_subscription_target_or_source subscriptions =
     (let target_errors = concat (map subscription_errors subscriptions);
          source_errors = ([] :: string list)
      in if source_errors \<noteq> [] then
           Some (GreengrassClientError ''400''
             (''The subscriptions definition is invalid or corrupted. (ErrorDetails: [''
              @ join '', '' source_errors @ ''])''))
         else if target_errors \<noteq> [] then
           Some (GreengrassClientError ''400''
             (''The subscriptions definition is invalid or corrupted. (ErrorDetails: [''
              @ join '', '' target_errors @ ''])''))
         else None)"

definition create_subscription_definition_version ::
  "GreengrassBackend \<Rightarrow> string \<Rightarrow> string \<Rightarrow> subscription list
     \<Rightarrow> (gg_error + FakeSubscriptionDefinitionVersion) \<times> GreengrassBackend" where
  "create_subscription_definition_version b uuid subscription_definition_id subscriptions =
     (case validate_subscription_target_or_source subscriptions of
        Some e \<Rightarrow> (Inl e, b)
      | None \<Rightarrow>
          if \<not> od_mem subscription_definition_id (subscription_definitions b)
          then (Inl (IdNotFoundException ''That subscriptions does not exist.''), b)
          else
            (let sub_def_ver = FakeSubscriptionDefinitionVersion_init uuid (gg_region_name b)
                                 subscription_definition_id subscriptions;
                 sub_vers = AList.update (sdv_version sub_def_ver) sub_def_ver
                              (od_get_default (subscription_definition_versions b)
                                 subscription_definition_id)
             in (Inr sub_def_ver,
                 b\<lparr>subscription_definition_versions :=
                      AList.update subscription_definition_id sub_vers
                        (subscription_definition_versions b)\<rparr>)))"

definition get_subscription_definition ::
  "GreengrassBackend \<Rightarrow> string \<Rightarrow> gg_error + FakeSubscriptionDefinition" where
  "get_subscription_definition b subscription_definition_id =
     (case map_of (subscription_definitions b) subscription_definition_id of
        None \<Rightarrow> Inl (IdNotFoundException ''That Subscription List Definition does not exist.'')
      | Some d \<Rightarrow> Inr d)"

definition create_subscription_definition ::
  "GreengrassBackend \<Rightarrow> string \<Rightarrow> string \<Rightarrow> string \<Rightarrow> subscription_initial_version
     \<Rightarrow> (gg_error + FakeSubscriptionDefinition) \<times> GreengrassBackend" where
  "create_subscription_definition b uuid ver_uuid name initial_version =
     (case Subscriptions initial_version of
        None \<Rightarrow> (Inl (GG_KeyError ''Subscriptions''), b)
      | Some subs \<Rightarrow>
          (case validate_subscription_target_or_source subs of
             Some e \<Rightarrow> (Inl e, b)
           | None \<Rightarrow>
               (let sub_def = FakeSubscriptionDefinition_init uuid (gg_region_name b) name
                                initial_version;
                    b1 = b\<lparr>subscription_definitions :=
                           AList.update (sd_id sub_def) sub_def (subscription_definitions b)\<rparr>;
                    subscriptions = (case Subscriptions (sd_initial_version sub_def) of
                                       None \<Rightarrow> [] | Some ss \<Rightarrow> ss)
                in case create_subscription_definition_version b1 ver_uuid (sd_id sub_def)
                          subscriptions of
                     (Inl e, b2) \<Rightarrow> (Inl e, b2)
                   | (Inr sub_def_ver, b2) \<Rightarrow>
                       (let d = sub_def\<lparr>sd_latest_version := sdv_version sub_def_ver,
                                       sd_latest_version_arn := sdv_arn sub_def_ver\<rparr>
                        in (Inr d,
                            b2\<lparr>subscription_definitions :=
                                 AList.update (sd_id sub_def) d (subscription_definitions b2)\<rparr>)))))"

definition get_subscription_definition_version ::
  "GreengrassBackend \<Rightarrow> string \<Rightarrow> string \<Rightarrow> gg_error + FakeSubscriptionDefinitionVersion" where
  "get_subscription_definition_version b subscription_definition_id
       subscription_definition_version_id =
     (if \<not> od_mem subscription_definition_id (subscription_definitions b)
      then Inl (IdNotFoundException ''That subscriptions definition does not exist.'')
      else case map_of (subscription_definition_versions b) subscription_definition_id of
             None \<Rightarrow> Inl (GG_KeyError subscription_definition_id)
           | Some vers \<Rightarrow>
               (case map_of vers subscription_definition_version_id of
                  None \<Rightarrow>
                    Inl (GG_VersionNotFoundException
                          (''Version '' @ subscription_definition_version_id
                           @ '' of Subscription List Definition '' @ subscription_definition_id
                           @ '' does not exist.''))
                | Some v \<Rightarrow> Inr v))"

subsection \<open>Groups\<close>

text \<open>
  The validator reads only the keys of a version store and the \<^verbatim>\<open>arn\<close> of the stored
  versions; \<open>version_arns\<close> is that view of a store.
\<close>

definition version_arns ::
  "('v \<Rightarrow> string) \<Rightarrow> (string, (string, 'v) odict) odict \<Rightarrow> (string, (string, string) odict) odict" where
  "version_arns arn_of store = map (\<lambda>(d, vs). (d, map (\<lambda>(v, x). (v, arn_of x)) vs)) store"

definition versions_of_kind ::
  "GreengrassBackend \<Rightarrow> string \<Rightarrow> gg_error + (string, (string, string) odict) odict" where
  "versions_of_kind b kind =
     (if kind = ''cores'' then Inr (version_arns cdv_arn (core_definition_versions b))
      else if kind = ''devices'' then Inr (version_arns ddv_arn (device_definition_versions b))
      else if kind = ''functions'' then Inr (version_arns fdv_arn (function_definition_versions b))
      else if kind = ''resources'' then Inr (version_arns rdv_arn (resource_definition_versions b))
      else if kind = ''subscriptions''
        then Inr (version_arns sdv_arn (subscription_definition_versions b))
      else Inl (PyException ''invalid args''))"

definition is_valid_def_ver_arn ::
  "GreengrassBackend \<Rightarrow> string option \<Rightarrow> string \<Rightarrow> gg_error + bool" where
  "is_valid_def_ver_arn b definition_version_arn kind =
     (case definition_version_arn of
        None \<Rightarrow> Inr True
      | Some arn \<Rightarrow>
          (case versions_of_kind b kind of
             Inl e \<Rightarrow> Inl e
           | Inr versions_ \<Rightarrow>
               if \<not> re_match (def_ver_arn_regex kind) arn then Inr False
               else
                 (case py_index (py_split CHR ''/'' arn) (- 3) of
                    None \<Rightarrow> Inl GG_IndexError
                  | Some definition_id \<Rightarrow>
                      (case map_of versions_ definition_id of
                         None \<Rightarrow> Inr False
                       | Some vers \<Rightarrow>
                           (case py_index (py_split CHR ''/'' arn) (- 1) of
                              None \<Rightarrow> Inl GG_IndexError
                            | Some definition_version_id \<Rightarrow>
                                (case map_of vers definition_version_id of
                                   None \<Rightarrow> Inr False
                                 | Some stored_arn \<Rightarrow>
                                     if stored_arn \<noteq> arn then Inr False else Inr True))))))"

text \<open>One check of the validator: the messages it appends, or the exception it raises.\<close>

definition reference_errors ::
  "GreengrassBackend \<Rightarrow> string option \<Rightarrow> string \<Rightarrow> string \<Rightarrow> gg_error + string list" where
  "reference_errors b definition_version_arn kind message =
     (case is_valid_def_ver_arn b definition_version_arn kind of
        Inl e \<Rightarrow> Inl e
      | Inr ok \<Rightarrow> Inr (if \<not> ok then [message] else []))"

definition validate_group_version_definitions ::
  "GreengrassBackend \<Rightarrow> string option \<Rightarrow> string option \<Rightarrow> string option \<Rightarrow> string option
     \<Rightarrow> string option \<Rightarrow> gg_error option" where
  "validate_group_version_definitions b core_definition_version_arn
       device_definition_version_arn function_definition_version_arn
       resource_definition_version_arn subscription_definition_version_arn =
     (case reference_errors b core_definition_version_arn ''cores''
             ''Cores definition reference does not exist'' of
        Inl e \<Rightarrow> Some e
      | Inr e1 \<Rightarrow>
     (case reference_errors b function_definition_version_arn ''functions''
             ''Lambda definition reference does not exist'' of
        Inl e \<Rightarrow> Some e
      | Inr e2 \<Rightarrow>
     (case reference_errors b resource_definition_version_arn ''resources''
             ''Resource definition reference does not exist'' of
        Inl e \<Rightarrow> Some e
      | Inr e3 \<Rightarrow>
     (case reference_errors b device_definition_version_arn ''devices''
             ''Devices definition reference does not exist'' of
        Inl e \<Rightarrow> Some e
      | Inr e4 \<Rightarrow>
     (case reference_errors b subscription_definition_version_arn ''subscriptions''
             ''Subscription definition reference does not exist'' of
        Inl e \<Rightarrow> Some e
      | Inr e5 \<Rightarrow>
          (let errors = e1 @ e2 @ e3 @ e4 @ e5
           in if errors \<noteq> [] then
                Some (GreengrassClientError ''400''
                  (''The group is invalid or corrupted. (ErrorDetails: [''
                   @ join '', '' errors @ ''])''))
              else None))))))"

definition create_group_version ::
  "GreengrassBackend \<Rightarrow> string \<Rightarrow> string \<Rightarrow> string option \<Rightarrow> string option \<Rightarrow> string option
     \<Rightarrow> string option \<Rightarrow> string option \<Rightarrow> (gg_error + FakeGroupVersion) \<times> GreengrassBackend" where
  "create_group_version b uuid group_id core_definition_version_arn
       device_definition_version_arn function_definition_version_arn
       resource_definition_version_arn subscription_definition_version_arn =
     (case map_of (groups b) group_id of
        None \<Rightarrow> (Inl (IdNotFoundException ''That group does not exist.''), b)
      | Some g \<Rightarrow>
          (case validate_group_version_definitions b core_definition_version_arn
                  device_definition_version_arn function_definition_version_arn
                  resource_definition_version_arn subscription_definition_version_arn of
             Some e \<Rightarrow> (Inl e, b)
           | None \<Rightarrow>
               (let group_ver = FakeGroupVersion_init uuid (gg_region_name b) group_id
                                  core_definition_version_arn device_definition_version_arn
                                  function_definition_version_arn
                                  resource_definition_version_arn
                                  subscription_definition_version_arn;
                    group_vers = AList.update (gv_version group_ver) group_ver
                                   (od_get_default (group_versions b) (gv_group_id group_ver))
                in (Inr group_ver,
                    b\<lparr>group_versions :=
                         AList.update (gv_group_id group_ver) group_vers (group_versions b),
                       groups := AList.update group_id
                         (g\<lparr>g_latest_version_arn := gv_arn group_ver,
                            g_latest_version := gv_version group_ver\<rparr>)
                         (groups b)\<rparr>))))"

definition get_group :: "GreengrassBackend \<Rightarrow> string \<Rightarrow> gg_error + FakeGroup" where
  "get_group b group_id =
     (case map_of (groups b) group_id of
        None \<Rightarrow> Inl (IdNotFoundException ''That Group Definition does not exist.'')
      | Some g \<Rightarrow> Inr g)"

text \<open>\<open>initial_version\<close> is \<open>None\<close> for Python's \<^verbatim>\<open>None\<close> (\<^verbatim>\<open>initial_version or {}\<close>).\<close>

definition create_group ::
  "GreengrassBackend \<Rightarrow> string \<Rightarrow> string \<Rightarrow> string \<Rightarrow> group_initial_version option
     \<Rightarrow> (gg_error + FakeGroup) \<times> GreengrassBackend" where
  "create_group b uuid ver_uuid name initial_version =
     (let group = FakeGroup_init uuid (gg_region_name b) name;
          b1 = b\<lparr>groups := AList.update (g_group_id group) group (groups b)\<rparr>;
          definitions = (case initial_version of
                           None \<Rightarrow> \<lparr>CoreDefinitionVersionArn = None,
                                     DeviceDefinitionVersionArn = None,
                                     FunctionDefinitionVersionArn = None,
                                     ResourceDefinitionVersionArn = None,
                                     SubscriptionDefinitionVersionArn = None\<rparr>
                         | Some iv \<Rightarrow> iv)
      in case create_group_version b1 ver_uuid (g_group_id group)
                (CoreDefinitionVersionArn definitions) (DeviceDefinitionVersionArn definitions)
                (FunctionDefinitionVersionArn definitions)
                (ResourceDefinitionVersionArn definitions)
                (SubscriptionDefinitionVersionArn definitions) of
           (Inl e, b2) \<Rightarrow> (Inl e, b2)
         | (Inr v, b2) \<Rightarrow>
             (case get_group b2 (g_group_id group) of
                Inl e \<Rightarrow> (Inl e, b2)
              | Inr g \<Rightarrow> (Inr g, b2)))"

definition list_group_versions ::
  "GreengrassBackend \<Rightarrow> string \<Rightarrow> gg_error + FakeGroupVersion list" where
  "list_group_versions b group_id =
     (case map_of (group_versions b) group_id of
        None \<Rightarrow> Inl (IdNotFoundException ''That group definition does not exist.'')
      | Some vers \<Rightarrow> Inr (od_values vers))"

section \<open>Notions of the statements and proofs\<close>

subsection \<open>Auxiliary notions for the proofs\<close>

definition is_quote :: "char \<Rightarrow> bool" where
  "is_quote q = (q = squote \<or> q = dquote)"

definition repr_body :: "char \<Rightarrow> string \<Rightarrow> string" where
  "repr_body q s = concat (map (repr_char q) s)"

text \<open>
  The words of a pattern, as the regular expression defines them, and the side condition
  under which the matcher needs no backtracking: the character after a \<^verbatim>\<open>+\<close> run
  (the first of the next literal, or the newline \<^verbatim>\<open>$\<close> may stand before) is outside
  the class.
\<close>

fun piece_words :: "piece \<Rightarrow> string \<Rightarrow> bool" where
  "piece_words (Lit p) w = (w = p)"
| "piece_words (Plus P) w = (w \<noteq> [] \<and> list_all P w)"
| "piece_words (Rep n P) w = (length w = n \<and> list_all P w)"

fun pieces_words :: "piece list \<Rightarrow> string \<Rightarrow> bool" where
  "pieces_words [] w = (w = [])"
| "pieces_words (p # ps) w = (\<exists>u v. w = u @ v \<and> piece_words p u \<and> pieces_words ps v)"

fun deterministic :: "piece list \<Rightarrow> bool" where
  "deterministic [] = True"
| "deterministic [Plus P] = (\<not> P (CHR 0x0A))"
| "deterministic (Plus P # Lit [] # ps) = False"
| "deterministic (Plus P # Lit (c # cs) # ps) = (\<not> P c \<and> deterministic ps)"
| "deterministic (Plus P # Plus Q # ps) = False"
| "deterministic (Plus P # Rep n Q # ps) = False"
| "deterministic (Lit p # ps) = deterministic ps"
| "deterministic (Rep n P # ps) = deterministic ps"

subsection \<open>The validation rules in the spec's words\<close>

text \<open>
  What the spec calls a thing ARN and a fully-qualified function ARN (with its alias or
  version suffix), what it means that a definition-version reference resolves in a store,
  and that a message mentions a text.  These are the statements the validators of the
  source are compared with.
\<close>

definition is_thing_arn :: "string \<Rightarrow> bool" where
  "is_thing_arn x =
     (\<exists>region account name.
        x = ''arn:aws:iot:'' @ region @ '':'' @ account @ '':thing/'' @ name \<and>
        region \<noteq> [] \<and> list_all alnum_dash region \<and>
        length account = 12 \<and> list_all is_digit account \<and>
        name \<noteq> [] \<and> list_all alnum_dash name)"

definition is_function_arn :: "string \<Rightarrow> bool" where
  "is_function_arn x =
     (\<exists>region account name qualifier.
        x = ''arn:aws:lambda:'' @ region @ '':'' @ account @ '':function:'' @ name @ '':''
              @ qualifier \<and>
        region \<noteq> [] \<and> list_all alnum_dash region \<and>
        length account = 12 \<and> list_all is_digit account \<and>
        name \<noteq> [] \<and> list_all alnum_dash_us name \<and>
        qualifier \<noteq> [] \<and> list_all alnum_dash_us qualifier)"

definition mentions :: "string \<Rightarrow> string \<Rightarrow> bool" where
  "mentions message x = (\<exists>p q. message = p @ x @ q)"

text \<open>
  A reference resolves when it has the shape of a definition-version ARN of its kind,
  names a definition id of the store and a version id under it, and is the very ARN
  recorded on that version.
\<close>

definition reference_resolves ::
  "(string, (string, string) odict) odict \<Rightarrow> string \<Rightarrow> string \<Rightarrow> bool" where
  "reference_resolves store kind arn =
     (\<exists>region account definition_id version_id nl vers.
        arn = ''arn:aws:greengrass:'' @ region @ '':'' @ account @ '':greengrass/definition/''
                @ kind @ ''/'' @ definition_id @ ''/versions/'' @ version_id @ nl \<and>
        region \<noteq> [] \<and> list_all alnum_dash region \<and>
        length account = 12 \<and> list_all is_digit account \<and>
        length definition_id = 36 \<and> list_all lower_digit_dash definition_id \<and>
        length version_id = 36 \<and> list_all lower_digit_dash version_id \<and>
        (nl = [] \<or> nl = [CHR 0x0A]) \<and>
        map_of store definition_id = Some vers \<and> map_of vers (version_id @ nl) = Some arn)"

definition reference_ok ::
  "(string, (string, string) odict) odict \<Rightarrow> string \<Rightarrow> string option \<Rightarrow> bool" where
  "reference_ok store kind reference =
     (case reference of None \<Rightarrow> True | Some arn \<Rightarrow> reference_resolves store kind arn)"

text \<open>The violated references of a group version, in the order the source checks them.\<close>

definition group_reference_errors ::
  "GreengrassBackend \<Rightarrow> string option \<Rightarrow> string option \<Rightarrow> string option \<Rightarrow> string option
     \<Rightarrow> string option \<Rightarrow> string list" where
  "group_reference_errors b core_ref device_ref function_ref resource_ref subscription_ref =
     (if reference_ok (version_arns cdv_arn (core_definition_versions b)) ''cores'' core_ref
      then [] else [''Cores definition reference does not exist''])
     @ (if reference_ok (version_arns fdv_arn (function_definition_versions b)) ''functions''
            function_ref
        then [] else [''Lambda definition reference does not exist''])
     @ (if reference_ok (version_arns rdv_arn (resource_definition_versions b)) ''resources''
            resource_ref
        then [] else [''Resource definition reference does not exist''])
     @ (if reference_ok (version_arns ddv_arn (device_definition_versions b)) ''devices''
            device_ref
        then [] else [''Devices definition reference does not exist''])
     @ (if reference_ok (version_arns sdv_arn (subscription_definition_versions b))
            ''subscriptions'' subscription_ref
        then [] else [''Subscription definition reference does not exist''])"

text \<open>The messages of the subscription check, and the combined error text.\<close>

definition source_message :: "subscription \<Rightarrow> string" where
  "source_message s = ''Subscription source is invalid. ID is '' @ [squote] @ Id s
     @ [squote] @ '' and Source is '' @ [squote] @ Source s @ [squote]"

definition target_message :: "subscription \<Rightarrow> string" where
  "target_message s = ''Subscription target is invalid. ID is '' @ [squote] @ Id s
     @ [squote] @ '' and Target is '' @ [squote] @ Target s @ [squote]"

definition subscriptions_message :: "subscription list \<Rightarrow> string" where
  "subscriptions_message subs =
     ''The subscriptions definition is invalid or corrupted. (ErrorDetails: [''
     @ join '', '' (concat (map subscription_errors subs)) @ ''])''"

text \<open>The ARN format of the spec, without and with the version part.\<close>

definition arn_format :: "string \<Rightarrow> string \<Rightarrow> string \<Rightarrow> string \<Rightarrow> string \<Rightarrow> string" where
  "arn_format service region account kind identifier =
     ''arn:aws:'' @ service @ '':'' @ region @ '':'' @ account @ '':'' @ kind @ ''/'' @ identifier"

definition version_arn_format ::
  "string \<Rightarrow> string \<Rightarrow> string \<Rightarrow> string \<Rightarrow> string \<Rightarrow> string \<Rightarrow> string" where
  "version_arn_format service region account kind identifier version_id =
     arn_format service region account kind identifier @ ''/versions/'' @ version_id"


section \<open>Concrete states\<close>

text \<open>The states the statements below are evaluated on.\<close>

subsection \<open>A table with three versions and two partitions\<close>

definition tbl3 :: FakeTable where
  "tbl3 = table_update (table_update (FakeTable_init ''db'' ''tbl'' (JStr ''v1'')) (JStr ''v2''))
            (JStr ''v3'')"

definition partition_01 :: partition_input where
  "partition_01 = \<lparr>Values = Some [''2021'', ''01''], pi_rest = JStr ''s3://bucket/01''\<rparr>"

definition partition_01_moved :: partition_input where
  "partition_01_moved = \<lparr>Values = Some [''2021'', ''01''], pi_rest = JStr ''s3://other/01''\<rparr>"

definition partition_02 :: partition_input where
  "partition_02 = \<lparr>Values = Some [''2021'', ''02''], pi_rest = JStr ''s3://bucket/02''\<rparr>"

definition partition_03 :: partition_input where
  "partition_03 = \<lparr>Values = Some [''2021'', ''03''], pi_rest = JStr ''s3://bucket/03''\<rparr>"

definition tbl_parts :: FakeTable where
  "tbl_parts = snd (create_partition (snd (create_partition tbl3 partition_01)) partition_02)"

subsection \<open>A catalog with one job\<close>

definition glue0 :: GlueBackend where
  "glue0 = GlueBackend_init ''global'' ''123456789012''"

definition glue_etl :: GlueBackend where
  "glue_etl = snd (create_job glue0 ''etl'' (JStr ''old-role'') JNull JNull JNull JNull JNull
                     JNull JNull JNull JNull JNull JNull JNull None JNull JNull JNull JNull)"

definition glue_crawl :: GlueBackend where
  "glue_crawl = snd (create_crawler glue0 ''crawl'' (JStr ''role'') JNull JNull JNull JNull JNull
                       JNull JNull JNull JNull JNull JNull None)"

subsection \<open>An edge backend with one group\<close>

definition uuid1 :: string where
  "uuid1 = ''11111111-1111-4111-8111-111111111111''"

definition uuid2 :: string where
  "uuid2 = ''22222222-2222-4222-8222-222222222222''"

definition uuid3 :: string where
  "uuid3 = ''33333333-3333-4333-8333-333333333333''"

definition uuid4 :: string where
  "uuid4 = ''44444444-4444-4444-8444-444444444444''"

definition gg0 :: GreengrassBackend where
  "gg0 = GreengrassBackend_init ''eu-west-1'' ''123456789012''"

definition gg_group :: GreengrassBackend where
  "gg_group = snd (create_group gg0 uuid1 uuid2 ''group'' None)"

definition missing_core_ref :: string where
  "missing_core_ref = ''arn:aws:greengrass:eu-west-1:123456789012:greengrass/definition/cores/''
     @ uuid3 @ ''/versions/'' @ uuid4"

subsection \<open>Subscriptions\<close>

definition sub_ok :: subscription where
  "sub_ok = \<lparr>Id = ''sub-ok'', Source = ''cloud'', Subject = ''#'',
             Target = ''arn:aws:iot:us-east-1:123456789012:thing/foo''\<rparr>"

definition sub_bad :: subscription where
  "sub_bad = \<lparr>Id = ''sub-bad'', Source = ''cloud'', Subject = ''#'',
              Target = ''not-a-real-target''\<rparr>"

definition sub_newline :: subscription where
  "sub_newline = \<lparr>Id = ''sub-nl'', Source = ''cloud'', Subject = ''#'',
                  Target = ''arn:aws:iot:us-east-1:123456789012:thing/foo'' @ [CHR 0x0A]\<rparr>"

subsection \<open>An edge backend with one subscription definition\<close>

definition sub_other :: subscription where
  "sub_other = \<lparr>Id = ''sub-other'', Source = ''GGShadowService'', Subject = ''#'',
                Target = ''cloud''\<rparr>"

definition gg_subs :: GreengrassBackend where
  "gg_subs = snd (create_subscription_definition gg0 uuid1 uuid2 ''subs''
                    \<lparr>Subscriptions = Some [sub_ok]\<rparr>)"

definition gg_subs2 :: GreengrassBackend where
  "gg_subs2 = snd (create_subscription_definition_version gg_subs uuid3 uuid1 [sub_other])"

definition gg_failed_group :: GreengrassBackend where
  "gg_failed_group =
     snd (create_group gg0 uuid1 uuid2 ''group''
            (Some \<lparr>CoreDefinitionVersionArn = Some missing_core_ref,
                    DeviceDefinitionVersionArn = None, FunctionDefinitionVersionArn = None,
                    ResourceDefinitionVersionArn = None,
                    SubscriptionDefinitionVersionArn = None\<rparr>))"

subsection \<open>Edge backends with one definition of each kind\<close>

definition gg_core :: GreengrassBackend where
  "gg_core = snd (create_core_definition gg0 uuid1 uuid2 ''cores'' [(''Cores'', JList [])])"

definition gg_device :: GreengrassBackend where
  "gg_device = snd (create_device_definition gg0 uuid1 uuid2 ''devices'' [(''Devices'', JList [])])"

definition gg_function :: GreengrassBackend where
  "gg_function =
     snd (create_function_definition gg0 uuid1 uuid2 ''functions'' [(''Functions'', JList [])])"

definition gg_resource :: GreengrassBackend where
  "gg_resource =
     snd (create_resource_definition gg0 uuid1 uuid2 ''resources'' \<lparr>Resources = Some []\<rparr>)"


section \<open>Properties of the Python values\<close>

subsection \<open>The canonical partition key is injective\<close>

text \<open>
  \<^verbatim>\<open>repr\<close> writes every character as a code word of a prefix code (a plain character,
  or a backslash and what follows), and closes the string with the quote it never
  writes plainly.  So the text of a string, and of a list of strings, can be read back.
\<close>

lemma hexdigit_inj:
  assumes "a < 16" "b < 16" "hexdigit a = hexdigit b"
  shows "a = b"
proof -
  have d: "distinct ''0123456789abcdef''" by simp
  have "length ''0123456789abcdef'' = 16" by simp
  with assms d show ?thesis
    unfolding hexdigit_def by (metis nth_eq_iff_index_eq)
qed

lemma of_char_lt_256: "(of_char c :: nat) < 256"
  by (cases c) simp

lemma hex_pair_inj:
  assumes "hexdigit (of_char c div 16) = hexdigit (of_char d div 16)"
    and "hexdigit (of_char c mod 16) = hexdigit (of_char d mod 16)"
  shows "c = d"
proof -
  let ?m = "of_char c :: nat"
  let ?n = "of_char d :: nat"
  have "?m div 16 < 16" "?n div 16 < 16"
    using of_char_lt_256 [of c] of_char_lt_256 [of d] by (simp_all add: div_less_iff_less_mult)
  with assms(1) have 1: "?m div 16 = ?n div 16" by (metis hexdigit_inj)
  have "?m mod 16 < 16" "?n mod 16 < 16" by simp_all
  with assms(2) have 2: "?m mod 16 = ?n mod 16" by (metis hexdigit_inj)
  from 1 2 have "?m = ?n" by (metis div_mult_mod_eq)
  then show ?thesis by simp
qed

lemma repr_char_nonempty: "repr_char q c \<noteq> []"
  by (simp add: repr_char_def)

lemma repr_char_hd: "is_quote q \<Longrightarrow> hd (repr_char q c) \<noteq> q"
  by (auto simp: repr_char_def is_quote_def squote_def dquote_def backslash_def)

lemma repr_char_prefix_free:
  assumes "is_quote q" and "repr_char q c @ r = repr_char q d @ r'"
  shows "c = d \<and> r = r'"
  using assms
  by (auto simp: repr_char_def is_quote_def squote_def dquote_def backslash_def
      split: if_splits dest: hex_pair_inj)

lemma repr_body_simps:
  "repr_body q [] = []"
  "repr_body q (c # s) = repr_char q c @ repr_body q s"
  by (simp_all add: repr_body_def)

lemma repr_body_terminated:
  assumes "is_quote q"
  shows "repr_body q s @ q # r = repr_body q s' @ q # r' \<Longrightarrow> s = s' \<and> r = r'"
proof (induction s arbitrary: s')
  case Nil
  show ?case
  proof (cases s')
    case Nil
    with Nil.prems show ?thesis by (simp add: repr_body_simps)
  next
    case (Cons d s2)
    with Nil.prems have "hd (repr_char q d @ repr_body q s2 @ q # r') = q"
      by (simp add: repr_body_simps) (metis list.sel(1))
    then have "hd (repr_char q d) = q" by (simp add: repr_char_nonempty)
    with repr_char_hd [OF assms] show ?thesis by blast
  qed
next
  case (Cons c s1)
  show ?case
  proof (cases s')
    case Nil
    with Cons.prems have "hd (repr_char q c @ repr_body q s1 @ q # r) = q"
      by (simp add: repr_body_simps)
    then have "hd (repr_char q c) = q" by (simp add: repr_char_nonempty)
    with repr_char_hd [OF assms] show ?thesis by blast
  next
    case (Cons d s2)
    with Cons.prems have
      "repr_char q c @ (repr_body q s1 @ q # r) = repr_char q d @ (repr_body q s2 @ q # r')"
      by (simp add: repr_body_simps)
    from repr_char_prefix_free [OF assms this]
    have "c = d" and "repr_body q s1 @ q # r = repr_body q s2 @ q # r'" by simp_all
    with Cons.IH [of s2] Cons show ?thesis by simp
  qed
qed

lemma repr_quote_is_quote: "is_quote (repr_quote s)"
  by (simp add: repr_quote_def is_quote_def)

lemma py_repr_unfold: "py_repr s = repr_quote s # repr_body (repr_quote s) s @ [repr_quote s]"
  by (simp add: py_repr_def repr_body_def Let_def)

lemma py_repr_prefix_free:
  assumes "py_repr s @ r = py_repr s' @ r'"
  shows "s = s' \<and> r = r'"
proof -
  from assms have q: "repr_quote s = repr_quote s'"
    by (simp add: py_repr_unfold)
  with assms have "repr_body (repr_quote s) s @ repr_quote s # r
      = repr_body (repr_quote s) s' @ repr_quote s # r'"
    by (simp add: py_repr_unfold)
  from repr_body_terminated [OF repr_quote_is_quote this] show ?thesis .
qed

lemma py_repr_hd: "\<exists>t. py_repr s = squote # t \<or> py_repr s = dquote # t"
  by (auto simp: py_repr_unfold repr_quote_def)

lemma join_Cons: "join sep (x # xs) = x @ (if xs = [] then [] else sep @ join sep xs)"
  by (cases xs) simp_all

lemma join_repr_terminated:
  "join '', '' (map py_repr xs) @ CHR '']'' # r = join '', '' (map py_repr ys) @ CHR '']'' # r'
     \<Longrightarrow> xs = ys"
proof (induction xs arbitrary: ys)
  case Nil
  show ?case
  proof (cases ys)
    case Nil
    then show ?thesis by simp
  next
    case (Cons y ys')
    with Nil.prems py_repr_hd [of y] show ?thesis
      by (auto simp: join_Cons squote_def dquote_def)
  qed
next
  case (Cons x xs')
  show ?case
  proof (cases ys)
    case Nil
    with Cons.prems py_repr_hd [of x] show ?thesis
      by (auto simp: join_Cons squote_def dquote_def)
  next
    case (Cons y ys')
    let ?R = "\<lambda>zs t. (if zs = [] then [] else '', '' @ join '', '' (map py_repr zs)) @ CHR '']'' # t"
    from Cons Cons.prems have "py_repr x @ ?R xs' r = py_repr y @ ?R ys' r'"
      by (simp add: join_Cons)
    from py_repr_prefix_free [OF this] have xy: "x = y" and R: "?R xs' r = ?R ys' r'"
      by simp_all
    have "xs' = ys'"
    proof (cases "xs' = []")
      case True
      with R show ?thesis by (cases "ys' = []") auto
    next
      case False
      with R have ne: "ys' \<noteq> []" by (cases "ys' = []") auto
      with False R have "join '', '' (map py_repr xs') @ CHR '']'' # r
          = join '', '' (map py_repr ys') @ CHR '']'' # r'" by simp
      then show ?thesis by (rule Cons.IH)
    qed
    with xy Cons show ?thesis by simp
  qed
qed

lemma py_str_list_inj: "py_str_list xs = py_str_list ys \<Longrightarrow> xs = ys"
  using join_repr_terminated [of xs "[]" ys "[]"] by (simp add: py_str_list_def)

section \<open>The data catalog: table versions\<close>

lemmas py_int_eval = py_int_def py_isspace_def is_digit_def digit_val_def run_char_def
  run_value_def Let_def

lemma py_int_0: "py_int m ''0'' = Inr 0" by (simp add: py_int_eval)
lemma py_int_1: "py_int m ''1'' = Inr 1" by (simp add: py_int_eval)
lemma py_int_3: "py_int m ''3'' = Inr 3" by (simp add: py_int_eval)
lemma py_int_4: "py_int m ''4'' = Inr 4" by (simp add: py_int_eval)
lemma py_int_m1: "py_int m ''-1'' = Inr (- 1)" by (simp add: py_int_eval)

lemma value_error_str_x:
  "value_error_str ''x'' = ''invalid literal for int() with base 10: '' @ [squote] @ ''x'' @ [squote]"
  by (simp add: value_error_str_def py_repr_def repr_quote_def repr_char_def squote_def
      dquote_def backslash_def unprintable_def Let_def)

lemma py_int_x: "py_int m ''x'' = Inl (value_error_str ''x'')" by (simp add: py_int_eval)

text \<open>Whitespace around the literal and an underscore between digits are read over.\<close>

lemma py_int_spaces: "py_int m ('' 1_2'' @ [CHR 0x09, CHR 0xA0]) = Inr 12"
  by (simp add: py_int_eval)

text \<open>A separator character is not whitespace for \<^verbatim>\<open>int\<close>, and the literal is refused.\<close>

lemma py_int_separator:
  "py_int m [CHR 0x1C, CHR ''1''] = Inl (value_error_str [CHR 0x1C, CHR ''1''])"
  "py_int m [CHR ''9'', CHR 0x1E] = Inl (value_error_str [CHR ''9'', CHR 0x1E])"
  by (simp_all add: py_int_eval)

lemma value_error_str_separator:
  "value_error_str [CHR 0x1C, CHR ''1'']
     = ''invalid literal for int() with base 10: '' @ [squote] @ [backslash] @ ''x1c1'' @ [squote]"
  by (simp add: value_error_str_def py_repr_def repr_quote_def repr_char_def squote_def
      dquote_def backslash_def unprintable_def hexdigit_def Let_def)

text \<open>The two failures of \<^verbatim>\<open>int\<close>, and the digit limit.\<close>

lemma int_result_cases:
  assumes "(if A then Inl v else if B \<and> 0 < m \<and> m < d then Inl (f d)
            else if E then Inl v else Inr z) = Inl msg"
  shows "msg = v \<or> (0 < (m::nat) \<and> (\<exists>d>m. msg = f d))"
  using assms by (auto split: if_splits)

lemma py_int_errors:
  assumes "py_int m s = Inl msg"
  shows "msg = value_error_str s \<or> (0 < m \<and> (\<exists>d>m. msg = max_str_digits_error_str m d))"
  by (rule int_result_cases [where f = "max_str_digits_error_str m",
        OF assms [unfolded py_int_def Let_def]])

lemma py_int_no_limit:
  assumes "py_int 0 s = Inl msg"
  shows "msg = value_error_str s"
  using py_int_errors [OF assms] by simp

lemma py_str_nat_4300: "py_str_nat 4300 = ''4300''"
  by (simp add: py_str_nat.simps)

lemma py_str_nat_4301: "py_str_nat 4301 = ''4301''"
  by (simp add: py_str_nat.simps)

lemma no_double_underscore:
  "CHR ''_'' \<notin> set xs \<Longrightarrow> \<not> double_underscore xs"
  by (induction xs rule: double_underscore.induct) auto

text \<open>A literal of more digits than the limit is refused, with the message of the limit.\<close>

lemma py_int_over_limit:
  assumes "640 < n" "0 < m" "m < n"
  shows "py_int m (replicate n CHR ''1'') = Inl (max_str_digits_error_str m n)"
proof -
  define xs where "xs = replicate n CHR ''1''"
  from assms have ne: "xs \<noteq> []" by (simp add: xs_def)
  have 1: "takeWhile run_char xs = xs"
    by (rule takeWhile_eq_all_conv [THEN iffD2]) (simp add: xs_def run_char_def is_digit_def)
  have 2: "filter is_digit xs = xs"
    by (rule filter_True) (simp add: xs_def is_digit_def)
  have 3: "\<not> double_underscore xs"
    by (rule no_double_underscore) (simp add: xs_def)
  have 4: "dropWhile py_isspace xs = xs"
    using ne by (simp add: xs_def py_isspace_def dropWhile_eq_self_iff)
  from ne assms have 5: "hd xs = CHR ''1''" "last xs = CHR ''1''" "length xs = n"
    by (simp_all add: xs_def)
  from ne assms show ?thesis
    unfolding xs_def [symmetric] py_int_def Let_def 4 by (simp add: 1 2 3 5)
qed

lemma max_str_digits_error_str_4301:
  "max_str_digits_error_str 4300 4301 =
     ''Exceeds the limit (4300 digits) for integer string conversion: value has 4301 digits; use sys.set_int_max_str_digits() to increase the limit''"
  by (simp add: max_str_digits_error_str_def py_str_nat_4300 py_str_nat_4301)

lemma get_version_VStr:
  "get_version m t (VStr s) =
     (case py_int m s of
        Inl e \<Rightarrow> Inl (JsonRESTError ''InvalidInputException'' e)
      | Inr k \<Rightarrow> (case py_index (versions t) (k - 1) of
                    None \<Rightarrow> Inl VersionNotFoundException | Some x \<Rightarrow> Inr x))"
  by (simp add: get_version_def split: sum.splits)

lemma py_index_out_of_range:
  "i < - int (length xs) \<or> int (length xs) \<le> i \<Longrightarrow> py_index xs i = None"
  by (auto simp: py_index_def Let_def)

lemma py_index_from_end:
  assumes "- int (length xs) \<le> i" "i < 0"
  shows "py_index xs i = Some (rev xs ! nat (- i - 1))"
proof -
  let ?n = "nat (- i - 1)"
  from assms have n: "?n < length xs" by linarith
  from assms have "nat (int (length xs) + i) = length xs - Suc ?n" by linarith
  with n have "xs ! nat (int (length xs) + i) = rev xs ! ?n" by (simp add: rev_nth)
  with assms show ?thesis by (simp add: py_index_def Let_def)
qed

lemma versions_tbl3: "versions tbl3 = [JStr ''v1'', JStr ''v2'', JStr ''v3'']"
  by (simp add: tbl3_def table_update_def FakeTable_init_def)

text \<open>
  Claim C3, as the code has it.  With three versions appended, the tokens \<^verbatim>\<open>"1"\<close> and
  \<^verbatim>\<open>"3"\<close> give the first and the third version, \<^verbatim>\<open>"4"\<close> fails with
  \<^verbatim>\<open>VersionNotFound\<close> and \<^verbatim>\<open>"x"\<close> with \<^verbatim>\<open>InvalidInput\<close>, carrying the message of
  the failed parse.  In general a request whose internal index (the token's number minus
  one, or the integer passed as it is) lies outside \<open>- len \<dots> len - 1\<close> fails with
  \<^verbatim>\<open>VersionNotFound\<close>, and a token on which \<^verbatim>\<open>int\<close> raises fails with \<^verbatim>\<open>InvalidInput\<close>
  and the message of that error: the one of an invalid literal, or the one of a literal
  with more digits than the interpreter's limit \<open>m\<close>.
\<close>

theorem get_version_indexing:
  "(versions t = [a, b, c] \<longrightarrow>
      get_version m t (VStr ''1'') = Inr a \<and>
      get_version m t (VStr ''3'') = Inr c \<and>
      get_version m t (VStr ''4'') = Inl VersionNotFoundException \<and>
      get_version m t (VStr ''x'') =
        Inl (JsonRESTError ''InvalidInputException''
              (''invalid literal for int() with base 10: '' @ [squote] @ ''x'' @ [squote]))) \<and>
   (py_int m s = Inr k \<and> (k - 1 < - int (length (versions t)) \<or> int (length (versions t)) \<le> k - 1)
      \<longrightarrow> get_version m t (VStr s) = Inl VersionNotFoundException) \<and>
   (i < - int (length (versions t)) \<or> int (length (versions t)) \<le> i
      \<longrightarrow> get_version m t (VInt i) = Inl VersionNotFoundException) \<and>
   (py_int m s = Inl msg
      \<longrightarrow> get_version m t (VStr s) = Inl (JsonRESTError ''InvalidInputException'' msg) \<and>
          (msg = value_error_str s \<or>
           (0 < m \<and> (\<exists>d>m. msg = max_str_digits_error_str m d))))"
proof (intro conjI impI)
  assume v: "versions t = [a, b, c]"
  show "get_version m t (VStr ''1'') = Inr a"
    by (simp add: get_version_VStr py_int_1 v py_index_def)
  show "get_version m t (VStr ''3'') = Inr c"
    by (simp add: get_version_VStr py_int_3 v py_index_def)
  show "get_version m t (VStr ''4'') = Inl VersionNotFoundException"
    by (simp add: get_version_VStr py_int_4 v py_index_def)
  show "get_version m t (VStr ''x'') =
        Inl (JsonRESTError ''InvalidInputException''
              (''invalid literal for int() with base 10: '' @ [squote] @ ''x'' @ [squote]))"
    using value_error_str_x by (simp add: get_version_VStr py_int_x)
next
  assume "py_int m s = Inr k \<and>
    (k - 1 < - int (length (versions t)) \<or> int (length (versions t)) \<le> k - 1)"
  then show "get_version m t (VStr s) = Inl VersionNotFoundException"
    by (simp add: get_version_VStr py_index_out_of_range)
next
  assume "i < - int (length (versions t)) \<or> int (length (versions t)) \<le> i"
  then show "get_version m t (VInt i) = Inl VersionNotFoundException"
    by (simp add: get_version_def py_index_out_of_range)
next
  assume a: "py_int m s = Inl msg"
  then show "get_version m t (VStr s) = Inl (JsonRESTError ''InvalidInputException'' msg)"
    by (simp add: get_version_VStr)
  from a show "msg = value_error_str s \<or>
      (0 < m \<and> (\<exists>d>m. msg = max_str_digits_error_str m d))"
    by (rule py_int_errors)
qed

theorem get_version_indexing_witness:
  "versions tbl3 = [JStr ''v1'', JStr ''v2'', JStr ''v3''] \<and>
   get_version 4300 tbl3 (VStr ''1'') = Inr (JStr ''v1'') \<and>
   get_version 4300 tbl3 (VStr ''3'') = Inr (JStr ''v3'') \<and>
   get_version 4300 tbl3 (VStr ''4'') = Inl VersionNotFoundException \<and>
   py_int 4300 ''4'' = Inr 4 \<and> int (length (versions tbl3)) \<le> 4 - 1 \<and>
   get_version 4300 tbl3 (VInt (- 4)) = Inl VersionNotFoundException \<and>
   py_int 4300 [CHR 0x1C, CHR ''1''] = Inl (value_error_str [CHR 0x1C, CHR ''1'']) \<and>
   get_version 4300 tbl3 (VStr [CHR 0x1C, CHR ''1'']) =
     Inl (JsonRESTError ''InvalidInputException''
           (''invalid literal for int() with base 10: '' @ [squote] @ [backslash] @ ''x1c1''
            @ [squote]))"
  using get_version_indexing [of tbl3 "JStr ''v1''" "JStr ''v2''" "JStr ''v3''" 4300 "''4''" 4 "- 4"]
    get_version_indexing [of tbl3 "JStr ''v1''" "JStr ''v2''" "JStr ''v3''" 4300
      "[CHR 0x1C, CHR ''1'']" 0 3 "value_error_str [CHR 0x1C, CHR ''1'']"]
  by (simp add: versions_tbl3 py_int_4 py_int_separator value_error_str_separator)

text \<open>
  The claim as the spec words it fails: the token \<^verbatim>\<open>"0"\<close> is outside the external range
  \<open>1 \<dots> 3\<close>, and the call returns the third version.
\<close>

theorem version_token_zero_counterexample:
  "py_int 4300 ''0'' = Inr 0 \<and> \<not> (1 \<le> (0::int) \<and> (0::int) \<le> int (length (versions tbl3))) \<and>
   get_version 4300 tbl3 (VStr ''0'') = Inr (JStr ''v3'') \<and>
   get_version 4300 tbl3 (VStr ''0'') \<noteq> Inl VersionNotFoundException"
  by (simp add: get_version_VStr py_int_0 versions_tbl3 py_index_def)

text \<open>
  Claim C10.  On a table with a version, the token \<^verbatim>\<open>"0"\<close> parses to the internal index
  \<open>- 1\<close> and the call returns the version appended last (as the integer \<open>- 1\<close> does, the
  default of \<^verbatim>\<open>as_dict\<close>); every numeric token whose internal index lies between
  \<open>- len\<close> and \<open>- 1\<close> returns a stored version, counted from the end.
\<close>

theorem get_version_from_end:
  "(versions t \<noteq> [] \<longrightarrow>
      py_int m ''0'' = Inr 0 \<and>
      get_version m t (VStr ''0'') = Inr (last (versions t)) \<and>
      get_version m t (VInt (- 1)) = Inr (last (versions t))) \<and>
   (py_int m s = Inr k \<and> - int (length (versions t)) \<le> k - 1 \<and> k - 1 \<le> - 1 \<longrightarrow>
      get_version m t (VStr s) = Inr (rev (versions t) ! nat (- k)) \<and>
      rev (versions t) ! nat (- k) \<in> set (versions t))"
proof (intro conjI impI)
  assume ne: "versions t \<noteq> []"
  then have len: "- int (length (versions t)) \<le> - 1" by (cases "versions t") simp_all
  from ne have l: "rev (versions t) ! 0 = last (versions t)"
    by (simp add: hd_rev flip: hd_conv_nth)
  show "py_int m ''0'' = Inr 0" by (rule py_int_0)
  from len l show "get_version m t (VStr ''0'') = Inr (last (versions t))"
    by (simp add: get_version_VStr py_int_0 py_index_from_end)
  from len l show "get_version m t (VInt (- 1)) = Inr (last (versions t))"
    by (simp add: get_version_def py_index_from_end)
next
  assume a: "py_int m s = Inr k \<and> - int (length (versions t)) \<le> k - 1 \<and> k - 1 \<le> - 1"
  then have "py_index (versions t) (k - 1) = Some (rev (versions t) ! nat (- (k - 1) - 1))"
    by (intro py_index_from_end) simp_all
  moreover have "- (k - 1) - 1 = - k" by simp
  ultimately show "get_version m t (VStr s) = Inr (rev (versions t) ! nat (- k))"
    using a by (simp add: get_version_VStr)
  from a have "nat (- k) < length (rev (versions t))" by simp linarith
  then have "rev (versions t) ! nat (- k) \<in> set (rev (versions t))" by (rule nth_mem)
  then show "rev (versions t) ! nat (- k) \<in> set (versions t)" by simp
qed

theorem get_version_from_end_witness:
  "versions tbl3 \<noteq> [] \<and>
   get_version 4300 tbl3 (VStr ''0'') = Inr (JStr ''v3'') \<and>
   get_version 4300 tbl3 (VInt (- 1)) = Inr (JStr ''v3'') \<and>
   py_int 4300 ''-1'' = Inr (- 1) \<and> - int (length (versions tbl3)) \<le> - 1 - 1 \<and>
   get_version 4300 tbl3 (VStr ''-1'') = Inr (JStr ''v2'')"
  using get_version_from_end [of tbl3 4300 "''-1''" "- 1"]
  by (simp add: versions_tbl3 py_int_m1)

section \<open>The data catalog: partitions\<close>

lemma update_in_place:
  "map_of al k \<noteq> None \<Longrightarrow>
     \<exists>i<length al. fst (al ! i) = k \<and> AList.update k v al = al[i := (k, v)]"
proof (induction al)
  case Nil
  then show ?case by simp
next
  case (Cons p al)
  show ?case
  proof (cases "fst p = k")
    case True
    then have "fst ((p # al) ! 0) = k \<and> AList.update k v (p # al) = (p # al)[0 := (k, v)]"
      by simp
    then show ?thesis by blast
  next
    case False
    with Cons.prems have "map_of al k \<noteq> None" by (cases p) auto
    from Cons.IH [OF this] obtain i where
      i: "i < length al" "fst (al ! i) = k" "AList.update k v al = al[i := (k, v)]" by blast
    with False have "Suc i < length (p # al) \<and> fst ((p # al) ! Suc i) = k
        \<and> AList.update k v (p # al) = (p # al)[Suc i := (k, v)]" by simp
    then show ?thesis by blast
  qed
qed

lemma map_of_update_same: "map_of (AList.update k v al) k = Some v"
  by (simp add: update_conv')

lemma map_of_delete_same: "map_of (AList.delete k al) k = None"
  by (simp add: delete_conv')

lemma map_of_delete_other: "k' \<noteq> k \<Longrightarrow> map_of (AList.delete k al) k' = map_of al k'"
  by (simp add: delete_conv')

lemma map_of_update_other: "k' \<noteq> k \<Longrightarrow> map_of (AList.update k v al) k' = map_of al k'"
  by (simp add: update_conv')

lemmas py_repr_eval = py_str_list_def py_repr_def repr_quote_def repr_char_def squote_def
  dquote_def backslash_def unprintable_def Let_def

lemma key_01: "py_str_list [''2021'', ''01''] = CHR ''['' # CHR 0x27 # ''2021'' @ CHR 0x27 # '', '' @ CHR 0x27 # ''01'' @ [CHR 0x27, CHR '']'']"
  by (simp add: py_repr_eval)
lemma key_02: "py_str_list [''2021'', ''02''] = CHR ''['' # CHR 0x27 # ''2021'' @ CHR 0x27 # '', '' @ CHR 0x27 # ''02'' @ [CHR 0x27, CHR '']'']"
  by (simp add: py_repr_eval)
lemma key_03: "py_str_list [''2021'', ''03''] = CHR ''['' # CHR 0x27 # ''2021'' @ CHR 0x27 # '', '' @ CHR 0x27 # ''03'' @ [CHR 0x27, CHR '']'']"
  by (simp add: py_repr_eval)

lemma partitions_tbl_parts:
  "partitions tbl_parts =
     [(py_str_list [''2021'', ''01''], FakePartition_init ''db'' ''tbl'' partition_01),
      (py_str_list [''2021'', ''02''], FakePartition_init ''db'' ''tbl'' partition_02)]"
  by (simp add: tbl_parts_def create_partition_def tbl3_def table_update_def FakeTable_init_def
      partition_01_def partition_02_def FakePartition_init_def od_mem_def Let_def key_01 key_02)

lemma names_tbl_parts: "t_database_name tbl_parts = ''db'' \<and> t_name tbl_parts = ''tbl''"
  by (simp add: tbl_parts_def create_partition_def tbl3_def table_update_def FakeTable_init_def
      partition_01_def partition_02_def FakePartition_init_def od_mem_def Let_def key_01 key_02)

text \<open>
  Claim C4.  When the old values equal the \<^verbatim>\<open>Values\<close> of the new input: if the key is
  absent the call fails with \<^verbatim>\<open>PartitionNotFound\<close> and the table is unchanged; if it is
  present, the entry is replaced where it stands, so the keys keep their order and the
  listing changes at that one position only.
\<close>

theorem update_partition_in_place:
  assumes "Values partiton_input = Some vs" and "old_values = vs"
  shows "(\<not> od_mem (py_str_list vs) (partitions t) \<longrightarrow>
            update_partition t old_values partiton_input = (Inl PartitionNotFoundException, t)) \<and>
         (od_mem (py_str_list vs) (partitions t) \<longrightarrow>
            (\<exists>i<length (partitions t).
                fst (partitions t ! i) = py_str_list vs \<and>
                update_partition t old_values partiton_input =
                  (Inr (), t\<lparr>partitions := (partitions t)
                     [i := (py_str_list vs,
                            FakePartition_init (t_database_name t) (t_name t) partiton_input)]\<rparr>) \<and>
                get_partitions_all (snd (update_partition t old_values partiton_input)) =
                  (get_partitions_all t)
                     [i := FakePartition_init (t_database_name t) (t_name t) partiton_input]) \<and>
            map fst (partitions (snd (update_partition t old_values partiton_input)))
              = map fst (partitions t) \<and>
            get_partition (snd (update_partition t old_values partiton_input)) vs
              = Inr (FakePartition_init (t_database_name t) (t_name t) partiton_input))"
proof (intro conjI impI)
  let ?p = "FakePartition_init (t_database_name t) (t_name t) partiton_input"
  let ?key = "py_str_list vs"
  have key: "py_str_list (p_values ?p) = ?key"
    using assms(1) by (simp add: FakePartition_init_def)
  {
    assume "\<not> od_mem ?key (partitions t)"
    then show "update_partition t old_values partiton_input = (Inl PartitionNotFoundException, t)"
      using assms key by (simp add: update_partition_def Let_def)
  }
  assume mem: "od_mem ?key (partitions t)"
  then have res: "update_partition t old_values partiton_input
      = (Inr (), t\<lparr>partitions := AList.update ?key ?p (partitions t)\<rparr>)"
    using assms key by (simp add: update_partition_def Let_def)
  from mem have "map_of (partitions t) ?key \<noteq> None" by (simp add: od_mem_def)
  from update_in_place [OF this, of ?p] obtain i where
    i: "i < length (partitions t)" "fst (partitions t ! i) = ?key"
       "AList.update ?key ?p (partitions t) = (partitions t)[i := (?key, ?p)]" by blast
  from i res have "fst (partitions t ! i) = ?key \<and>
      update_partition t old_values partiton_input
        = (Inr (), t\<lparr>partitions := (partitions t)[i := (?key, ?p)]\<rparr>) \<and>
      get_partitions_all (snd (update_partition t old_values partiton_input))
        = (get_partitions_all t)[i := ?p]"
    by (simp add: get_partitions_all_def od_values_def map_update)
  with i(1) show "\<exists>i<length (partitions t).
      fst (partitions t ! i) = ?key \<and>
      update_partition t old_values partiton_input
        = (Inr (), t\<lparr>partitions := (partitions t)[i := (?key, ?p)]\<rparr>) \<and>
      get_partitions_all (snd (update_partition t old_values partiton_input))
        = (get_partitions_all t)[i := ?p]"
    by blast
  from i res show "map fst (partitions (snd (update_partition t old_values partiton_input)))
      = map fst (partitions t)"
    by (simp add: map_update list_update_same_conv)
  from res show "get_partition (snd (update_partition t old_values partiton_input)) vs = Inr ?p"
    by (simp add: get_partition_def map_of_update_same)
qed

theorem update_partition_in_place_witness:
  "Values partition_01_moved = Some [''2021'', ''01''] \<and>
   od_mem (py_str_list [''2021'', ''01'']) (partitions tbl_parts) \<and>
   map fst (partitions (snd (update_partition tbl_parts [''2021'', ''01''] partition_01_moved)))
     = map fst (partitions tbl_parts) \<and>
   get_partition (snd (update_partition tbl_parts [''2021'', ''01''] partition_01_moved))
       [''2021'', ''01'']
     = Inr (FakePartition_init ''db'' ''tbl'' partition_01_moved) \<and>
   Values partition_03 = Some [''2021'', ''03''] \<and>
   \<not> od_mem (py_str_list [''2021'', ''03'']) (partitions tbl_parts) \<and>
   update_partition tbl_parts [''2021'', ''03''] partition_03
     = (Inl PartitionNotFoundException, tbl_parts)"
proof -
  have v1: "Values partition_01_moved = Some [''2021'', ''01'']"
    by (simp add: partition_01_moved_def)
  have v3: "Values partition_03 = Some [''2021'', ''03'']"
    by (simp add: partition_03_def)
  have m1: "od_mem (py_str_list [''2021'', ''01'']) (partitions tbl_parts) = True"
    by (simp add: od_mem_def partitions_tbl_parts)
  have m3: "od_mem (py_str_list [''2021'', ''03'']) (partitions tbl_parts) = False"
    by (simp add: od_mem_def partitions_tbl_parts key_01 key_02 key_03)
  from update_partition_in_place [OF v1 refl, of tbl_parts]
    update_partition_in_place [OF v3 refl, of tbl_parts]
  show ?thesis by (auto simp: names_tbl_parts v1 v3 m1 m3)
qed

text \<open>
  Claim C5.  When the old values differ from the \<^verbatim>\<open>Values\<close> of the new input: an absent
  old key fails with \<^verbatim>\<open>PartitionNotFound\<close> (table unchanged); otherwise the old entry
  is removed, and the call fails with \<^verbatim>\<open>PartitionAlreadyExists\<close> if the new key is
  occupied (the removal stays), or else stores the partition under the new key.  After
  the successful change the old values resolve to nothing and the new ones to the new
  partition.
\<close>

theorem update_partition_key_change:
  assumes "Values partiton_input = Some vs" and "old_values \<noteq> vs"
  shows "(map_of (partitions t) (py_str_list old_values) = None \<longrightarrow>
            update_partition t old_values partiton_input = (Inl PartitionNotFoundException, t)) \<and>
         (map_of (partitions t) (py_str_list old_values) \<noteq> None
            \<and> od_mem (py_str_list vs) (partitions t) \<longrightarrow>
            update_partition t old_values partiton_input =
              (Inl PartitionAlreadyExistsException,
               t\<lparr>partitions := AList.delete (py_str_list old_values) (partitions t)\<rparr>)) \<and>
         (map_of (partitions t) (py_str_list old_values) \<noteq> None
            \<and> \<not> od_mem (py_str_list vs) (partitions t) \<longrightarrow>
            update_partition t old_values partiton_input =
              (Inr (), t\<lparr>partitions := AList.update (py_str_list vs)
                 (FakePartition_init (t_database_name t) (t_name t) partiton_input)
                 (AList.delete (py_str_list old_values) (partitions t))\<rparr>) \<and>
            get_partition (snd (update_partition t old_values partiton_input)) old_values
              = Inl PartitionNotFoundException \<and>
            get_partition (snd (update_partition t old_values partiton_input)) vs
              = Inr (FakePartition_init (t_database_name t) (t_name t) partiton_input))"
proof -
  let ?p = "FakePartition_init (t_database_name t) (t_name t) partiton_input"
  let ?key = "py_str_list vs"
  let ?old = "py_str_list old_values"
  have key: "py_str_list (p_values ?p) = ?key"
    using assms(1) by (simp add: FakePartition_init_def)
  from assms(2) have ne: "?key \<noteq> ?old" using py_str_list_inj by blast
  then have mem: "od_mem ?key (AList.delete ?old (partitions t)) = od_mem ?key (partitions t)"
    by (simp add: od_mem_def)
  have 1: "map_of (partitions t) ?old = None \<longrightarrow>
      update_partition t old_values partiton_input = (Inl PartitionNotFoundException, t)"
    using assms by (simp add: update_partition_def Let_def)
  have 2: "map_of (partitions t) ?old \<noteq> None \<and> od_mem ?key (partitions t) \<longrightarrow>
      update_partition t old_values partiton_input =
        (Inl PartitionAlreadyExistsException, t\<lparr>partitions := AList.delete ?old (partitions t)\<rparr>)"
    using assms key mem by (auto simp: update_partition_def Let_def)
  have 3: "map_of (partitions t) ?old \<noteq> None \<and> \<not> od_mem ?key (partitions t) \<longrightarrow>
      update_partition t old_values partiton_input =
        (Inr (), t\<lparr>partitions := AList.update ?key ?p (AList.delete ?old (partitions t))\<rparr>)"
    using assms key mem by (auto simp: update_partition_def Let_def)
  have 4: "get_partition (t\<lparr>partitions := AList.update ?key ?p (AList.delete ?old (partitions t))\<rparr>)
      old_values = Inl PartitionNotFoundException"
    using ne by (simp add: get_partition_def map_of_update_other map_of_delete_same)
  have 5: "get_partition (t\<lparr>partitions := AList.update ?key ?p (AList.delete ?old (partitions t))\<rparr>)
      vs = Inr ?p"
    by (simp add: get_partition_def map_of_update_same)
  from 1 2 3 4 5 show ?thesis by simp
qed

theorem update_partition_key_change_witness:
  "Values partition_03 = Some [''2021'', ''03''] \<and> [''2021'', ''01''] \<noteq> [''2021'', ''03''] \<and>
   map_of (partitions tbl_parts) (py_str_list [''2021'', ''01'']) \<noteq> None \<and>
   \<not> od_mem (py_str_list [''2021'', ''03'']) (partitions tbl_parts) \<and>
   get_partition (snd (update_partition tbl_parts [''2021'', ''01''] partition_03))
     [''2021'', ''01''] = Inl PartitionNotFoundException \<and>
   get_partition (snd (update_partition tbl_parts [''2021'', ''01''] partition_03))
     [''2021'', ''03''] = Inr (FakePartition_init ''db'' ''tbl'' partition_03) \<and>
   Values partition_02 = Some [''2021'', ''02''] \<and>
   od_mem (py_str_list [''2021'', ''02'']) (partitions tbl_parts) \<and>
   fst (update_partition tbl_parts [''2021'', ''01''] partition_02)
     = Inl PartitionAlreadyExistsException \<and>
   map_of (partitions tbl_parts) (py_str_list [''1999'']) = None \<and>
   update_partition tbl_parts [''1999''] partition_03 = (Inl PartitionNotFoundException, tbl_parts)"
proof -
  have v2: "Values partition_02 = Some [''2021'', ''02'']"
    by (simp add: partition_02_def)
  have v3: "Values partition_03 = Some [''2021'', ''03'']"
    by (simp add: partition_03_def)
  have d13: "[''2021'', ''01''] \<noteq> [''2021'', ''03'']" by simp
  have d12: "[''2021'', ''01''] \<noteq> [''2021'', ''02'']" by simp
  have d93: "[''1999''] \<noteq> [''2021'', ''03'']" by simp
  have m1: "map_of (partitions tbl_parts) (py_str_list [''2021'', ''01''])
      = Some (FakePartition_init ''db'' ''tbl'' partition_01)"
    by (simp add: partitions_tbl_parts)
  have m2: "od_mem (py_str_list [''2021'', ''02'']) (partitions tbl_parts) = True"
    by (simp add: od_mem_def partitions_tbl_parts)
  have m3: "od_mem (py_str_list [''2021'', ''03'']) (partitions tbl_parts) = False"
    by (simp add: od_mem_def partitions_tbl_parts key_01 key_02 key_03)
  have m9: "map_of (partitions tbl_parts) (py_str_list [''1999'']) = None"
    by (simp add: partitions_tbl_parts key_01 key_02 py_repr_eval)
  from update_partition_key_change [OF v3 d13, of tbl_parts]
    update_partition_key_change [OF v2 d12, of tbl_parts]
    update_partition_key_change [OF v3 d93, of tbl_parts]
  show ?thesis by (auto simp: names_tbl_parts v2 v3 m1 m2 m3 m9)
qed

section \<open>The edge service: the patterns\<close>

text \<open>
  The matcher accepts exactly the words of the regular expression, for every pattern
  that meets the side condition; the three patterns of the source do.
\<close>

lemma match_piece_sound:
  "match_piece p s = Some r \<Longrightarrow> \<exists>u. s = u @ r \<and> piece_words p u"
proof (cases p)
  case (Lit x)
  assume "match_piece p s = Some r"
  with Lit have "take (length x) s = x" "r = drop (length x) s"
    by (auto split: if_splits)
  then have "s = x @ r" by (metis append_take_drop_id)
  with Lit show ?thesis by simp
next
  case (Plus P)
  assume "match_piece p s = Some r"
  with Plus have "takeWhile P s \<noteq> []" "r = dropWhile P s" by (auto split: if_splits)
  then have "s = takeWhile P s @ r \<and> piece_words (Plus P) (takeWhile P s)"
    by (simp add: list_all_iff) (meson set_takeWhileD)
  with Plus show ?thesis by blast
next
  case (Rep n P)
  assume "match_piece p s = Some r"
  with Rep have "n \<le> length s" "list_all P (take n s)" "r = drop n s"
    by (auto split: if_splits)
  then have "s = take n s @ r \<and> piece_words (Rep n P) (take n s)" by simp
  with Rep show ?thesis by blast
qed

lemma match_pieces_sound:
  "match_pieces ps s = Some r \<Longrightarrow> \<exists>w. s = w @ r \<and> pieces_words ps w"
proof (induction ps arbitrary: s)
  case Nil
  then show ?case by simp
next
  case (Cons p ps)
  from Cons.prems obtain r1 where 1: "match_piece p s = Some r1" and 2: "match_pieces ps r1 = Some r"
    by (auto split: option.splits)
  from match_piece_sound [OF 1] obtain u where u: "s = u @ r1" "piece_words p u" by blast
  from Cons.IH [OF 2] obtain v where v: "r1 = v @ r" "pieces_words ps v" by blast
  from u v have "s = (u @ v) @ r \<and> pieces_words (p # ps) (u @ v)" by auto
  then show ?case by blast
qed

lemma match_Lit: "match_piece (Lit p) (p @ r) = Some r"
  by simp

lemma match_Rep: "length u = n \<Longrightarrow> list_all P u \<Longrightarrow> match_piece (Rep n P) (u @ r) = Some r"
  by simp

lemma match_Plus:
  assumes "u \<noteq> []" "list_all P u" "r = [] \<or> \<not> P (hd r)"
  shows "match_piece (Plus P) (u @ r) = Some r"
proof -
  from assms(2) have all: "\<forall>x\<in>set u. P x" by (simp add: list_all_iff)
  from assms(3) have "takeWhile P r = []" by (cases r) auto
  with all have tw: "takeWhile P (u @ r) = u" by simp
  from assms(3) have "dropWhile P r = r" by (cases r) auto
  with all have "dropWhile P (u @ r) = r" by simp
  with tw assms(1) show ?thesis by simp
qed

lemma match_pieces_complete:
  "deterministic ps \<Longrightarrow> pieces_words ps w \<Longrightarrow> r = [] \<or> r = [CHR 0x0A]
     \<Longrightarrow> match_pieces ps (w @ r) = Some r"
proof (induction ps arbitrary: w rule: deterministic.induct)
  case 1
  then show ?case by simp
next
  case (2 P)
  then have "w \<noteq> []" "list_all P w" "r = [] \<or> \<not> P (hd r)" by auto
  from match_Plus [OF this] show ?case by simp
next
  case (3 P ps)
  then show ?case by simp
next
  case (4 P c cs ps)
  from "4.prems"(2) obtain u v where
    w: "w = u @ (c # cs) @ v" and u: "u \<noteq> []" "list_all P u" and v: "pieces_words ps v"
    by auto
  from "4.prems"(1) have "\<not> P (hd ((c # cs) @ v @ r))" by simp
  with u have "match_piece (Plus P) (u @ ((c # cs) @ v @ r)) = Some ((c # cs) @ v @ r)"
    by (intro match_Plus) simp_all
  moreover have "match_piece (Lit (c # cs)) ((c # cs) @ (v @ r)) = Some (v @ r)"
    by (rule match_Lit)
  moreover from "4.IH" "4.prems" v have "match_pieces ps (v @ r) = Some r" by simp
  ultimately show ?case using w by simp
next
  case (5 P Q ps)
  then show ?case by simp
next
  case (6 P n Q ps)
  then show ?case by simp
next
  case (7 p ps)
  from "7.prems"(2) obtain v where w: "w = p @ v" and v: "pieces_words ps v" by auto
  from "7.IH" "7.prems" v have "match_pieces ps (v @ r) = Some r" by simp
  with w show ?case by simp
next
  case (8 n P ps)
  from "8.prems"(2) obtain u v where
    w: "w = u @ v" and u: "length u = n" "list_all P u" and v: "pieces_words ps v" by auto
  from "8.IH" "8.prems" v have "match_pieces ps (v @ r) = Some r" by simp
  with w u show ?case by simp
qed

lemma re_match_iff:
  assumes "deterministic ps"
  shows "re_match ps s \<longleftrightarrow> (\<exists>w nl. s = w @ nl \<and> pieces_words ps w \<and> (nl = [] \<or> nl = [CHR 0x0A]))"
proof
  assume "re_match ps s"
  then obtain r where r: "match_pieces ps s = Some r" "r = [] \<or> r = [CHR 0x0A]"
    by (auto simp: re_match_def split: option.splits)
  from match_pieces_sound [OF r(1)] r(2) show
    "\<exists>w nl. s = w @ nl \<and> pieces_words ps w \<and> (nl = [] \<or> nl = [CHR 0x0A])" by blast
next
  assume "\<exists>w nl. s = w @ nl \<and> pieces_words ps w \<and> (nl = [] \<or> nl = [CHR 0x0A])"
  then obtain w nl where "s = w @ nl" "pieces_words ps w" "nl = [] \<or> nl = [CHR 0x0A]" by blast
  with match_pieces_complete [OF assms, of w nl] show "re_match ps s"
    by (auto simp: re_match_def)
qed

lemma newline_classes:
  "\<not> alnum_dash (CHR 0x0A)" "\<not> alnum_dash_us (CHR 0x0A)" "\<not> lower_digit_dash (CHR 0x0A)"
  "\<not> alnum_dash CHR '':''" "\<not> alnum_dash_us CHR '':''"
  by (simp_all add: alnum_dash_def alnum_dash_us_def lower_digit_dash_def is_lower_def
      is_upper_def is_digit_def)

lemma thing_arn_deterministic: "deterministic thing_arn_regex"
  by (simp add: thing_arn_regex_def newline_classes)

lemma function_arn_deterministic: "deterministic function_arn_regex"
  by (simp add: function_arn_regex_def newline_classes)

lemma def_ver_arn_deterministic: "deterministic (def_ver_arn_regex kind)"
  by (simp add: def_ver_arn_regex_def newline_classes)


lemma pw_Nil: "pieces_words [] []"
  by simp

lemma pw_Lit: "pieces_words ps v \<Longrightarrow> pieces_words (Lit p # ps) (p @ v)"
  by auto

lemma pw_Plus: "u \<noteq> [] \<Longrightarrow> list_all P u \<Longrightarrow> pieces_words ps v \<Longrightarrow> pieces_words (Plus P # ps) (u @ v)"
  by auto

lemma pw_Rep: "length u = n \<Longrightarrow> list_all P u \<Longrightarrow> pieces_words ps v \<Longrightarrow> pieces_words (Rep n P # ps) (u @ v)"
  by auto

lemma pw_NilE: "pieces_words [] w \<Longrightarrow> (w = [] \<Longrightarrow> R) \<Longrightarrow> R"
  by simp

lemma pw_LitE: "pieces_words (Lit p # ps) w \<Longrightarrow> (\<And>v. w = p @ v \<Longrightarrow> pieces_words ps v \<Longrightarrow> R) \<Longrightarrow> R"
  by auto

lemma pw_PlusE:
  "pieces_words (Plus P # ps) w \<Longrightarrow>
     (\<And>u v. w = u @ v \<Longrightarrow> u \<noteq> [] \<Longrightarrow> list_all P u \<Longrightarrow> pieces_words ps v \<Longrightarrow> R) \<Longrightarrow> R"
  by auto

lemma pw_RepE:
  "pieces_words (Rep n P # ps) w \<Longrightarrow>
     (\<And>u v. w = u @ v \<Longrightarrow> length u = n \<Longrightarrow> list_all P u \<Longrightarrow> pieces_words ps v \<Longrightarrow> R) \<Longrightarrow> R"
  by auto

lemma thing_arn_words:
  "pieces_words thing_arn_regex w \<longleftrightarrow>
     (\<exists>region account name.
        w = ''arn:aws:iot:'' @ region @ '':'' @ account @ '':thing/'' @ name \<and>
        region \<noteq> [] \<and> list_all alnum_dash region \<and>
        length account = 12 \<and> list_all is_digit account \<and>
        name \<noteq> [] \<and> list_all alnum_dash name)"
proof (rule iffI)
  assume "pieces_words thing_arn_regex w"
  then obtain region account name where
    "w = ''arn:aws:iot:'' @ region @ '':'' @ account @ '':thing/'' @ name @ []"
    "region \<noteq> []" "list_all alnum_dash region" "length account = 12"
    "list_all is_digit account" "name \<noteq> []" "list_all alnum_dash name"
    unfolding thing_arn_regex_def
    by (elim pw_LitE pw_PlusE pw_RepE pw_NilE) blast
  then show "\<exists>region account name.
        w = ''arn:aws:iot:'' @ region @ '':'' @ account @ '':thing/'' @ name \<and>
        region \<noteq> [] \<and> list_all alnum_dash region \<and>
        length account = 12 \<and> list_all is_digit account \<and>
        name \<noteq> [] \<and> list_all alnum_dash name"
    by (intro exI [of _ region] exI [of _ account] exI [of _ name]) simp
next
  assume "\<exists>region account name.
        w = ''arn:aws:iot:'' @ region @ '':'' @ account @ '':thing/'' @ name \<and>
        region \<noteq> [] \<and> list_all alnum_dash region \<and>
        length account = 12 \<and> list_all is_digit account \<and>
        name \<noteq> [] \<and> list_all alnum_dash name"
  then obtain region account name where
    w: "w = ''arn:aws:iot:'' @ region @ '':'' @ account @ '':thing/'' @ name @ []"
    and h: "region \<noteq> []" "list_all alnum_dash region" "length account = 12"
    "list_all is_digit account" "name \<noteq> []" "list_all alnum_dash name"
    by auto
  show "pieces_words thing_arn_regex w"
    unfolding thing_arn_regex_def w
    by (intro pw_Lit pw_Plus pw_Rep pw_Nil h)
qed

lemma thing_arn_shape:
  "re_match thing_arn_regex x \<longleftrightarrow>
     (\<exists>region account name nl.
        x = ''arn:aws:iot:'' @ region @ '':'' @ account @ '':thing/'' @ name @ nl \<and>
        region \<noteq> [] \<and> list_all alnum_dash region \<and>
        length account = 12 \<and> list_all is_digit account \<and>
        name \<noteq> [] \<and> list_all alnum_dash name \<and> (nl = [] \<or> nl = [CHR 0x0A]))"
proof (rule iffI)
  assume "re_match thing_arn_regex x"
  then obtain w nl where "x = w @ nl" "pieces_words thing_arn_regex w" "nl = [] \<or> nl = [CHR 0x0A]"
    unfolding re_match_iff [OF thing_arn_deterministic] by blast
  then show "\<exists>region account name nl.
        x = ''arn:aws:iot:'' @ region @ '':'' @ account @ '':thing/'' @ name @ nl \<and>
        region \<noteq> [] \<and> list_all alnum_dash region \<and>
        length account = 12 \<and> list_all is_digit account \<and>
        name \<noteq> [] \<and> list_all alnum_dash name \<and> (nl = [] \<or> nl = [CHR 0x0A])"
    unfolding thing_arn_words by (elim exE conjE) (simp, blast)
next
  assume "\<exists>region account name nl.
        x = ''arn:aws:iot:'' @ region @ '':'' @ account @ '':thing/'' @ name @ nl \<and>
        region \<noteq> [] \<and> list_all alnum_dash region \<and>
        length account = 12 \<and> list_all is_digit account \<and>
        name \<noteq> [] \<and> list_all alnum_dash name \<and> (nl = [] \<or> nl = [CHR 0x0A])"
  then obtain region account name nl where
    x: "x = (''arn:aws:iot:'' @ region @ '':'' @ account @ '':thing/'' @ name) @ nl"
    and h: "region \<noteq> [] \<and> list_all alnum_dash region \<and>
        length account = 12 \<and> list_all is_digit account \<and>
        name \<noteq> [] \<and> list_all alnum_dash name" and nl: "nl = [] \<or> nl = [CHR 0x0A]"
    by auto
  from h have "pieces_words thing_arn_regex
      (''arn:aws:iot:'' @ region @ '':'' @ account @ '':thing/'' @ name)"
    unfolding thing_arn_words by blast
  with x nl show "re_match thing_arn_regex x"
    unfolding re_match_iff [OF thing_arn_deterministic] by blast
qed

lemma function_arn_words:
  "pieces_words function_arn_regex w \<longleftrightarrow>
     (\<exists>region account name qualifier.
        w = ''arn:aws:lambda:'' @ region @ '':'' @ account @ '':function:'' @ name @ '':''
              @ qualifier \<and>
        region \<noteq> [] \<and> list_all alnum_dash region \<and>
        length account = 12 \<and> list_all is_digit account \<and>
        name \<noteq> [] \<and> list_all alnum_dash_us name \<and>
        qualifier \<noteq> [] \<and> list_all alnum_dash_us qualifier)"
proof (rule iffI)
  assume "pieces_words function_arn_regex w"
  then obtain region account name qualifier where
    "w = ''arn:aws:lambda:'' @ region @ '':'' @ account @ '':function:'' @ name @ '':''
           @ qualifier @ []"
    "region \<noteq> []" "list_all alnum_dash region" "length account = 12"
    "list_all is_digit account" "name \<noteq> []" "list_all alnum_dash_us name"
    "qualifier \<noteq> []" "list_all alnum_dash_us qualifier"
    unfolding function_arn_regex_def
    by (elim pw_LitE pw_PlusE pw_RepE pw_NilE) blast
  then show "\<exists>region account name qualifier.
        w = ''arn:aws:lambda:'' @ region @ '':'' @ account @ '':function:'' @ name @ '':''
              @ qualifier \<and>
        region \<noteq> [] \<and> list_all alnum_dash region \<and>
        length account = 12 \<and> list_all is_digit account \<and>
        name \<noteq> [] \<and> list_all alnum_dash_us name \<and>
        qualifier \<noteq> [] \<and> list_all alnum_dash_us qualifier"
    by (intro exI [of _ region] exI [of _ account] exI [of _ name] exI [of _ qualifier]) simp
next
  assume "\<exists>region account name qualifier.
        w = ''arn:aws:lambda:'' @ region @ '':'' @ account @ '':function:'' @ name @ '':''
              @ qualifier \<and>
        region \<noteq> [] \<and> list_all alnum_dash region \<and>
        length account = 12 \<and> list_all is_digit account \<and>
        name \<noteq> [] \<and> list_all alnum_dash_us name \<and>
        qualifier \<noteq> [] \<and> list_all alnum_dash_us qualifier"
  then obtain region account name qualifier where
    w: "w = ''arn:aws:lambda:'' @ region @ '':'' @ account @ '':function:'' @ name @ '':''
              @ qualifier @ []"
    and h: "region \<noteq> []" "list_all alnum_dash region" "length account = 12"
    "list_all is_digit account" "name \<noteq> []" "list_all alnum_dash_us name"
    "qualifier \<noteq> []" "list_all alnum_dash_us qualifier"
    by auto
  show "pieces_words function_arn_regex w"
    unfolding function_arn_regex_def w
    by (intro pw_Lit pw_Plus pw_Rep pw_Nil h)
qed

lemma function_arn_shape:
  "re_match function_arn_regex x \<longleftrightarrow>
     (\<exists>region account name qualifier nl.
        x = ''arn:aws:lambda:'' @ region @ '':'' @ account @ '':function:'' @ name @ '':''
              @ qualifier @ nl \<and>
        region \<noteq> [] \<and> list_all alnum_dash region \<and>
        length account = 12 \<and> list_all is_digit account \<and>
        name \<noteq> [] \<and> list_all alnum_dash_us name \<and>
        qualifier \<noteq> [] \<and> list_all alnum_dash_us qualifier \<and> (nl = [] \<or> nl = [CHR 0x0A]))"
proof (rule iffI)
  assume "re_match function_arn_regex x"
  then obtain w nl where "x = w @ nl" "pieces_words function_arn_regex w"
    "nl = [] \<or> nl = [CHR 0x0A]"
    unfolding re_match_iff [OF function_arn_deterministic] by blast
  then show "\<exists>region account name qualifier nl.
        x = ''arn:aws:lambda:'' @ region @ '':'' @ account @ '':function:'' @ name @ '':''
              @ qualifier @ nl \<and>
        region \<noteq> [] \<and> list_all alnum_dash region \<and>
        length account = 12 \<and> list_all is_digit account \<and>
        name \<noteq> [] \<and> list_all alnum_dash_us name \<and>
        qualifier \<noteq> [] \<and> list_all alnum_dash_us qualifier \<and> (nl = [] \<or> nl = [CHR 0x0A])"
    unfolding function_arn_words by (elim exE conjE) (simp, blast)
next
  assume "\<exists>region account name qualifier nl.
        x = ''arn:aws:lambda:'' @ region @ '':'' @ account @ '':function:'' @ name @ '':''
              @ qualifier @ nl \<and>
        region \<noteq> [] \<and> list_all alnum_dash region \<and>
        length account = 12 \<and> list_all is_digit account \<and>
        name \<noteq> [] \<and> list_all alnum_dash_us name \<and>
        qualifier \<noteq> [] \<and> list_all alnum_dash_us qualifier \<and> (nl = [] \<or> nl = [CHR 0x0A])"
  then obtain region account name qualifier nl where
    x0: "x = ''arn:aws:lambda:'' @ region @ '':'' @ account @ '':function:'' @ name @ '':''
              @ qualifier @ nl"
    and h: "region \<noteq> [] \<and> list_all alnum_dash region \<and>
        length account = 12 \<and> list_all is_digit account \<and>
        name \<noteq> [] \<and> list_all alnum_dash_us name \<and>
        qualifier \<noteq> [] \<and> list_all alnum_dash_us qualifier" and nl: "nl = [] \<or> nl = [CHR 0x0A]"
    by blast
  from x0 have
    x: "x = (''arn:aws:lambda:'' @ region @ '':'' @ account @ '':function:'' @ name @ '':''
              @ qualifier) @ nl" by simp
  from h have "pieces_words function_arn_regex
      (''arn:aws:lambda:'' @ region @ '':'' @ account @ '':function:'' @ name @ '':''
              @ qualifier)"
    unfolding function_arn_words by blast
  with x nl show "re_match function_arn_regex x"
    unfolding re_match_iff [OF function_arn_deterministic] by blast
qed

lemma def_ver_arn_words:
  "pieces_words (def_ver_arn_regex kind) w \<longleftrightarrow>
     (\<exists>region account definition_id version_id.
        w = ''arn:aws:greengrass:'' @ region @ '':'' @ account
              @ ('':greengrass/definition/'' @ kind @ ''/'') @ definition_id
              @ ''/versions/'' @ version_id \<and>
        region \<noteq> [] \<and> list_all alnum_dash region \<and>
        length account = 12 \<and> list_all is_digit account \<and>
        length definition_id = 36 \<and> list_all lower_digit_dash definition_id \<and>
        length version_id = 36 \<and> list_all lower_digit_dash version_id)"
proof (rule iffI)
  assume "pieces_words (def_ver_arn_regex kind) w"
  then obtain region account definition_id version_id where
    "w = ''arn:aws:greengrass:'' @ region @ '':'' @ account
              @ ('':greengrass/definition/'' @ kind @ ''/'') @ definition_id
              @ ''/versions/'' @ version_id @ []"
    "region \<noteq> []" "list_all alnum_dash region" "length account = 12"
    "list_all is_digit account" "length definition_id = 36"
    "list_all lower_digit_dash definition_id" "length version_id = 36"
    "list_all lower_digit_dash version_id"
    unfolding def_ver_arn_regex_def
    by (elim pw_LitE pw_PlusE pw_RepE pw_NilE) blast
  then show "\<exists>region account definition_id version_id.
        w = ''arn:aws:greengrass:'' @ region @ '':'' @ account
              @ ('':greengrass/definition/'' @ kind @ ''/'') @ definition_id
              @ ''/versions/'' @ version_id \<and>
        region \<noteq> [] \<and> list_all alnum_dash region \<and>
        length account = 12 \<and> list_all is_digit account \<and>
        length definition_id = 36 \<and> list_all lower_digit_dash definition_id \<and>
        length version_id = 36 \<and> list_all lower_digit_dash version_id"
    by (intro exI [of _ region] exI [of _ account] exI [of _ definition_id]
        exI [of _ version_id]) simp
next
  assume "\<exists>region account definition_id version_id.
        w = ''arn:aws:greengrass:'' @ region @ '':'' @ account
              @ ('':greengrass/definition/'' @ kind @ ''/'') @ definition_id
              @ ''/versions/'' @ version_id \<and>
        region \<noteq> [] \<and> list_all alnum_dash region \<and>
        length account = 12 \<and> list_all is_digit account \<and>
        length definition_id = 36 \<and> list_all lower_digit_dash definition_id \<and>
        length version_id = 36 \<and> list_all lower_digit_dash version_id"
  then obtain region account definition_id version_id where
    w: "w = ''arn:aws:greengrass:'' @ region @ '':'' @ account
              @ ('':greengrass/definition/'' @ kind @ ''/'') @ definition_id
              @ ''/versions/'' @ version_id @ []"
    and h: "region \<noteq> []" "list_all alnum_dash region" "length account = 12"
    "list_all is_digit account" "length definition_id = 36"
    "list_all lower_digit_dash definition_id" "length version_id = 36"
    "list_all lower_digit_dash version_id"
    by auto
  show "pieces_words (def_ver_arn_regex kind) w"
    unfolding def_ver_arn_regex_def w
    by (intro pw_Lit pw_Plus pw_Rep pw_Nil h)
qed

subsection \<open>Splitting an ARN at its slashes\<close>

lemma py_split_no_sep: "c \<notin> set u \<Longrightarrow> py_split c u = [u]"
  by (induction u) (auto simp: Let_def)

lemma py_split_nonempty: "py_split c s \<noteq> []"
  by (induction s) (simp_all add: Let_def)

lemma py_split_last_field:
  "c \<notin> set v \<Longrightarrow> py_split c (u @ c # v) = py_split c u @ [v]"
proof (induction u)
  case Nil
  then show ?case by (simp add: py_split_no_sep)
next
  case (Cons x u)
  then have ne: "py_split c u \<noteq> []" by (simp add: py_split_nonempty)
  from Cons show ?case
    by (cases "py_split c u") (use ne in \<open>auto simp: Let_def\<close>)
qed

lemma py_index_last3:
  "py_index (xs @ [a, b, c]) (- 3) = Some a" "py_index (xs @ [a, b, c]) (- 1) = Some c"
proof -
  have 3: "nat (int (length (xs @ [a, b, c])) + (- 3)) = length xs" by simp
  have 1: "nat (int (length (xs @ [a, b, c])) + (- 1)) = length xs + 2" by simp
  show "py_index (xs @ [a, b, c]) (- 3) = Some a"
    unfolding py_index_def Let_def 3 by (simp add: nth_append)
  have "(xs @ [a, b, c]) ! (length xs + 2) = c" by (simp add: nth_append)
  with 1 show "py_index (xs @ [a, b, c]) (- 1) = Some c"
    unfolding py_index_def Let_def by simp
qed

lemma slash_not_lower_digit_dash:
  "list_all lower_digit_dash v \<Longrightarrow> CHR ''/'' \<notin> set v"
  by (auto simp: list_all_iff lower_digit_dash_def is_lower_def is_digit_def)

lemma split_definition_version_arn:
  assumes "CHR ''/'' \<notin> set definition_id" "CHR ''/'' \<notin> set version_id"
  shows "py_index (py_split CHR ''/'' (p @ ''/'' @ definition_id @ ''/versions/'' @ version_id))
           (- 3) = Some definition_id \<and>
         py_index (py_split CHR ''/'' (p @ ''/'' @ definition_id @ ''/versions/'' @ version_id))
           (- 1) = Some version_id"
proof -
  let ?c = "CHR ''/''"
  have 1: "py_split ?c (((p @ ?c # definition_id) @ ?c # ''versions'') @ ?c # version_id)
      = py_split ?c ((p @ ?c # definition_id) @ ?c # ''versions'') @ [version_id]"
    by (rule py_split_last_field) (rule assms(2))
  have 2: "py_split ?c ((p @ ?c # definition_id) @ ?c # ''versions'')
      = py_split ?c (p @ ?c # definition_id) @ [''versions'']"
    by (rule py_split_last_field) simp
  have 3: "py_split ?c (p @ ?c # definition_id) = py_split ?c p @ [definition_id]"
    by (rule py_split_last_field) (rule assms(1))
  have "py_split ?c (p @ ''/'' @ definition_id @ ''/versions/'' @ version_id)
      = py_split ?c (((p @ ?c # definition_id) @ ?c # ''versions'') @ ?c # version_id)"
    by simp
  also have "\<dots> = py_split ?c p @ [definition_id, ''versions'', version_id]"
    unfolding 1 2 3 by simp
  finally have "py_split ?c (p @ ''/'' @ definition_id @ ''/versions/'' @ version_id)
      = py_split ?c p @ [definition_id, ''versions'', version_id]" .
  then show ?thesis by (simp add: py_index_last3)
qed

lemma join_mentions: "x \<in> set xs \<Longrightarrow> \<exists>p q. join sep xs = p @ x @ q"
proof (induction xs)
  case Nil
  then show ?case by simp
next
  case (Cons y ys)
  show ?case
  proof (cases "x = y")
    case True
    have "join sep (y # ys) = [] @ y @ (if ys = [] then [] else sep @ join sep ys)"
      by (simp add: join_Cons)
    with True show ?thesis by blast
  next
    case False
    with Cons.prems have mem: "x \<in> set ys" by simp
    then have ne: "ys \<noteq> []" by auto
    from Cons.IH [OF mem] obtain p q where "join sep ys = p @ x @ q" by blast
    with ne have "join sep (y # ys) = (y @ sep @ p) @ x @ q" by (simp add: join_Cons)
    then show ?thesis by blast
  qed
qed

section \<open>The edge service: group references\<close>

lemma def_ver_arn_shape:
  "re_match (def_ver_arn_regex kind) x \<longleftrightarrow>
     (\<exists>region account definition_id version_id nl.
        x = ''arn:aws:greengrass:'' @ region @ '':'' @ account @ '':greengrass/definition/''
              @ kind @ ''/'' @ definition_id @ ''/versions/'' @ version_id @ nl \<and>
        region \<noteq> [] \<and> list_all alnum_dash region \<and>
        length account = 12 \<and> list_all is_digit account \<and>
        length definition_id = 36 \<and> list_all lower_digit_dash definition_id \<and>
        length version_id = 36 \<and> list_all lower_digit_dash version_id \<and>
        (nl = [] \<or> nl = [CHR 0x0A]))"
proof (rule iffI)
  assume "re_match (def_ver_arn_regex kind) x"
  then obtain w nl where "x = w @ nl" "pieces_words (def_ver_arn_regex kind) w"
    "nl = [] \<or> nl = [CHR 0x0A]"
    unfolding re_match_iff [OF def_ver_arn_deterministic] by blast
  then show "\<exists>region account definition_id version_id nl.
        x = ''arn:aws:greengrass:'' @ region @ '':'' @ account @ '':greengrass/definition/''
              @ kind @ ''/'' @ definition_id @ ''/versions/'' @ version_id @ nl \<and>
        region \<noteq> [] \<and> list_all alnum_dash region \<and>
        length account = 12 \<and> list_all is_digit account \<and>
        length definition_id = 36 \<and> list_all lower_digit_dash definition_id \<and>
        length version_id = 36 \<and> list_all lower_digit_dash version_id \<and>
        (nl = [] \<or> nl = [CHR 0x0A])"
    unfolding def_ver_arn_words by (elim exE conjE) (simp, blast)
next
  assume "\<exists>region account definition_id version_id nl.
        x = ''arn:aws:greengrass:'' @ region @ '':'' @ account @ '':greengrass/definition/''
              @ kind @ ''/'' @ definition_id @ ''/versions/'' @ version_id @ nl \<and>
        region \<noteq> [] \<and> list_all alnum_dash region \<and>
        length account = 12 \<and> list_all is_digit account \<and>
        length definition_id = 36 \<and> list_all lower_digit_dash definition_id \<and>
        length version_id = 36 \<and> list_all lower_digit_dash version_id \<and>
        (nl = [] \<or> nl = [CHR 0x0A])"
  then obtain region account definition_id version_id nl where
    x0: "x = ''arn:aws:greengrass:'' @ region @ '':'' @ account @ '':greengrass/definition/''
              @ kind @ ''/'' @ definition_id @ ''/versions/'' @ version_id @ nl"
    and h: "region \<noteq> [] \<and> list_all alnum_dash region \<and>
        length account = 12 \<and> list_all is_digit account \<and>
        length definition_id = 36 \<and> list_all lower_digit_dash definition_id \<and>
        length version_id = 36 \<and> list_all lower_digit_dash version_id"
    and nl: "nl = [] \<or> nl = [CHR 0x0A]"
    by blast
  from x0 have x: "x = (''arn:aws:greengrass:'' @ region @ '':'' @ account
              @ ('':greengrass/definition/'' @ kind @ ''/'') @ definition_id
              @ ''/versions/'' @ version_id) @ nl" by simp
  from h have "pieces_words (def_ver_arn_regex kind)
      (''arn:aws:greengrass:'' @ region @ '':'' @ account
              @ ('':greengrass/definition/'' @ kind @ ''/'') @ definition_id
              @ ''/versions/'' @ version_id)"
    unfolding def_ver_arn_words by blast
  with x nl show "re_match (def_ver_arn_regex kind) x"
    unfolding re_match_iff [OF def_ver_arn_deterministic] by blast
qed

lemma split_reference:
  assumes "list_all lower_digit_dash definition_id" "list_all lower_digit_dash version_id"
    and "nl = [] \<or> nl = [CHR 0x0A]"
    and "arn = ''arn:aws:greengrass:'' @ region @ '':'' @ account @ '':greengrass/definition/''
              @ kind @ ''/'' @ definition_id @ ''/versions/'' @ version_id @ nl"
  shows "py_index (py_split CHR ''/'' arn) (- 3) = Some definition_id \<and>
         py_index (py_split CHR ''/'' arn) (- 1) = Some (version_id @ nl)"
proof -
  from assms(1) have 1: "CHR ''/'' \<notin> set definition_id" by (rule slash_not_lower_digit_dash)
  from assms(2) have "CHR ''/'' \<notin> set version_id" by (rule slash_not_lower_digit_dash)
  with assms(3) have 2: "CHR ''/'' \<notin> set (version_id @ nl)" by auto
  have "arn = (''arn:aws:greengrass:'' @ region @ '':'' @ account @ '':greengrass/definition/''
              @ kind) @ ''/'' @ definition_id @ ''/versions/'' @ (version_id @ nl)"
    using assms(4) by simp
  with split_definition_version_arn [OF 1 2] show ?thesis by blast
qed

lemma is_valid_def_ver_arn_Some:
  assumes "versions_of_kind b kind = Inr store"
  shows "is_valid_def_ver_arn b (Some arn) kind = Inr (reference_resolves store kind arn)"
proof (cases "re_match (def_ver_arn_regex kind) arn")
  case False
  then have "\<not> reference_resolves store kind arn"
    unfolding def_ver_arn_shape reference_resolves_def by blast
  with False assms show ?thesis by (simp add: is_valid_def_ver_arn_def)
next
  case True
  then obtain region account definition_id version_id nl where
    arn: "arn = ''arn:aws:greengrass:'' @ region @ '':'' @ account @ '':greengrass/definition/''
              @ kind @ ''/'' @ definition_id @ ''/versions/'' @ version_id @ nl"
    and h: "region \<noteq> []" "list_all alnum_dash region" "length account = 12"
      "list_all is_digit account" "length definition_id = 36"
      "list_all lower_digit_dash definition_id" "length version_id = 36"
      "list_all lower_digit_dash version_id" "nl = [] \<or> nl = [CHR 0x0A]"
    unfolding def_ver_arn_shape by blast
  from split_reference [OF h(6) h(8) h(9) arn]
  have s3: "py_index (py_split CHR ''/'' arn) (- 3) = Some definition_id"
    and s1: "py_index (py_split CHR ''/'' arn) (- 1) = Some (version_id @ nl)" by simp_all
  have "reference_resolves store kind arn \<longleftrightarrow>
      (\<exists>vers. map_of store definition_id = Some vers \<and> map_of vers (version_id @ nl) = Some arn)"
  proof
    assume "reference_resolves store kind arn"
    then obtain region' account' definition_id' version_id' nl' vers where
      arn': "arn = ''arn:aws:greengrass:'' @ region' @ '':'' @ account' @ '':greengrass/definition/''
              @ kind @ ''/'' @ definition_id' @ ''/versions/'' @ version_id' @ nl'"
      and h': "list_all lower_digit_dash definition_id'" "list_all lower_digit_dash version_id'"
        "nl' = [] \<or> nl' = [CHR 0x0A]"
      and m: "map_of store definition_id' = Some vers" "map_of vers (version_id' @ nl') = Some arn"
      unfolding reference_resolves_def by blast
    from split_reference [OF h' arn'] s3 s1 have "definition_id' = definition_id"
      "version_id' @ nl' = version_id @ nl" by simp_all
    with m show "\<exists>vers. map_of store definition_id = Some vers
        \<and> map_of vers (version_id @ nl) = Some arn" by auto
  next
    assume "\<exists>vers. map_of store definition_id = Some vers
        \<and> map_of vers (version_id @ nl) = Some arn"
    with arn h show "reference_resolves store kind arn"
      unfolding reference_resolves_def by blast
  qed
  with True assms s3 s1 show ?thesis
    by (auto simp: is_valid_def_ver_arn_def split: option.splits)
qed

lemma is_valid_def_ver_arn_ok:
  assumes "versions_of_kind b kind = Inr store"
  shows "is_valid_def_ver_arn b reference kind = Inr (reference_ok store kind reference)"
proof (cases reference)
  case None
  then show ?thesis by (simp add: is_valid_def_ver_arn_def reference_ok_def)
next
  case (Some arn)
  with is_valid_def_ver_arn_Some [OF assms, of arn] show ?thesis
    by (simp add: reference_ok_def)
qed

lemma reference_errors_eq:
  assumes "versions_of_kind b kind = Inr store"
  shows "reference_errors b reference kind message =
           Inr (if reference_ok store kind reference then [] else [message])"
  by (simp add: reference_errors_def is_valid_def_ver_arn_ok [OF assms])

lemma versions_of_kind_simps:
  "versions_of_kind b ''cores'' = Inr (version_arns cdv_arn (core_definition_versions b))"
  "versions_of_kind b ''functions'' = Inr (version_arns fdv_arn (function_definition_versions b))"
  "versions_of_kind b ''resources'' = Inr (version_arns rdv_arn (resource_definition_versions b))"
  "versions_of_kind b ''devices'' = Inr (version_arns ddv_arn (device_definition_versions b))"
  "versions_of_kind b ''subscriptions''
     = Inr (version_arns sdv_arn (subscription_definition_versions b))"
  by (simp_all add: versions_of_kind_def)

lemma validate_group_version_definitions_eq:
  "validate_group_version_definitions b c d f r s =
     (if group_reference_errors b c d f r s = [] then None
      else Some (GreengrassClientError ''400''
             (''The group is invalid or corrupted. (ErrorDetails: [''
              @ join '', '' (group_reference_errors b c d f r s) @ ''])'')))"
  unfolding validate_group_version_definitions_def
    reference_errors_eq [OF versions_of_kind_simps(1)]
    reference_errors_eq [OF versions_of_kind_simps(2)]
    reference_errors_eq [OF versions_of_kind_simps(3)]
    reference_errors_eq [OF versions_of_kind_simps(4)]
    reference_errors_eq [OF versions_of_kind_simps(5)]
    group_reference_errors_def
  by (simp add: Let_def)

lemma map_of_version_arns:
  "map_of (version_arns arn_of store) k
     = map_option (map (\<lambda>(v, x). (v, arn_of x))) (map_of store k)"
  by (induction store) (auto simp: version_arns_def)

lemma mentions_join:
  "x \<in> set xs \<Longrightarrow> mentions (pre @ join sep xs @ post) x"
proof -
  assume "x \<in> set xs"
  from join_mentions [OF this, of sep] obtain p q where "join sep xs = p @ x @ q" by blast
  then have "pre @ join sep xs @ post = (pre @ p) @ x @ (q @ post)" by simp
  then show ?thesis unfolding mentions_def by blast
qed

lemma create_group_version_eq:
  assumes "map_of (groups b) group_id = Some g"
  shows "create_group_version b uuid group_id c d f r s =
      (if group_reference_errors b c d f r s = [] then
         (Inr (FakeGroupVersion_init uuid (gg_region_name b) group_id c d f r s),
          b\<lparr>group_versions :=
               AList.update group_id
                 (AList.update uuid (FakeGroupVersion_init uuid (gg_region_name b) group_id c d f r s)
                    (od_get_default (group_versions b) group_id))
                 (group_versions b),
            groups := AList.update group_id
               (g\<lparr>g_latest_version_arn :=
                     gv_arn (FakeGroupVersion_init uuid (gg_region_name b) group_id c d f r s),
                   g_latest_version := uuid\<rparr>)
               (groups b)\<rparr>)
       else
         (Inl (GreengrassClientError ''400''
                (''The group is invalid or corrupted. (ErrorDetails: [''
                 @ join '', '' (group_reference_errors b c d f r s) @ ''])'')), b))"
  using assms
  by (simp add: create_group_version_def validate_group_version_definitions_eq Let_def
      FakeGroupVersion_init_def)

lemma missing_definition_not_ok:
  assumes "CHR ''/'' \<notin> set definition_id" "CHR ''/'' \<notin> set version_id"
    and "map_of store definition_id = None"
    and arn: "arn = ''arn:aws:greengrass:'' @ region @ '':'' @ account
           @ '':greengrass/definition/'' @ kind @ ''/'' @ definition_id @ ''/versions/''
           @ version_id"
  shows "\<not> reference_resolves store kind arn"
proof
  assume "reference_resolves store kind arn"
  then obtain region' account' definition_id' version_id' nl' vers where
    arn': "arn = ''arn:aws:greengrass:'' @ region' @ '':'' @ account' @ '':greengrass/definition/''
              @ kind @ ''/'' @ definition_id' @ ''/versions/'' @ version_id' @ nl'"
    and h': "list_all lower_digit_dash definition_id'" "list_all lower_digit_dash version_id'"
      "nl' = [] \<or> nl' = [CHR 0x0A]"
    and m: "map_of store definition_id' = Some vers"
    unfolding reference_resolves_def by blast
  from split_reference [OF h' arn']
  have 1: "py_index (py_split CHR ''/'' arn) (- 3) = Some definition_id'" by simp
  define p where "p = ''arn:aws:greengrass:'' @ region @ '':'' @ account
      @ '':greengrass/definition/'' @ kind"
  have eq: "arn = p @ ''/'' @ definition_id @ ''/versions/'' @ version_id"
    unfolding arn p_def by simp
  have 2: "py_index (py_split CHR ''/'' arn) (- 3) = Some definition_id"
    unfolding eq by (rule conjunct1 [OF split_definition_version_arn [OF assms(1,2)]])
  from 1 2 have "definition_id' = definition_id" by simp
  with m assms(3) show False by simp
qed

lemmas gg_eval = gg_group_def gg0_def GreengrassBackend_init_def create_group_def
  create_group_version_def FakeGroup_init_def FakeGroupVersion_init_def
  validate_group_version_definitions_eq group_reference_errors_def reference_ok_def
  get_group_def od_get_default_def Let_def

lemma groups_gg_group:
  "map_of (groups gg_group) uuid1 =
     Some (FakeGroup_init uuid1 ''eu-west-1'' ''group''
            \<lparr>g_latest_version_arn :=
                gv_arn (FakeGroupVersion_init uuid2 ''eu-west-1'' uuid1 None None None None None),
              g_latest_version := uuid2\<rparr>)"
  by (simp add: gg_eval)

lemma core_versions_gg_group: "core_definition_versions gg_group = []"
  by (simp add: gg_eval)

lemma uuid_no_slash: "CHR ''/'' \<notin> set uuid3" "CHR ''/'' \<notin> set uuid4"
  by (simp_all add: uuid3_def uuid4_def)


text \<open>
  Claim C6.  On an existing group, \<^verbatim>\<open>create_group_version\<close> succeeds exactly when no
  reference is violated, and otherwise leaves the backend as it was and fails with one
  error whose details join the messages of all violated references, in the order
  cores, functions, resources, devices, subscriptions.  A reference is violated unless
  it is null or resolves (shape, definition id present, version id present under it,
  the recorded ARN equal).  With five null references nothing is violated; a core
  reference that names a definition id absent from the store yields an error that
  mentions \<^verbatim>\<open>Cores definition reference does not exist\<close>.
\<close>

theorem create_group_version_references:
  assumes "map_of (groups b) group_id = Some g"
  shows
    "create_group_version b uuid group_id c d f r s =
      (if group_reference_errors b c d f r s = [] then
         (Inr (FakeGroupVersion_init uuid (gg_region_name b) group_id c d f r s),
          b\<lparr>group_versions :=
               AList.update group_id
                 (AList.update uuid (FakeGroupVersion_init uuid (gg_region_name b) group_id c d f r s)
                    (od_get_default (group_versions b) group_id))
                 (group_versions b),
            groups := AList.update group_id
               (g\<lparr>g_latest_version_arn :=
                     gv_arn (FakeGroupVersion_init uuid (gg_region_name b) group_id c d f r s),
                   g_latest_version := uuid\<rparr>)
               (groups b)\<rparr>)
       else
         (Inl (GreengrassClientError ''400''
                (''The group is invalid or corrupted. (ErrorDetails: [''
                 @ join '', '' (group_reference_errors b c d f r s) @ ''])'')), b)) \<and>
     group_reference_errors b None None None None None = [] \<and>
     (\<forall>x\<in>set (group_reference_errors b c d f r s).
        mentions (''The group is invalid or corrupted. (ErrorDetails: [''
                  @ join '', '' (group_reference_errors b c d f r s) @ ''])'') x) \<and>
     (c = Some (''arn:aws:greengrass:'' @ region @ '':'' @ account
                @ '':greengrass/definition/cores/'' @ definition_id @ ''/versions/'' @ version_id)
        \<and> CHR ''/'' \<notin> set definition_id \<and> CHR ''/'' \<notin> set version_id
        \<and> map_of (core_definition_versions b) definition_id = None
      \<longrightarrow> (\<exists>m. create_group_version b uuid group_id c d f r s
                  = (Inl (GreengrassClientError ''400'' m), b)
               \<and> mentions m ''Cores definition reference does not exist''))"
proof (intro conjI impI ballI)
  show "create_group_version b uuid group_id c d f r s =
      (if group_reference_errors b c d f r s = [] then
         (Inr (FakeGroupVersion_init uuid (gg_region_name b) group_id c d f r s),
          b\<lparr>group_versions :=
               AList.update group_id
                 (AList.update uuid (FakeGroupVersion_init uuid (gg_region_name b) group_id c d f r s)
                    (od_get_default (group_versions b) group_id))
                 (group_versions b),
            groups := AList.update group_id
               (g\<lparr>g_latest_version_arn :=
                     gv_arn (FakeGroupVersion_init uuid (gg_region_name b) group_id c d f r s),
                   g_latest_version := uuid\<rparr>)
               (groups b)\<rparr>)
       else
         (Inl (GreengrassClientError ''400''
                (''The group is invalid or corrupted. (ErrorDetails: [''
                 @ join '', '' (group_reference_errors b c d f r s) @ ''])'')), b))"
    by (rule create_group_version_eq [OF assms])
next
  show "group_reference_errors b None None None None None = []"
    by (simp add: group_reference_errors_def reference_ok_def)
next
  fix x assume "x \<in> set (group_reference_errors b c d f r s)"
  then show "mentions (''The group is invalid or corrupted. (ErrorDetails: [''
                  @ join '', '' (group_reference_errors b c d f r s) @ ''])'') x"
    by (rule mentions_join)
next
  assume a: "c = Some (''arn:aws:greengrass:'' @ region @ '':'' @ account
                @ '':greengrass/definition/cores/'' @ definition_id @ ''/versions/'' @ version_id)
        \<and> CHR ''/'' \<notin> set definition_id \<and> CHR ''/'' \<notin> set version_id
        \<and> map_of (core_definition_versions b) definition_id = None"
  let ?store = "version_arns cdv_arn (core_definition_versions b)"
  from a have "map_of ?store definition_id = None" by (simp add: map_of_version_arns)
  define arn where "arn = ''arn:aws:greengrass:'' @ region @ '':'' @ account
      @ '':greengrass/definition/cores/'' @ definition_id @ ''/versions/'' @ version_id"
  have shape: "arn = ''arn:aws:greengrass:'' @ region @ '':'' @ account
      @ '':greengrass/definition/'' @ ''cores'' @ ''/'' @ definition_id @ ''/versions/''
      @ version_id"
    unfolding arn_def by simp
  from a have sl: "CHR ''/'' \<notin> set definition_id" "CHR ''/'' \<notin> set version_id" by simp_all
  from a have c: "c = Some arn" unfolding arn_def by simp
  have "\<not> reference_resolves ?store ''cores'' arn"
    using sl \<open>map_of ?store definition_id = None\<close> shape by (rule missing_definition_not_ok)
  with c have "\<not> reference_ok ?store ''cores'' c" by (simp add: reference_ok_def)
  then have mem: "''Cores definition reference does not exist''
      \<in> set (group_reference_errors b c d f r s)"
    by (simp add: group_reference_errors_def)
  then have ne: "group_reference_errors b c d f r s \<noteq> []" by auto
  from mem have "mentions (''The group is invalid or corrupted. (ErrorDetails: [''
                  @ join '', '' (group_reference_errors b c d f r s) @ ''])'')
      ''Cores definition reference does not exist''" by (rule mentions_join)
  moreover from ne have "create_group_version b uuid group_id c d f r s
      = (Inl (GreengrassClientError ''400''
                (''The group is invalid or corrupted. (ErrorDetails: [''
                 @ join '', '' (group_reference_errors b c d f r s) @ ''])'')), b)"
    by (simp only: create_group_version_eq [OF assms] if_False)
  ultimately show "\<exists>m. create_group_version b uuid group_id c d f r s
                  = (Inl (GreengrassClientError ''400'' m), b)
               \<and> mentions m ''Cores definition reference does not exist''"
    by blast
qed

theorem create_group_version_references_witness:
  "map_of (groups gg_group) uuid1 \<noteq> None \<and>
   fst (create_group_version gg_group uuid3 uuid1 None None None None None) =
     Inr (FakeGroupVersion_init uuid3 ''eu-west-1'' uuid1 None None None None None) \<and>
   CHR ''/'' \<notin> set uuid3 \<and> CHR ''/'' \<notin> set uuid4 \<and>
   map_of (core_definition_versions gg_group) uuid3 = None \<and>
   ''Cores definition reference does not exist''
     \<in> set (group_reference_errors gg_group (Some missing_core_ref) None None None None) \<and>
   mentions (''The group is invalid or corrupted. (ErrorDetails: [''
       @ join '', '' (group_reference_errors gg_group (Some missing_core_ref) None None None None)
       @ ''])'') ''Cores definition reference does not exist'' \<and>
   (\<exists>m. create_group_version gg_group uuid2 uuid1 (Some missing_core_ref) None None None None
           = (Inl (GreengrassClientError ''400'' m), gg_group)
        \<and> mentions m ''Cores definition reference does not exist'')"
proof -
  note g = groups_gg_group
  have region: "gg_region_name gg_group = ''eu-west-1''" by (simp add: gg_eval)
  have 1: "group_reference_errors gg_group None None None None None = []"
    using create_group_version_references [OF g] by blast
  have 2: "fst (create_group_version gg_group uuid3 uuid1 None None None None None) =
     Inr (FakeGroupVersion_init uuid3 ''eu-west-1'' uuid1 None None None None None)"
    using create_group_version_references [OF g, of uuid3 None None None None None] 1 region
    by simp
  have m: "map_of (core_definition_versions gg_group) uuid3 = None"
    by (simp add: core_versions_gg_group)
  have c: "Some missing_core_ref = Some (''arn:aws:greengrass:'' @ ''eu-west-1'' @ '':''
      @ ''123456789012'' @ '':greengrass/definition/cores/'' @ uuid3 @ ''/versions/'' @ uuid4)"
    by (simp add: missing_core_ref_def)
  note r = create_group_version_references [OF g, of uuid2 "Some missing_core_ref" None None
      None None "''eu-west-1''" "''123456789012''" uuid3 uuid4]
  from conjunct2 [OF conjunct2 [OF conjunct2 [OF r]]] c uuid_no_slash m
  have 3: "\<exists>m. create_group_version gg_group uuid2 uuid1 (Some missing_core_ref) None None None None
           = (Inl (GreengrassClientError ''400'' m), gg_group)
        \<and> mentions m ''Cores definition reference does not exist''"
    by blast
  have 4: "''Cores definition reference does not exist''
      \<in> set (group_reference_errors gg_group (Some missing_core_ref) None None None None)"
    by (simp add: group_reference_errors_def reference_ok_def core_versions_gg_group
        version_arns_def reference_resolves_def)
  from conjunct1 [OF conjunct2 [OF conjunct2 [OF r]]] 4
  have 5: "mentions (''The group is invalid or corrupted. (ErrorDetails: [''
       @ join '', '' (group_reference_errors gg_group (Some missing_core_ref) None None None None)
       @ ''])'') ''Cores definition reference does not exist''"
    by blast
  from g 2 3 4 5 m uuid_no_slash show ?thesis by simp
qed

section \<open>The edge service: subscriptions\<close>

lemma is_thing_arn_words: "is_thing_arn x \<longleftrightarrow> pieces_words thing_arn_regex x"
  unfolding is_thing_arn_def thing_arn_words ..

lemma is_function_arn_words: "is_function_arn x \<longleftrightarrow> pieces_words function_arn_regex x"
  unfolding is_function_arn_def function_arn_words ..

text \<open>
  What the validator accepts: the two literals, and a thing ARN or a function ARN, each
  also when one newline follows it, which the \<^verbatim>\<open>$\<close> of the patterns lets pass.
\<close>

lemma is_valid_subscription_target_or_source_iff:
  "is_valid_subscription_target_or_source x \<longleftrightarrow>
     x = ''cloud'' \<or> x = ''GGShadowService'' \<or>
     (\<exists>y nl. x = y @ nl \<and> (is_thing_arn y \<or> is_function_arn y) \<and> (nl = [] \<or> nl = [CHR 0x0A]))"
  unfolding is_valid_subscription_target_or_source_def is_thing_arn_words is_function_arn_words
    re_match_iff [OF thing_arn_deterministic] re_match_iff [OF function_arn_deterministic]
  by auto

lemma arn_accepted:
  "is_thing_arn x \<or> is_function_arn x \<Longrightarrow> is_valid_subscription_target_or_source x"
  unfolding is_valid_subscription_target_or_source_iff
  by (intro disjI2 exI [of _ x] exI [of _ "[]"]) simp

lemma words_matched:
  assumes "deterministic ps" "pieces_words ps w"
  shows "match_pieces ps w = Some []"
  using match_pieces_complete [OF assms, of "[]"] by simp

lemmas regex_eval = re_match_def thing_arn_regex_def function_arn_regex_def
  alnum_dash_def alnum_dash_us_def lower_digit_dash_def is_lower_def is_upper_def is_digit_def

lemma valid_cloud: "is_valid_subscription_target_or_source ''cloud''"
  by (simp add: is_valid_subscription_target_or_source_def)

lemma valid_thing_foo:
  "is_valid_subscription_target_or_source ''arn:aws:iot:us-east-1:123456789012:thing/foo''"
  by (simp add: is_valid_subscription_target_or_source_def regex_eval)

lemma invalid_not_a_real_target:
  "\<not> is_valid_subscription_target_or_source ''not-a-real-target''"
  by (simp add: is_valid_subscription_target_or_source_def regex_eval)

lemma thing_foo_is_thing_arn: "is_thing_arn ''arn:aws:iot:us-east-1:123456789012:thing/foo''"
  unfolding is_thing_arn_def
  by (intro exI [of _ "''us-east-1''"] exI [of _ "''123456789012''"] exI [of _ "''foo''"])
     (simp add: alnum_dash_def is_lower_def is_upper_def is_digit_def)

text \<open>The thing ARN with a newline after it: the patterns match it, and it is no ARN.\<close>

lemma thing_foo_newline_matched:
  "match_pieces thing_arn_regex (''arn:aws:iot:us-east-1:123456789012:thing/foo'' @ [CHR 0x0A])
     = Some [CHR 0x0A]"
  by (simp add: regex_eval)

lemma thing_foo_newline_not_function:
  "match_pieces function_arn_regex (''arn:aws:iot:us-east-1:123456789012:thing/foo'' @ [CHR 0x0A])
     = None"
  by (simp add: regex_eval)

lemma thing_foo_newline_no_arn:
  "\<not> is_thing_arn (''arn:aws:iot:us-east-1:123456789012:thing/foo'' @ [CHR 0x0A])"
  "\<not> is_function_arn (''arn:aws:iot:us-east-1:123456789012:thing/foo'' @ [CHR 0x0A])"
proof -
  let ?x = "''arn:aws:iot:us-east-1:123456789012:thing/foo'' @ [CHR 0x0A]"
  show "\<not> is_thing_arn ?x"
  proof
    assume "is_thing_arn ?x"
    then have "pieces_words thing_arn_regex ?x" by (simp only: is_thing_arn_words)
    then have "match_pieces thing_arn_regex ?x = Some []"
      by (rule words_matched [OF thing_arn_deterministic])
    then show False unfolding thing_foo_newline_matched by simp
  qed
  show "\<not> is_function_arn ?x"
  proof
    assume "is_function_arn ?x"
    then have "pieces_words function_arn_regex ?x" by (simp only: is_function_arn_words)
    then have "match_pieces function_arn_regex ?x = Some []"
      by (rule words_matched [OF function_arn_deterministic])
    then show False unfolding thing_foo_newline_not_function by simp
  qed
qed

lemma valid_thing_foo_newline:
  "is_valid_subscription_target_or_source
     (''arn:aws:iot:us-east-1:123456789012:thing/foo'' @ [CHR 0x0A])"
  by (simp add: is_valid_subscription_target_or_source_def regex_eval)

lemma subscription_errors_eq:
  "subscription_errors s =
     (if is_valid_subscription_target_or_source (Source s) then [] else [source_message s])
     @ (if is_valid_subscription_target_or_source (Target s) then [] else [target_message s])"
  by (simp add: subscription_errors_def source_message_def target_message_def Let_def)

lemma validate_subscriptions_eq:
  "validate_subscription_target_or_source subs =
     (if concat (map subscription_errors subs) = [] then None
      else Some (GreengrassClientError ''400'' (subscriptions_message subs)))"
  by (simp add: validate_subscription_target_or_source_def subscriptions_message_def Let_def)

lemma all_valid_no_errors:
  assumes "\<forall>s\<in>set subs. is_valid_subscription_target_or_source (Source s)
             \<and> is_valid_subscription_target_or_source (Target s)"
  shows "concat (map subscription_errors subs) = []"
  using assms by (induction subs) (simp_all add: subscription_errors_eq)

lemma bad_source_listed:
  "s \<in> set subs \<Longrightarrow> \<not> is_valid_subscription_target_or_source (Source s)
     \<Longrightarrow> source_message s \<in> set (concat (map subscription_errors subs))"
  by (auto simp: subscription_errors_eq)

lemma bad_target_listed:
  "s \<in> set subs \<Longrightarrow> \<not> is_valid_subscription_target_or_source (Target s)
     \<Longrightarrow> target_message s \<in> set (concat (map subscription_errors subs))"
  by (auto simp: subscription_errors_eq)

lemma message_mentions_id: "mentions (source_message s) (Id s) \<and> mentions (target_message s) (Id s)"
proof -
  have "source_message s = (''Subscription source is invalid. ID is '' @ [squote]) @ Id s
     @ ([squote] @ '' and Source is '' @ [squote] @ Source s @ [squote])"
    by (simp add: source_message_def)
  moreover have "target_message s = (''Subscription target is invalid. ID is '' @ [squote]) @ Id s
     @ ([squote] @ '' and Target is '' @ [squote] @ Target s @ [squote])"
    by (simp add: target_message_def)
  ultimately show ?thesis unfolding mentions_def by blast
qed

lemma mentions_trans: "mentions m x \<Longrightarrow> mentions x y \<Longrightarrow> mentions m y"
proof -
  assume "mentions m x" "mentions x y"
  then obtain p q p' q' where "m = p @ x @ q" "x = p' @ y @ q'" unfolding mentions_def by blast
  then have "m = (p @ p') @ y @ (q' @ q)" by simp
  then show ?thesis unfolding mentions_def by blast
qed

lemma subscriptions_message_mentions:
  "x \<in> set (concat (map subscription_errors subs)) \<Longrightarrow> mentions (subscriptions_message subs) x"
  unfolding subscriptions_message_def by (rule mentions_join)

lemma sub_fields:
  "Id sub_bad = ''sub-bad''" "Source sub_bad = ''cloud''" "Target sub_bad = ''not-a-real-target''"
  "Source sub_ok = ''cloud''" "Target sub_ok = ''arn:aws:iot:us-east-1:123456789012:thing/foo''"
  by (simp_all add: sub_bad_def sub_ok_def)


lemma sub_other_valid:
  "is_valid_subscription_target_or_source (Source sub_other)"
  "is_valid_subscription_target_or_source (Target sub_other)"
  by (simp_all add: sub_other_def is_valid_subscription_target_or_source_def)

lemma sub_ok_valid:
  "is_valid_subscription_target_or_source (Source sub_ok)"
  "is_valid_subscription_target_or_source (Target sub_ok)"
  by (simp_all add: sub_fields valid_cloud valid_thing_foo)

text \<open>
  The rules of the validator.  A source or target is accepted when it is \<^verbatim>\<open>cloud\<close>,
  \<^verbatim>\<open>GGShadowService\<close>, a thing ARN or a fully-qualified function ARN, and when it is such
  an ARN with one newline after it, and in no other case; the subscription from
  \<^verbatim>\<open>cloud\<close> to the thing \<^verbatim>\<open>foo\<close> passes, and so does every list whose sources and
  targets are all accepted.  A list with a source or target that is not accepted makes
  both \<^verbatim>\<open>create_subscription_definition_version\<close> and
  \<^verbatim>\<open>create_subscription_definition\<close> fail, the backend unchanged, with one error whose
  details join a message for every such source and target, each naming the id of its
  subscription.
\<close>

lemma subscription_rules:
  "(is_valid_subscription_target_or_source x \<longleftrightarrow>
      x = ''cloud'' \<or> x = ''GGShadowService'' \<or>
      (\<exists>y nl. x = y @ nl \<and> (is_thing_arn y \<or> is_function_arn y)
         \<and> (nl = [] \<or> nl = [CHR 0x0A]))) \<and>
   validate_subscription_target_or_source
     [\<lparr>Id = i, Source = ''cloud'', Subject = t,
       Target = ''arn:aws:iot:us-east-1:123456789012:thing/foo''\<rparr>] = None \<and>
   ((\<forall>s\<in>set subs. is_valid_subscription_target_or_source (Source s)
                   \<and> is_valid_subscription_target_or_source (Target s))
      \<longrightarrow> validate_subscription_target_or_source subs = None) \<and>
   (bad \<in> set subs \<and> (\<not> is_valid_subscription_target_or_source (Source bad)
                        \<or> \<not> is_valid_subscription_target_or_source (Target bad))
      \<longrightarrow> (\<exists>m. create_subscription_definition_version b uuid subscription_definition_id subs
                   = (Inl (GreengrassClientError ''400'' m), b) \<and>
               create_subscription_definition b uuid ver_uuid name \<lparr>Subscriptions = Some subs\<rparr>
                   = (Inl (GreengrassClientError ''400'' m), b) \<and>
               m = ''The subscriptions definition is invalid or corrupted. (ErrorDetails: [''
                     @ join '', '' (concat (map subscription_errors subs)) @ ''])'' \<and>
               (\<forall>s\<in>set subs.
                  (\<not> is_valid_subscription_target_or_source (Source s) \<longrightarrow>
                     mentions m (''Subscription source is invalid. ID is '' @ [squote] @ Id s
                       @ [squote] @ '' and Source is '' @ [squote] @ Source s @ [squote])
                     \<and> mentions m (Id s)) \<and>
                  (\<not> is_valid_subscription_target_or_source (Target s) \<longrightarrow>
                     mentions m (''Subscription target is invalid. ID is '' @ [squote] @ Id s
                       @ [squote] @ '' and Target is '' @ [squote] @ Target s @ [squote])
                     \<and> mentions m (Id s)))))"
proof (intro conjI)
  show "is_valid_subscription_target_or_source x \<longleftrightarrow>
      x = ''cloud'' \<or> x = ''GGShadowService'' \<or>
      (\<exists>y nl. x = y @ nl \<and> (is_thing_arn y \<or> is_function_arn y)
         \<and> (nl = [] \<or> nl = [CHR 0x0A]))"
    by (rule is_valid_subscription_target_or_source_iff)
  show "validate_subscription_target_or_source
     [\<lparr>Id = i, Source = ''cloud'', Subject = t,
       Target = ''arn:aws:iot:us-east-1:123456789012:thing/foo''\<rparr>] = None"
    by (simp add: validate_subscriptions_eq subscription_errors_eq valid_cloud valid_thing_foo)
  show "(\<forall>s\<in>set subs. is_valid_subscription_target_or_source (Source s)
                   \<and> is_valid_subscription_target_or_source (Target s))
      \<longrightarrow> validate_subscription_target_or_source subs = None"
    by (simp add: validate_subscriptions_eq all_valid_no_errors)
  show "bad \<in> set subs \<and> (\<not> is_valid_subscription_target_or_source (Source bad)
                        \<or> \<not> is_valid_subscription_target_or_source (Target bad))
      \<longrightarrow> (\<exists>m. create_subscription_definition_version b uuid subscription_definition_id subs
                   = (Inl (GreengrassClientError ''400'' m), b) \<and>
               create_subscription_definition b uuid ver_uuid name \<lparr>Subscriptions = Some subs\<rparr>
                   = (Inl (GreengrassClientError ''400'' m), b) \<and>
               m = ''The subscriptions definition is invalid or corrupted. (ErrorDetails: [''
                     @ join '', '' (concat (map subscription_errors subs)) @ ''])'' \<and>
               (\<forall>s\<in>set subs.
                  (\<not> is_valid_subscription_target_or_source (Source s) \<longrightarrow>
                     mentions m (''Subscription source is invalid. ID is '' @ [squote] @ Id s
                       @ [squote] @ '' and Source is '' @ [squote] @ Source s @ [squote])
                     \<and> mentions m (Id s)) \<and>
                  (\<not> is_valid_subscription_target_or_source (Target s) \<longrightarrow>
                     mentions m (''Subscription target is invalid. ID is '' @ [squote] @ Id s
                       @ [squote] @ '' and Target is '' @ [squote] @ Target s @ [squote])
                     \<and> mentions m (Id s))))"
  proof (rule impI)
    assume a: "bad \<in> set subs \<and> (\<not> is_valid_subscription_target_or_source (Source bad)
                        \<or> \<not> is_valid_subscription_target_or_source (Target bad))"
    let ?m = "subscriptions_message subs"
    from a have "source_message bad \<in> set (concat (map subscription_errors subs))
        \<or> target_message bad \<in> set (concat (map subscription_errors subs))"
      using bad_source_listed bad_target_listed by blast
    then have ne: "concat (map subscription_errors subs) \<noteq> []"
      by (metis empty_iff list.set(1))
    then have v: "validate_subscription_target_or_source subs
        = Some (GreengrassClientError ''400'' ?m)"
      by (simp only: validate_subscriptions_eq if_False)
    have 1: "create_subscription_definition_version b uuid subscription_definition_id subs
        = (Inl (GreengrassClientError ''400'' ?m), b)"
      by (simp add: create_subscription_definition_version_def v)
    have 2: "create_subscription_definition b uuid ver_uuid name \<lparr>Subscriptions = Some subs\<rparr>
        = (Inl (GreengrassClientError ''400'' ?m), b)"
      by (simp add: create_subscription_definition_def v)
    have 3: "?m = ''The subscriptions definition is invalid or corrupted. (ErrorDetails: [''
                     @ join '', '' (concat (map subscription_errors subs)) @ ''])''"
      by (simp add: subscriptions_message_def)
    have 4: "\<forall>s\<in>set subs.
        (\<not> is_valid_subscription_target_or_source (Source s) \<longrightarrow>
           mentions ?m (source_message s) \<and> mentions ?m (Id s)) \<and>
        (\<not> is_valid_subscription_target_or_source (Target s) \<longrightarrow>
           mentions ?m (target_message s) \<and> mentions ?m (Id s))"
      using bad_source_listed bad_target_listed subscriptions_message_mentions
        message_mentions_id mentions_trans by meson
    from 1 2 3 4 show "\<exists>m. create_subscription_definition_version b uuid
                     subscription_definition_id subs
                   = (Inl (GreengrassClientError ''400'' m), b) \<and>
               create_subscription_definition b uuid ver_uuid name \<lparr>Subscriptions = Some subs\<rparr>
                   = (Inl (GreengrassClientError ''400'' m), b) \<and>
               m = ''The subscriptions definition is invalid or corrupted. (ErrorDetails: [''
                     @ join '', '' (concat (map subscription_errors subs)) @ ''])'' \<and>
               (\<forall>s\<in>set subs.
                  (\<not> is_valid_subscription_target_or_source (Source s) \<longrightarrow>
                     mentions m (''Subscription source is invalid. ID is '' @ [squote] @ Id s
                       @ [squote] @ '' and Source is '' @ [squote] @ Source s @ [squote])
                     \<and> mentions m (Id s)) \<and>
                  (\<not> is_valid_subscription_target_or_source (Target s) \<longrightarrow>
                     mentions m (''Subscription target is invalid. ID is '' @ [squote] @ Id s
                       @ [squote] @ '' and Target is '' @ [squote] @ Target s @ [squote])
                     \<and> mentions m (Id s)))"
      unfolding source_message_def target_message_def by (intro exI [of _ ?m]) simp
  qed
qed

text \<open>
  Claim C7 fails on the code.  The target made of the thing ARN of \<^verbatim>\<open>foo\<close> and a newline
  is neither of the two literals, nor a thing ARN, nor a function ARN, so the claim has it
  refused.  The validator accepts it, the list with this subscription passes, and both
  create operations store it: the patterns end in \<^verbatim>\<open>$\<close>, which also matches before a
  newline that ends the string.
\<close>

theorem subscription_target_with_newline_accepted:
  "Source sub_newline = ''cloud'' \<and>
   Target sub_newline = ''arn:aws:iot:us-east-1:123456789012:thing/foo'' @ [CHR 0x0A] \<and>
   Target sub_newline \<noteq> ''cloud'' \<and> Target sub_newline \<noteq> ''GGShadowService'' \<and>
   \<not> is_thing_arn (Target sub_newline) \<and> \<not> is_function_arn (Target sub_newline) \<and>
   is_thing_arn ''arn:aws:iot:us-east-1:123456789012:thing/foo'' \<and>
   is_valid_subscription_target_or_source (Target sub_newline) \<and>
   validate_subscription_target_or_source [sub_newline] = None \<and>
   (\<exists>d b'. create_subscription_definition gg0 uuid1 uuid2 ''subs''
              \<lparr>Subscriptions = Some [sub_newline]\<rparr> = (Inr d, b') \<and>
      map_option (map Target \<circ> sdv_subscriptions)
        (map_of (od_get_default (subscription_definition_versions b') uuid1) uuid2)
        = Some [''arn:aws:iot:us-east-1:123456789012:thing/foo'' @ [CHR 0x0A]]) \<and>
   (\<exists>v b'. create_subscription_definition_version gg_subs uuid3 uuid1 [sub_newline]
              = (Inr v, b'))"
proof -
  have t: "Target sub_newline = ''arn:aws:iot:us-east-1:123456789012:thing/foo'' @ [CHR 0x0A]"
    and s: "Source sub_newline = ''cloud''"
    by (simp_all add: sub_newline_def)
  have v: "is_valid_subscription_target_or_source (Target sub_newline)"
    "is_valid_subscription_target_or_source (Source sub_newline)"
    using valid_thing_foo_newline valid_cloud by (simp_all add: t s)
  have n: "validate_subscription_target_or_source [sub_newline] = None"
    by (simp add: validate_subscriptions_eq subscription_errors_eq v)
  have c: "\<exists>d b'. create_subscription_definition gg0 uuid1 uuid2 ''subs''
              \<lparr>Subscriptions = Some [sub_newline]\<rparr> = (Inr d, b') \<and>
      map_option (map Target \<circ> sdv_subscriptions)
        (map_of (od_get_default (subscription_definition_versions b') uuid1) uuid2)
        = Some [''arn:aws:iot:us-east-1:123456789012:thing/foo'' @ [CHR 0x0A]]"
    by (simp add: create_subscription_definition_def create_subscription_definition_version_def n
        gg0_def GreengrassBackend_init_def FakeSubscriptionDefinition_init_def
        FakeSubscriptionDefinitionVersion_init_def od_mem_def od_get_default_def Let_def t)
  have cv: "\<exists>v b'. create_subscription_definition_version gg_subs uuid3 uuid1 [sub_newline]
              = (Inr v, b')"
    by (simp add: gg_subs_def create_subscription_definition_def
        create_subscription_definition_version_def n validate_subscriptions_eq
        subscription_errors_eq sub_ok_valid v
        gg0_def GreengrassBackend_init_def FakeSubscriptionDefinition_init_def
        FakeSubscriptionDefinitionVersion_init_def od_mem_def od_get_default_def Let_def)
  from thing_foo_newline_no_arn have na: "\<not> is_thing_arn (Target sub_newline)"
    "\<not> is_function_arn (Target sub_newline)"
    unfolding t by simp_all
  have ne: "Target sub_newline \<noteq> ''cloud''" "Target sub_newline \<noteq> ''GGShadowService''"
    unfolding t by simp_all
  from s t ne na thing_foo_is_thing_arn v(1) n c cv show ?thesis
    by (intro conjI)
qed

section \<open>The data catalog: creating a name that exists\<close>

text \<open>
  Databases, tables and crawlers refuse a name that is present and leave the backend as
  it was.  \<^verbatim>\<open>create_job\<close> has no such check: it never fails, and the job it stores
  replaces whatever stood under the name.
\<close>

lemma create_database_existing:
  "od_mem database_name (databases b)
     \<Longrightarrow> create_database b database_name database_input = (Inl DatabaseAlreadyExistsException, b)"
  by (simp add: create_database_def)

lemma create_table_existing:
  "get_database b database_name = Inr database \<Longrightarrow> od_mem table_name (tables database)
     \<Longrightarrow> create_table b database_name table_name table_input
           = (Inl TableAlreadyExistsException, b)"
  by (simp add: create_table_def)

lemma create_crawler_existing:
  "od_mem name (crawlers b)
     \<Longrightarrow> create_crawler b name role database_name description targets schedule classifiers
           table_prefix schema_change_policy recrawl_policy lineage_configuration configuration
           crawler_security_configuration tags
         = (Inl CrawlerAlreadyExistsException, b)"
  by (simp add: create_crawler_def)

lemma create_job_never_fails:
  "fst (create_job b name role command description log_uri execution_property default_arguments
          non_overridable_arguments connections max_retries allocated_capacity timeout
          max_capacity security_configuration tags notification_property glue_version
          number_of_workers worker_type) = Inr name \<and>
   get_job (snd (create_job b name role command description log_uri execution_property
          default_arguments non_overridable_arguments connections max_retries allocated_capacity
          timeout max_capacity security_configuration tags notification_property glue_version
          number_of_workers worker_type)) name
     = Inr (FakeJob_init name role command description log_uri execution_property
          default_arguments non_overridable_arguments connections max_retries allocated_capacity
          timeout max_capacity security_configuration notification_property glue_version
          number_of_workers worker_type)"
  by (simp add: create_job_def get_job_def Let_def tag_resource_def update_conv')

lemmas glue_eval = glue_etl_def glue_crawl_def glue0_def GlueBackend_init_def create_job_def
  create_crawler_def FakeJob_init_def FakeCrawler_init_def tag_resource_def
  tagger_tag_resource_def get_job_def get_crawler_def od_mem_def get_account_id_def Let_def

text \<open>
  Claim C1, at a failing input.  In a catalog that holds the job \<^verbatim>\<open>etl\<close> with the role
  \<^verbatim>\<open>old-role\<close>, \<^verbatim>\<open>create_job\<close> for \<^verbatim>\<open>etl\<close> with the role \<^verbatim>\<open>new-role\<close> returns the
  name, and the stored job then has the new role: the existing job was replaced, where
  the claim has the call fail and the job unchanged.
\<close>

theorem create_job_replaces_existing_job:
  "od_mem ''etl'' (jobs glue_etl) \<and>
   map_option job_role (map_of (jobs glue_etl) ''etl'') = Some (JStr ''old-role'') \<and>
   fst (create_job glue_etl ''etl'' (JStr ''new-role'') JNull JNull JNull JNull JNull JNull JNull
          JNull JNull JNull JNull JNull None JNull JNull JNull JNull) = Inr ''etl'' \<and>
   map_option job_role
     (map_of (jobs (snd (create_job glue_etl ''etl'' (JStr ''new-role'') JNull JNull JNull JNull
          JNull JNull JNull JNull JNull JNull JNull JNull None JNull JNull JNull JNull))) ''etl'')
     = Some (JStr ''new-role'')"
  by (simp add: glue_eval)

section \<open>The edge service: creating a parent and its first version\<close>

text \<open>
  \<^verbatim>\<open>create_subscription_definition\<close> and \<^verbatim>\<open>create_resource_definition\<close> validate the
  payload before they register the parent, so a failed call leaves the backend as it was.
\<close>

lemma create_subscription_definition_failure:
  assumes "create_subscription_definition b uuid ver_uuid name initial_version = (Inl e, b')"
  shows "b' = b"
proof (cases "Subscriptions initial_version")
  case None
  with assms show ?thesis by (simp add: create_subscription_definition_def)
next
  case (Some subs)
  show ?thesis
  proof (cases "validate_subscription_target_or_source subs")
    case (Some err)
    with \<open>Subscriptions initial_version = Some subs\<close> assms show ?thesis
      by (simp add: create_subscription_definition_def)
  next
    case None
    with \<open>Subscriptions initial_version = Some subs\<close> assms show ?thesis
      by (simp add: create_subscription_definition_def create_subscription_definition_version_def
          FakeSubscriptionDefinition_init_def Let_def od_mem_def update_conv')
  qed
qed

lemma create_resource_definition_failure:
  assumes "create_resource_definition b uuid ver_uuid name initial_version = (Inl e, b')"
  shows "b' = b"
proof (cases "validate_resources (case Resources initial_version of None \<Rightarrow> [] | Some rs \<Rightarrow> rs)")
  case (Some err)
  with assms show ?thesis by (simp add: create_resource_definition_def Let_def)
next
  case None
  with assms show ?thesis
    by (simp add: create_resource_definition_def create_resource_definition_version_def
        get_resource_definition_def FakeResourceDefinition_init_def Let_def update_conv')
qed

lemmas failed_group_eval = gg_failed_group_def gg0_def
  GreengrassBackend_init_def create_group_def create_group_version_def FakeGroup_init_def
  validate_group_version_definitions_eq group_reference_errors_def reference_ok_def
  list_group_versions_def get_group_def od_get_default_def od_mem_def Let_def

lemma missing_core_ref_unresolved: "\<not> reference_resolves [] ''cores'' missing_core_ref"
  by (simp add: reference_resolves_def)

text \<open>
  Claim C2, at a failing input.  \<^verbatim>\<open>create_group\<close> registers the group first and
  validates the references afterwards: with a core reference that resolves to nothing the
  call fails, and the group is in the store with no version under its id.
\<close>

theorem create_group_registers_group_without_version:
  "create_group gg0 uuid1 uuid2 ''group''
     (Some \<lparr>CoreDefinitionVersionArn = Some missing_core_ref,
             DeviceDefinitionVersionArn = None, FunctionDefinitionVersionArn = None,
             ResourceDefinitionVersionArn = None, SubscriptionDefinitionVersionArn = None\<rparr>)
     = (Inl (GreengrassClientError ''400''
          ''The group is invalid or corrupted. (ErrorDetails: [Cores definition reference does not exist])''),
        gg_failed_group) \<and>
   od_mem uuid1 (groups gg_failed_group) \<and>
   map_of (group_versions gg_failed_group) uuid1 = None \<and>
   list_group_versions gg_failed_group uuid1
     = Inl (IdNotFoundException ''That group definition does not exist.'')"
  by (simp add: failed_group_eval version_arns_def missing_core_ref_unresolved)

section \<open>The edge service: the latest version\<close>

text \<open>
  \<^verbatim>\<open>create_core_definition_version\<close> stores the version and points the parent's
  \<^verbatim>\<open>latest_version\<close> and \<^verbatim>\<open>latest_version_arn\<close> at it (the device, function and
  resource operations do the same).  \<^verbatim>\<open>create_subscription_definition_version\<close> never
  touches the subscription definitions.
\<close>

lemma create_core_definition_version_repoints:
  assumes "map_of (core_definitions b) core_definition_id = Some d"
  shows "\<exists>v b'. create_core_definition_version b uuid core_definition_id cores = (Inr v, b') \<and>
           cdv_definition v = JDict [(''Cores'', cores)] \<and>
           map_of (od_get_default (core_definition_versions b') core_definition_id) uuid = Some v \<and>
           map_of (core_definitions b') core_definition_id
             = Some (d\<lparr>cd_latest_version := uuid, cd_latest_version_arn := cdv_arn v\<rparr>)"
  using assms
  by (simp add: create_core_definition_version_def FakeCoreDefinitionVersion_init_def Let_def
      od_get_default_def update_conv')

lemma create_device_definition_version_repoints:
  assumes "map_of (device_definitions b) device_definition_id = Some d"
  shows "\<exists>v b'. create_device_definition_version b uuid device_definition_id devices = (Inr v, b') \<and>
           ddv_devices v = devices \<and>
           map_of (od_get_default (device_definition_versions b') device_definition_id) uuid
             = Some v \<and>
           map_of (device_definitions b') device_definition_id
             = Some (d\<lparr>dd_latest_version := uuid, dd_latest_version_arn := ddv_arn v\<rparr>)"
  using assms
  by (simp add: create_device_definition_version_def FakeDeviceDefinitionVersion_init_def Let_def
      od_get_default_def update_conv')

lemma create_function_definition_version_repoints:
  assumes "map_of (function_definitions b) function_definition_id = Some d"
  shows "\<exists>v b'. create_function_definition_version b uuid function_definition_id functions
                    default_config = (Inr v, b') \<and>
           fdv_functions v = functions \<and>
           map_of (od_get_default (function_definition_versions b') function_definition_id) uuid
             = Some v \<and>
           map_of (function_definitions b') function_definition_id
             = Some (d\<lparr>fd_latest_version := uuid, fd_latest_version_arn := fdv_arn v\<rparr>)"
  using assms
  by (simp add: create_function_definition_version_def FakeFunctionDefinitionVersion_init_def
      Let_def od_get_default_def update_conv')

lemma create_resource_definition_version_repoints:
  assumes "map_of (resource_definitions b) resource_definition_id = Some d"
    and "validate_resources resources = None"
  shows "\<exists>v b'. create_resource_definition_version b uuid resource_definition_id resources
                    = (Inr v, b') \<and>
           rdv_resources v = resources \<and>
           map_of (od_get_default (resource_definition_versions b') resource_definition_id) uuid
             = Some v \<and>
           map_of (resource_definitions b') resource_definition_id
             = Some (d\<lparr>rd_latest_version := uuid, rd_latest_version_arn := rdv_arn v\<rparr>)"
  using assms
  by (simp add: create_resource_definition_version_def FakeResourceDefinitionVersion_init_def
      Let_def od_get_default_def update_conv')

lemma create_subscription_definition_version_keeps_pointers:
  "subscription_definitions
     (snd (create_subscription_definition_version b uuid subscription_definition_id subscriptions))
   = subscription_definitions b"
  by (simp add: create_subscription_definition_version_def Let_def split: option.splits)

lemmas gg_subs_eval = gg_subs_def gg_subs2_def gg0_def GreengrassBackend_init_def
  create_subscription_definition_def create_subscription_definition_version_def
  FakeSubscriptionDefinition_init_def FakeSubscriptionDefinitionVersion_init_def
  get_subscription_definition_def get_subscription_definition_version_def
  validate_subscriptions_eq subscription_errors_eq od_get_default_def od_mem_def Let_def
  uuid1_def uuid2_def uuid3_def

text \<open>
  Claim C8, at a failing input.  After a subscription definition is created with the
  subscription \<^verbatim>\<open>sub-ok\<close>, a further \<^verbatim>\<open>create_subscription_definition_version\<close> with
  \<^verbatim>\<open>sub-other\<close> succeeds and stores the new version, but the parent's
  \<^verbatim>\<open>latest_version\<close> still names the first version, whose content is not the input
  submitted last.
\<close>

theorem subscription_latest_version_not_repointed:
  "map_option sdv_subscriptions
     (map_of (od_get_default (subscription_definition_versions gg_subs) uuid1) uuid2)
     = Some [sub_ok] \<and>
   map_option sd_latest_version (map_of (subscription_definitions gg_subs) uuid1) = Some uuid2 \<and>
   map_option sdv_subscriptions
     (case fst (create_subscription_definition_version gg_subs uuid3 uuid1 [sub_other]) of
        Inl e \<Rightarrow> None | Inr v \<Rightarrow> Some v) = Some [sub_other] \<and>
   map_option sdv_subscriptions
     (map_of (od_get_default (subscription_definition_versions gg_subs2) uuid1) uuid3)
     = Some [sub_other] \<and>
   map_option sd_latest_version (map_of (subscription_definitions gg_subs2) uuid1) = Some uuid2 \<and>
   uuid2 \<noteq> uuid3 \<and> [sub_ok] \<noteq> [sub_other] \<and>
   map_option sdv_subscriptions
     (map_of (od_get_default (subscription_definition_versions gg_subs2) uuid1) uuid2)
     = Some [sub_ok]"
  by (simp add: gg_subs_eval sub_ok_valid sub_other_valid) (simp add: sub_ok_def sub_other_def)

section \<open>The ARNs of created resources\<close>

lemmas arn_format_defs = arn_format_def version_arn_format_def

lemma crawler_arn_format:
  assumes "create_crawler b name role database_name description targets schedule classifiers
             table_prefix schema_change_policy recrawl_policy lineage_configuration
             configuration crawler_security_configuration tags = (Inr u, b')"
  shows "\<exists>c. get_crawler b' name = Inr c \<and>
           cr_arn c = arn_format ''glue'' ''us-east-1'' get_account_id ''crawler'' name"
  using assms
  by (auto simp: create_crawler_def get_crawler_def FakeCrawler_init_def tag_resource_def
      Let_def update_conv' arn_format_defs split: if_splits)

lemma job_arn_format:
  "\<exists>j. get_job (snd (create_job b name role command description log_uri execution_property
            default_arguments non_overridable_arguments connections max_retries
            allocated_capacity timeout max_capacity security_configuration tags
            notification_property glue_version number_of_workers worker_type)) name = Inr j \<and>
       job_arn j = arn_format ''glue'' ''us-east-1'' get_account_id ''job'' name"
  by (simp add: create_job_def get_job_def FakeJob_init_def tag_resource_def
      Let_def update_conv' arn_format_defs)

lemma core_definition_version_arn_format:
  assumes "create_core_definition_version b uuid definition_id cores = (Inr v, b')"
  shows "cdv_arn v = version_arn_format ''greengrass'' (gg_region_name b) get_account_id
           ''greengrass/definition/cores'' definition_id uuid"
  using assms
  by (auto simp: create_core_definition_version_def FakeCoreDefinitionVersion_init_def
      Let_def arn_format_defs split: option.splits if_splits)

lemma core_definition_arn_format:
  assumes "create_core_definition b uuid ver_uuid name initial_version = (Inr d, b')"
  shows "cd_arn d = arn_format ''greengrass'' (gg_region_name b) get_account_id
           ''greengrass/definition/cores'' uuid \<and>
         cd_latest_version_arn d = version_arn_format ''greengrass'' (gg_region_name b)
           get_account_id ''greengrass/definition/cores'' uuid ver_uuid"
  using assms
  by (auto simp: create_core_definition_def create_core_definition_version_def
      get_core_definition_def FakeCoreDefinition_init_def
      FakeCoreDefinitionVersion_init_def od_mem_def
      Let_def update_conv' arn_format_defs split: option.splits if_splits)

lemma device_definition_version_arn_format:
  assumes "create_device_definition_version b uuid definition_id devices = (Inr v, b')"
  shows "ddv_arn v = version_arn_format ''greengrass'' (gg_region_name b) get_account_id
           ''greengrass/definition/devices'' definition_id uuid"
  using assms
  by (auto simp: create_device_definition_version_def FakeDeviceDefinitionVersion_init_def
      Let_def arn_format_defs split: option.splits if_splits)

lemma device_definition_arn_format:
  assumes "create_device_definition b uuid ver_uuid name initial_version = (Inr d, b')"
  shows "dd_arn d = arn_format ''greengrass'' (gg_region_name b) get_account_id
           ''greengrass/definition/devices'' uuid \<and>
         dd_latest_version_arn d = version_arn_format ''greengrass'' (gg_region_name b)
           get_account_id ''greengrass/definition/devices'' uuid ver_uuid"
  using assms
  by (auto simp: create_device_definition_def create_device_definition_version_def
      get_device_definition_def FakeDeviceDefinition_init_def
      FakeDeviceDefinitionVersion_init_def od_mem_def
      Let_def update_conv' arn_format_defs split: option.splits if_splits)

lemma function_definition_version_arn_format:
  assumes "create_function_definition_version b uuid definition_id functions default_config = (Inr v, b')"
  shows "fdv_arn v = version_arn_format ''greengrass'' (gg_region_name b) get_account_id
           ''greengrass/definition/functions'' definition_id uuid"
  using assms
  by (auto simp: create_function_definition_version_def FakeFunctionDefinitionVersion_init_def
      Let_def arn_format_defs split: option.splits if_splits)

lemma function_definition_arn_format:
  assumes "create_function_definition b uuid ver_uuid name initial_version = (Inr d, b')"
  shows "fd_arn d = arn_format ''greengrass'' (gg_region_name b) get_account_id
           ''greengrass/definition/functions'' uuid \<and>
         fd_latest_version_arn d = version_arn_format ''greengrass'' (gg_region_name b)
           get_account_id ''greengrass/definition/functions'' uuid ver_uuid"
  using assms
  by (auto simp: create_function_definition_def create_function_definition_version_def
      get_function_definition_def FakeFunctionDefinition_init_def
      FakeFunctionDefinitionVersion_init_def od_mem_def
      Let_def update_conv' arn_format_defs split: option.splits if_splits)

lemma resource_definition_version_arn_format:
  assumes "create_resource_definition_version b uuid definition_id resources = (Inr v, b')"
  shows "rdv_arn v = version_arn_format ''greengrass'' (gg_region_name b) get_account_id
           ''greengrass/definition/resources'' definition_id uuid"
  using assms
  by (auto simp: create_resource_definition_version_def FakeResourceDefinitionVersion_init_def
      Let_def arn_format_defs split: option.splits if_splits)

lemma resource_definition_arn_format:
  assumes "create_resource_definition b uuid ver_uuid name initial_version = (Inr d, b')"
  shows "rd_arn d = arn_format ''greengrass'' (gg_region_name b) get_account_id
           ''greengrass/definition/resources'' uuid \<and>
         rd_latest_version_arn d = version_arn_format ''greengrass'' (gg_region_name b)
           get_account_id ''greengrass/definition/resources'' uuid ver_uuid"
  using assms
  by (auto simp: create_resource_definition_def create_resource_definition_version_def
      get_resource_definition_def FakeResourceDefinition_init_def
      FakeResourceDefinitionVersion_init_def od_mem_def
      Let_def update_conv' arn_format_defs split: option.splits if_splits)

lemma subscription_definition_version_arn_format:
  assumes "create_subscription_definition_version b uuid definition_id subscriptions = (Inr v, b')"
  shows "sdv_arn v = version_arn_format ''greengrass'' (gg_region_name b) get_account_id
           ''greengrass/definition/subscriptions'' definition_id uuid"
  using assms
  by (auto simp: create_subscription_definition_version_def FakeSubscriptionDefinitionVersion_init_def
      Let_def arn_format_defs split: option.splits if_splits)

lemma subscription_definition_arn_format:
  assumes "create_subscription_definition b uuid ver_uuid name initial_version = (Inr d, b')"
  shows "sd_arn d = arn_format ''greengrass'' (gg_region_name b) get_account_id
           ''greengrass/definition/subscriptions'' uuid \<and>
         sd_latest_version_arn d = version_arn_format ''greengrass'' (gg_region_name b)
           get_account_id ''greengrass/definition/subscriptions'' uuid ver_uuid"
  using assms
  by (auto simp: create_subscription_definition_def create_subscription_definition_version_def
      get_subscription_definition_def FakeSubscriptionDefinition_init_def
      FakeSubscriptionDefinitionVersion_init_def od_mem_def
      Let_def update_conv' arn_format_defs split: option.splits if_splits)

lemma group_version_arn_format:
  assumes "create_group_version b uuid group_id c d f r s = (Inr v, b')"
  shows "gv_arn v = version_arn_format ''greengrass'' (gg_region_name b) get_account_id
           ''greengrass/groups'' group_id uuid"
  using assms
  by (auto simp: create_group_version_def FakeGroupVersion_init_def
      Let_def arn_format_defs split: option.splits if_splits)

lemma group_arn_format:
  assumes "create_group b uuid ver_uuid name initial_version = (Inr g, b')"
  shows "g_arn g = arn_format ''greengrass'' (gg_region_name b) get_account_id
           ''greengrass/groups'' uuid \<and>
         g_latest_version_arn g = version_arn_format ''greengrass'' (gg_region_name b)
           get_account_id ''greengrass/groups'' uuid ver_uuid"
  using assms
  by (auto simp: create_group_def create_group_version_def get_group_def FakeGroup_init_def
      FakeGroupVersion_init_def Let_def update_conv' arn_format_defs
      split: option.splits if_splits)

lemmas definition_eval =
  create_core_definition_def create_core_definition_version_def get_core_definition_def
  FakeCoreDefinition_init_def FakeCoreDefinitionVersion_init_def
  create_device_definition_def create_device_definition_version_def get_device_definition_def
  FakeDeviceDefinition_init_def FakeDeviceDefinitionVersion_init_def
  create_function_definition_def create_function_definition_version_def
  get_function_definition_def FakeFunctionDefinition_init_def
  FakeFunctionDefinitionVersion_init_def
  create_resource_definition_def create_resource_definition_version_def
  get_resource_definition_def FakeResourceDefinition_init_def
  FakeResourceDefinitionVersion_init_def
  create_subscription_definition_def create_subscription_definition_version_def
  FakeSubscriptionDefinition_init_def FakeSubscriptionDefinitionVersion_init_def
  validate_subscriptions_eq subscription_errors_eq sub_ok_valid sub_other_valid
  od_get_default_def od_mem_def


text \<open>
  Claim C9, as the code has it.  The ARN of every created resource has the form
  \<^verbatim>\<open>arn:aws:<service>:<region>:<account-id>:<kind>/<identifier>\<close>, with
  \<^verbatim>\<open>/versions/<version-id>\<close> appended for a version.  In the edge service the region is
  the backend's; a crawler or a job of the data catalog carries the fixed region
  \<^verbatim>\<open>us-east-1\<close>, whatever the region of its backend.
\<close>

theorem arn_synthesis:
  "(create_crawler gb name role database_name description targets schedule classifiers
        table_prefix schema_change_policy recrawl_policy lineage_configuration configuration
        crawler_security_configuration tags = (Inr u, gb')
      \<longrightarrow> (\<exists>c. get_crawler gb' name = Inr c \<and>
            cr_arn c = arn_format ''glue'' ''us-east-1'' get_account_id ''crawler'' name)) \<and>
   (\<exists>j. get_job (snd (create_job gb name role command description log_uri execution_property
            default_arguments non_overridable_arguments connections max_retries
            allocated_capacity timeout max_capacity security_configuration tags
            notification_property glue_version number_of_workers worker_type)) name = Inr j \<and>
       job_arn j = arn_format ''glue'' ''us-east-1'' get_account_id ''job'' name) \<and>
   (create_core_definition b uuid ver_uuid name2 initial_version2 = (Inr d2, b2)
      \<longrightarrow> cd_arn d2 = arn_format ''greengrass'' (gg_region_name b) get_account_id
           ''greengrass/definition/cores'' uuid \<and>
         cd_latest_version_arn d2 = version_arn_format ''greengrass'' (gg_region_name b)
           get_account_id ''greengrass/definition/cores'' uuid ver_uuid) \<and>
   (create_core_definition_version b uuid definition_id cores2 = (Inr v2, c2)
      \<longrightarrow> cdv_arn v2 = version_arn_format ''greengrass'' (gg_region_name b) get_account_id
           ''greengrass/definition/cores'' definition_id uuid) \<and>
   (create_device_definition b uuid ver_uuid name3 initial_version3 = (Inr d3, b3)
      \<longrightarrow> dd_arn d3 = arn_format ''greengrass'' (gg_region_name b) get_account_id
           ''greengrass/definition/devices'' uuid \<and>
         dd_latest_version_arn d3 = version_arn_format ''greengrass'' (gg_region_name b)
           get_account_id ''greengrass/definition/devices'' uuid ver_uuid) \<and>
   (create_device_definition_version b uuid definition_id devices3 = (Inr v3, c3)
      \<longrightarrow> ddv_arn v3 = version_arn_format ''greengrass'' (gg_region_name b) get_account_id
           ''greengrass/definition/devices'' definition_id uuid) \<and>
   (create_function_definition b uuid ver_uuid name4 initial_version4 = (Inr d4, b4)
      \<longrightarrow> fd_arn d4 = arn_format ''greengrass'' (gg_region_name b) get_account_id
           ''greengrass/definition/functions'' uuid \<and>
         fd_latest_version_arn d4 = version_arn_format ''greengrass'' (gg_region_name b)
           get_account_id ''greengrass/definition/functions'' uuid ver_uuid) \<and>
   (create_function_definition_version b uuid definition_id functions4 default_config4 = (Inr v4, c4)
      \<longrightarrow> fdv_arn v4 = version_arn_format ''greengrass'' (gg_region_name b) get_account_id
           ''greengrass/definition/functions'' definition_id uuid) \<and>
   (create_resource_definition b uuid ver_uuid name5 initial_version5 = (Inr d5, b5)
      \<longrightarrow> rd_arn d5 = arn_format ''greengrass'' (gg_region_name b) get_account_id
           ''greengrass/definition/resources'' uuid \<and>
         rd_latest_version_arn d5 = version_arn_format ''greengrass'' (gg_region_name b)
           get_account_id ''greengrass/definition/resources'' uuid ver_uuid) \<and>
   (create_resource_definition_version b uuid definition_id resources5 = (Inr v5, c5)
      \<longrightarrow> rdv_arn v5 = version_arn_format ''greengrass'' (gg_region_name b) get_account_id
           ''greengrass/definition/resources'' definition_id uuid) \<and>
   (create_subscription_definition b uuid ver_uuid name6 initial_version6 = (Inr d6, b6)
      \<longrightarrow> sd_arn d6 = arn_format ''greengrass'' (gg_region_name b) get_account_id
           ''greengrass/definition/subscriptions'' uuid \<and>
         sd_latest_version_arn d6 = version_arn_format ''greengrass'' (gg_region_name b)
           get_account_id ''greengrass/definition/subscriptions'' uuid ver_uuid) \<and>
   (create_subscription_definition_version b uuid definition_id subscriptions6 = (Inr v6, c6)
      \<longrightarrow> sdv_arn v6 = version_arn_format ''greengrass'' (gg_region_name b) get_account_id
           ''greengrass/definition/subscriptions'' definition_id uuid) \<and>
   (create_group b uuid ver_uuid name7 initial_version7 = (Inr g7, b7)
      \<longrightarrow> g_arn g7 = arn_format ''greengrass'' (gg_region_name b) get_account_id
           ''greengrass/groups'' uuid \<and>
         g_latest_version_arn g7 = version_arn_format ''greengrass'' (gg_region_name b)
           get_account_id ''greengrass/groups'' uuid ver_uuid) \<and>
   (create_group_version b uuid group_id cr dr fr rr sr = (Inr v7, c7)
      \<longrightarrow> gv_arn v7 = version_arn_format ''greengrass'' (gg_region_name b) get_account_id
           ''greengrass/groups'' group_id uuid)"
  by (intro conjI impI job_arn_format)
    (blast dest: crawler_arn_format
       core_definition_arn_format
       core_definition_version_arn_format
       device_definition_arn_format
       device_definition_version_arn_format
       function_definition_arn_format
       function_definition_version_arn_format
       resource_definition_arn_format
       resource_definition_version_arn_format
       subscription_definition_arn_format
       subscription_definition_version_arn_format
       group_arn_format
       group_version_arn_format)+

theorem arn_synthesis_witness:
  "(\<exists>u gb' c. create_crawler glue0 ''crawl'' (JStr ''role'') JNull JNull JNull JNull JNull JNull
        JNull JNull JNull JNull JNull None = (Inr u, gb') \<and>
      get_crawler gb' ''crawl'' = Inr c \<and>
      cr_arn c = arn_format ''glue'' ''us-east-1'' get_account_id ''crawler'' ''crawl'') \<and>
   (\<exists>d b'. create_core_definition gg0 uuid1 uuid2 ''cores'' [(''Cores'', JList [])] = (Inr d, b') \<and>
      cd_arn d = arn_format ''greengrass'' ''eu-west-1'' get_account_id
        ''greengrass/definition/cores'' uuid1 \<and>
      cd_latest_version_arn d = version_arn_format ''greengrass'' ''eu-west-1'' get_account_id
        ''greengrass/definition/cores'' uuid1 uuid2) \<and>
   (\<exists>v b'. create_core_definition_version gg_core uuid3 uuid1 (JList []) = (Inr v, b') \<and>
      cdv_arn v = version_arn_format ''greengrass'' ''eu-west-1'' get_account_id
        ''greengrass/definition/cores'' uuid1 uuid3) \<and>
   (\<exists>d b'. create_device_definition gg0 uuid1 uuid2 ''devices'' [(''Devices'', JList [])] = (Inr d, b') \<and>
      dd_arn d = arn_format ''greengrass'' ''eu-west-1'' get_account_id
        ''greengrass/definition/devices'' uuid1 \<and>
      dd_latest_version_arn d = version_arn_format ''greengrass'' ''eu-west-1'' get_account_id
        ''greengrass/definition/devices'' uuid1 uuid2) \<and>
   (\<exists>v b'. create_device_definition_version gg_device uuid3 uuid1 (JList []) = (Inr v, b') \<and>
      ddv_arn v = version_arn_format ''greengrass'' ''eu-west-1'' get_account_id
        ''greengrass/definition/devices'' uuid1 uuid3) \<and>
   (\<exists>d b'. create_function_definition gg0 uuid1 uuid2 ''functions'' [(''Functions'', JList [])] = (Inr d, b') \<and>
      fd_arn d = arn_format ''greengrass'' ''eu-west-1'' get_account_id
        ''greengrass/definition/functions'' uuid1 \<and>
      fd_latest_version_arn d = version_arn_format ''greengrass'' ''eu-west-1'' get_account_id
        ''greengrass/definition/functions'' uuid1 uuid2) \<and>
   (\<exists>v b'. create_function_definition_version gg_function uuid3 uuid1 (JList []) (JDict []) = (Inr v, b') \<and>
      fdv_arn v = version_arn_format ''greengrass'' ''eu-west-1'' get_account_id
        ''greengrass/definition/functions'' uuid1 uuid3) \<and>
   (\<exists>d b'. create_resource_definition gg0 uuid1 uuid2 ''resources'' \<lparr>Resources = Some []\<rparr> = (Inr d, b') \<and>
      rd_arn d = arn_format ''greengrass'' ''eu-west-1'' get_account_id
        ''greengrass/definition/resources'' uuid1 \<and>
      rd_latest_version_arn d = version_arn_format ''greengrass'' ''eu-west-1'' get_account_id
        ''greengrass/definition/resources'' uuid1 uuid2) \<and>
   (\<exists>v b'. create_resource_definition_version gg_resource uuid3 uuid1 [] = (Inr v, b') \<and>
      rdv_arn v = version_arn_format ''greengrass'' ''eu-west-1'' get_account_id
        ''greengrass/definition/resources'' uuid1 uuid3) \<and>
   (\<exists>d b'. create_subscription_definition gg0 uuid1 uuid2 ''subscriptions'' \<lparr>Subscriptions = Some [sub_ok]\<rparr> = (Inr d, b') \<and>
      sd_arn d = arn_format ''greengrass'' ''eu-west-1'' get_account_id
        ''greengrass/definition/subscriptions'' uuid1 \<and>
      sd_latest_version_arn d = version_arn_format ''greengrass'' ''eu-west-1'' get_account_id
        ''greengrass/definition/subscriptions'' uuid1 uuid2) \<and>
   (\<exists>v b'. create_subscription_definition_version gg_subs uuid3 uuid1 [sub_other] = (Inr v, b') \<and>
      sdv_arn v = version_arn_format ''greengrass'' ''eu-west-1'' get_account_id
        ''greengrass/definition/subscriptions'' uuid1 uuid3) \<and>
   (\<exists>g b'. create_group gg0 uuid1 uuid2 ''group'' None = (Inr g, b') \<and>
      g_arn g = arn_format ''greengrass'' ''eu-west-1'' get_account_id
        ''greengrass/groups'' uuid1 \<and>
      g_latest_version_arn g = version_arn_format ''greengrass'' ''eu-west-1'' get_account_id
        ''greengrass/groups'' uuid1 uuid2) \<and>
   (\<exists>v b'. create_group_version gg_group uuid3 uuid1 None None None None None = (Inr v, b') \<and>
      gv_arn v = version_arn_format ''greengrass'' ''eu-west-1'' get_account_id
        ''greengrass/groups'' uuid1 uuid3)"
proof -
  have r0: "gg_region_name gg0 = ''eu-west-1''"
    by (simp add: gg0_def GreengrassBackend_init_def)
  have "\<exists>u gb'. create_crawler glue0 ''crawl'' (JStr ''role'') JNull JNull JNull JNull JNull JNull
        JNull JNull JNull JNull JNull None = (Inr u, gb')"
    by (simp add: glue_eval)
  then obtain u gb' where h: "create_crawler glue0 ''crawl'' (JStr ''role'') JNull JNull JNull JNull JNull JNull
        JNull JNull JNull JNull JNull None = (Inr u, gb')" by blast
  from arn_synthesis [THEN conjunct1, THEN mp, OF h] h
  have w_crawler: "\<exists>u gb' c. create_crawler glue0 ''crawl'' (JStr ''role'') JNull JNull JNull JNull JNull JNull
        JNull JNull JNull JNull JNull None = (Inr u, gb') \<and>
      get_crawler gb' ''crawl'' = Inr c \<and>
      cr_arn c = arn_format ''glue'' ''us-east-1'' get_account_id ''crawler'' ''crawl''"
    by blast
  have "\<exists>d b'. create_core_definition gg0 uuid1 uuid2 ''cores'' [(''Cores'', JList [])] = (Inr d, b')"
    by (simp add: gg_core_def gg_device_def gg_function_def gg_resource_def gg_subs_def gg_group_def gg0_def
        GreengrassBackend_init_def definition_eval Let_def)
  then obtain d b' where h: "create_core_definition gg0 uuid1 uuid2 ''cores'' [(''Cores'', JList [])] = (Inr d, b')" by blast
  from arn_synthesis [THEN conjunct2, THEN conjunct2, THEN conjunct1, THEN mp, OF h] h r0
  have w_core: "\<exists>d b'. create_core_definition gg0 uuid1 uuid2 ''cores'' [(''Cores'', JList [])] = (Inr d, b') \<and>
      cd_arn d = arn_format ''greengrass'' ''eu-west-1'' get_account_id
        ''greengrass/definition/cores'' uuid1 \<and>
      cd_latest_version_arn d = version_arn_format ''greengrass'' ''eu-west-1'' get_account_id
        ''greengrass/definition/cores'' uuid1 uuid2"
    by auto
  have "\<exists>v b'. create_core_definition_version gg_core uuid3 uuid1 (JList []) = (Inr v, b')"
    by (simp add: gg_core_def gg_device_def gg_function_def gg_resource_def gg_subs_def gg_group_def gg0_def
        GreengrassBackend_init_def definition_eval Let_def)
  then obtain v b' where h: "create_core_definition_version gg_core uuid3 uuid1 (JList []) = (Inr v, b')" by blast
  have r: "gg_region_name gg_core = ''eu-west-1''"
    by (simp add: gg_core_def gg_device_def gg_function_def gg_resource_def gg_subs_def gg_group_def gg0_def
        GreengrassBackend_init_def definition_eval Let_def)
  from arn_synthesis [THEN conjunct2, THEN conjunct2, THEN conjunct2, THEN conjunct1, THEN mp, OF h] h r
  have w_core_version: "\<exists>v b'. create_core_definition_version gg_core uuid3 uuid1 (JList []) = (Inr v, b') \<and>
      cdv_arn v = version_arn_format ''greengrass'' ''eu-west-1'' get_account_id
        ''greengrass/definition/cores'' uuid1 uuid3"
    by auto
  have "\<exists>d b'. create_device_definition gg0 uuid1 uuid2 ''devices'' [(''Devices'', JList [])] = (Inr d, b')"
    by (simp add: gg_core_def gg_device_def gg_function_def gg_resource_def gg_subs_def gg_group_def gg0_def
        GreengrassBackend_init_def definition_eval Let_def)
  then obtain d b' where h: "create_device_definition gg0 uuid1 uuid2 ''devices'' [(''Devices'', JList [])] = (Inr d, b')" by blast
  from arn_synthesis [THEN conjunct2, THEN conjunct2, THEN conjunct2, THEN conjunct2, THEN conjunct1, THEN mp, OF h] h r0
  have w_device: "\<exists>d b'. create_device_definition gg0 uuid1 uuid2 ''devices'' [(''Devices'', JList [])] = (Inr d, b') \<and>
      dd_arn d = arn_format ''greengrass'' ''eu-west-1'' get_account_id
        ''greengrass/definition/devices'' uuid1 \<and>
      dd_latest_version_arn d = version_arn_format ''greengrass'' ''eu-west-1'' get_account_id
        ''greengrass/definition/devices'' uuid1 uuid2"
    by auto
  have "\<exists>v b'. create_device_definition_version gg_device uuid3 uuid1 (JList []) = (Inr v, b')"
    by (simp add: gg_core_def gg_device_def gg_function_def gg_resource_def gg_subs_def gg_group_def gg0_def
        GreengrassBackend_init_def definition_eval Let_def)
  then obtain v b' where h: "create_device_definition_version gg_device uuid3 uuid1 (JList []) = (Inr v, b')" by blast
  have r: "gg_region_name gg_device = ''eu-west-1''"
    by (simp add: gg_core_def gg_device_def gg_function_def gg_resource_def gg_subs_def gg_group_def gg0_def
        GreengrassBackend_init_def definition_eval Let_def)
  from arn_synthesis [THEN conjunct2, THEN conjunct2, THEN conjunct2, THEN conjunct2, THEN conjunct2, THEN conjunct1, THEN mp, OF h] h r
  have w_device_version: "\<exists>v b'. create_device_definition_version gg_device uuid3 uuid1 (JList []) = (Inr v, b') \<and>
      ddv_arn v = version_arn_format ''greengrass'' ''eu-west-1'' get_account_id
        ''greengrass/definition/devices'' uuid1 uuid3"
    by auto
  have "\<exists>d b'. create_function_definition gg0 uuid1 uuid2 ''functions'' [(''Functions'', JList [])] = (Inr d, b')"
    by (simp add: gg_core_def gg_device_def gg_function_def gg_resource_def gg_subs_def gg_group_def gg0_def
        GreengrassBackend_init_def definition_eval Let_def)
  then obtain d b' where h: "create_function_definition gg0 uuid1 uuid2 ''functions'' [(''Functions'', JList [])] = (Inr d, b')" by blast
  from arn_synthesis [THEN conjunct2, THEN conjunct2, THEN conjunct2, THEN conjunct2, THEN conjunct2, THEN conjunct2, THEN conjunct1, THEN mp, OF h] h r0
  have w_function: "\<exists>d b'. create_function_definition gg0 uuid1 uuid2 ''functions'' [(''Functions'', JList [])] = (Inr d, b') \<and>
      fd_arn d = arn_format ''greengrass'' ''eu-west-1'' get_account_id
        ''greengrass/definition/functions'' uuid1 \<and>
      fd_latest_version_arn d = version_arn_format ''greengrass'' ''eu-west-1'' get_account_id
        ''greengrass/definition/functions'' uuid1 uuid2"
    by auto
  have "\<exists>v b'. create_function_definition_version gg_function uuid3 uuid1 (JList []) (JDict []) = (Inr v, b')"
    by (simp add: gg_core_def gg_device_def gg_function_def gg_resource_def gg_subs_def gg_group_def gg0_def
        GreengrassBackend_init_def definition_eval Let_def)
  then obtain v b' where h: "create_function_definition_version gg_function uuid3 uuid1 (JList []) (JDict []) = (Inr v, b')" by blast
  have r: "gg_region_name gg_function = ''eu-west-1''"
    by (simp add: gg_core_def gg_device_def gg_function_def gg_resource_def gg_subs_def gg_group_def gg0_def
        GreengrassBackend_init_def definition_eval Let_def)
  from arn_synthesis [THEN conjunct2, THEN conjunct2, THEN conjunct2, THEN conjunct2, THEN conjunct2, THEN conjunct2, THEN conjunct2, THEN conjunct1, THEN mp, OF h] h r
  have w_function_version: "\<exists>v b'. create_function_definition_version gg_function uuid3 uuid1 (JList []) (JDict []) = (Inr v, b') \<and>
      fdv_arn v = version_arn_format ''greengrass'' ''eu-west-1'' get_account_id
        ''greengrass/definition/functions'' uuid1 uuid3"
    by auto
  have "\<exists>d b'. create_resource_definition gg0 uuid1 uuid2 ''resources'' \<lparr>Resources = Some []\<rparr> = (Inr d, b')"
    by (simp add: gg_core_def gg_device_def gg_function_def gg_resource_def gg_subs_def gg_group_def gg0_def
        GreengrassBackend_init_def definition_eval Let_def)
  then obtain d b' where h: "create_resource_definition gg0 uuid1 uuid2 ''resources'' \<lparr>Resources = Some []\<rparr> = (Inr d, b')" by blast
  from arn_synthesis [THEN conjunct2, THEN conjunct2, THEN conjunct2, THEN conjunct2, THEN conjunct2, THEN conjunct2, THEN conjunct2, THEN conjunct2, THEN conjunct1, THEN mp, OF h] h r0
  have w_resource: "\<exists>d b'. create_resource_definition gg0 uuid1 uuid2 ''resources'' \<lparr>Resources = Some []\<rparr> = (Inr d, b') \<and>
      rd_arn d = arn_format ''greengrass'' ''eu-west-1'' get_account_id
        ''greengrass/definition/resources'' uuid1 \<and>
      rd_latest_version_arn d = version_arn_format ''greengrass'' ''eu-west-1'' get_account_id
        ''greengrass/definition/resources'' uuid1 uuid2"
    by auto
  have "\<exists>v b'. create_resource_definition_version gg_resource uuid3 uuid1 [] = (Inr v, b')"
    by (simp add: gg_core_def gg_device_def gg_function_def gg_resource_def gg_subs_def gg_group_def gg0_def
        GreengrassBackend_init_def definition_eval Let_def)
  then obtain v b' where h: "create_resource_definition_version gg_resource uuid3 uuid1 [] = (Inr v, b')" by blast
  have r: "gg_region_name gg_resource = ''eu-west-1''"
    by (simp add: gg_core_def gg_device_def gg_function_def gg_resource_def gg_subs_def gg_group_def gg0_def
        GreengrassBackend_init_def definition_eval Let_def)
  from arn_synthesis [THEN conjunct2, THEN conjunct2, THEN conjunct2, THEN conjunct2, THEN conjunct2, THEN conjunct2, THEN conjunct2, THEN conjunct2, THEN conjunct2, THEN conjunct1, THEN mp, OF h] h r
  have w_resource_version: "\<exists>v b'. create_resource_definition_version gg_resource uuid3 uuid1 [] = (Inr v, b') \<and>
      rdv_arn v = version_arn_format ''greengrass'' ''eu-west-1'' get_account_id
        ''greengrass/definition/resources'' uuid1 uuid3"
    by auto
  have "\<exists>d b'. create_subscription_definition gg0 uuid1 uuid2 ''subscriptions'' \<lparr>Subscriptions = Some [sub_ok]\<rparr> = (Inr d, b')"
    by (simp add: gg_core_def gg_device_def gg_function_def gg_resource_def gg_subs_def gg_group_def gg0_def
        GreengrassBackend_init_def definition_eval Let_def)
  then obtain d b' where h: "create_subscription_definition gg0 uuid1 uuid2 ''subscriptions'' \<lparr>Subscriptions = Some [sub_ok]\<rparr> = (Inr d, b')" by blast
  from arn_synthesis [THEN conjunct2, THEN conjunct2, THEN conjunct2, THEN conjunct2, THEN conjunct2, THEN conjunct2, THEN conjunct2, THEN conjunct2, THEN conjunct2, THEN conjunct2, THEN conjunct1, THEN mp, OF h] h r0
  have w_subscription: "\<exists>d b'. create_subscription_definition gg0 uuid1 uuid2 ''subscriptions'' \<lparr>Subscriptions = Some [sub_ok]\<rparr> = (Inr d, b') \<and>
      sd_arn d = arn_format ''greengrass'' ''eu-west-1'' get_account_id
        ''greengrass/definition/subscriptions'' uuid1 \<and>
      sd_latest_version_arn d = version_arn_format ''greengrass'' ''eu-west-1'' get_account_id
        ''greengrass/definition/subscriptions'' uuid1 uuid2"
    by auto
  have "\<exists>v b'. create_subscription_definition_version gg_subs uuid3 uuid1 [sub_other] = (Inr v, b')"
    by (simp add: gg_core_def gg_device_def gg_function_def gg_resource_def gg_subs_def gg_group_def gg0_def
        GreengrassBackend_init_def definition_eval Let_def)
  then obtain v b' where h: "create_subscription_definition_version gg_subs uuid3 uuid1 [sub_other] = (Inr v, b')" by blast
  have r: "gg_region_name gg_subs = ''eu-west-1''"
    by (simp add: gg_core_def gg_device_def gg_function_def gg_resource_def gg_subs_def gg_group_def gg0_def
        GreengrassBackend_init_def definition_eval Let_def)
  from arn_synthesis [THEN conjunct2, THEN conjunct2, THEN conjunct2, THEN conjunct2, THEN conjunct2, THEN conjunct2, THEN conjunct2, THEN conjunct2, THEN conjunct2, THEN conjunct2, THEN conjunct2, THEN conjunct1, THEN mp, OF h] h r
  have w_subscription_version: "\<exists>v b'. create_subscription_definition_version gg_subs uuid3 uuid1 [sub_other] = (Inr v, b') \<and>
      sdv_arn v = version_arn_format ''greengrass'' ''eu-west-1'' get_account_id
        ''greengrass/definition/subscriptions'' uuid1 uuid3"
    by auto
  have "\<exists>g b'. create_group gg0 uuid1 uuid2 ''group'' None = (Inr g, b')"
    by (simp add: gg_eval)
  then obtain g b' where h: "create_group gg0 uuid1 uuid2 ''group'' None = (Inr g, b')" by blast
  from arn_synthesis [THEN conjunct2, THEN conjunct2, THEN conjunct2, THEN conjunct2, THEN conjunct2, THEN conjunct2, THEN conjunct2, THEN conjunct2, THEN conjunct2, THEN conjunct2, THEN conjunct2, THEN conjunct2, THEN conjunct1, THEN mp, OF h] h r0
  have w_group: "\<exists>g b'. create_group gg0 uuid1 uuid2 ''group'' None = (Inr g, b') \<and>
      g_arn g = arn_format ''greengrass'' ''eu-west-1'' get_account_id
        ''greengrass/groups'' uuid1 \<and>
      g_latest_version_arn g = version_arn_format ''greengrass'' ''eu-west-1'' get_account_id
        ''greengrass/groups'' uuid1 uuid2"
    by auto
  have "\<exists>v b'. create_group_version gg_group uuid3 uuid1 None None None None None = (Inr v, b')"
    by (simp add: gg_eval)
  then obtain v b' where h: "create_group_version gg_group uuid3 uuid1 None None None None None = (Inr v, b')" by blast
  have r: "gg_region_name gg_group = ''eu-west-1''" by (simp add: gg_eval)
  from arn_synthesis [THEN conjunct2, THEN conjunct2, THEN conjunct2, THEN conjunct2, THEN conjunct2, THEN conjunct2, THEN conjunct2, THEN conjunct2, THEN conjunct2, THEN conjunct2, THEN conjunct2, THEN conjunct2, THEN conjunct2, THEN mp, OF h] h r
  have w_group_version: "\<exists>v b'. create_group_version gg_group uuid3 uuid1 None None None None None = (Inr v, b') \<and>
      gv_arn v = version_arn_format ''greengrass'' ''eu-west-1'' get_account_id
        ''greengrass/groups'' uuid1 uuid3"
    by auto
  from w_crawler w_core w_core_version w_device w_device_version w_function w_function_version w_resource w_resource_version w_subscription w_subscription_version w_group w_group_version
  show ?thesis by (intro conjI)
qed


text \<open>
  The claim as the spec words it fails: the crawler and the job created in the backend of
  the region \<^verbatim>\<open>global\<close> (the only one the data catalog has) carry \<^verbatim>\<open>us-east-1\<close>.
\<close>

theorem crawler_region_counterexample:
  "glue_region_name glue0 = ''global'' \<and>
   glue_crawl = snd (create_crawler glue0 ''crawl'' (JStr ''role'') JNull JNull JNull JNull JNull JNull
        JNull JNull JNull JNull JNull None) \<and>
   map_option cr_arn (map_of (crawlers glue_crawl) ''crawl'')
     = Some ''arn:aws:glue:us-east-1:123456789012:crawler/crawl'' \<and>
   map_option cr_arn (map_of (crawlers glue_crawl) ''crawl'')
     \<noteq> Some (arn_format ''glue'' (glue_region_name glue0) get_account_id ''crawler'' ''crawl'') \<and>
   map_option job_arn (map_of (jobs glue_etl) ''etl'')
     = Some ''arn:aws:glue:us-east-1:123456789012:job/etl'' \<and>
   map_option job_arn (map_of (jobs glue_etl) ''etl'')
     \<noteq> Some (arn_format ''glue'' (glue_region_name glue0) get_account_id ''job'' ''etl'')"
  by (simp add: glue_eval arn_format_def)

end
